theory Spec2Isabelle
  imports Complex_Main "HOL-Library.Word"
begin

section \<open>Balls: the enclosure type of \<open>examples/integrals.c\<close>\<close>

text \<open>
  The integrands work on complex balls \<open>acb_t\<close>: a pair of real balls \<open>arb_t\<close>, each a
  midpoint (\<open>arf_t\<close>: a number, an infinity or NaN) with a radius (\<open>mag_t\<close>: a bound,
  possibly infinite). The example program reaches the parts through \<open>acb_realref\<close>,
  \<open>acb_imagref\<close> and \<open>arb_radref\<close>, which are the field names used here.
  \<open>slong\<close> and \<open>ulong\<close> are the 64-bit signed and unsigned machine words.
\<close>

type_synonym slong = "64 word"
type_synonym ulong = "64 word"

datatype arf = Arf real | ArfPosInf | ArfNegInf | ArfNan

datatype mag = Mag real | MagInf

record arb =
  arb_midref :: arf
  arb_radref :: mag

record acb =
  acb_realref :: arb
  acb_imagref :: arb

text \<open>What a ball encloses: the reals within the radius of the midpoint; everything when
  the radius is infinite or the midpoint is NaN.\<close>

fun ball_encloses :: "arf \<Rightarrow> mag \<Rightarrow> real \<Rightarrow> bool" where
  "ball_encloses (Arf m) (Mag r) t \<longleftrightarrow> \<bar>t - m\<bar> \<le> r"
| "ball_encloses (Arf m) MagInf t \<longleftrightarrow> True"
| "ball_encloses ArfNan r t \<longleftrightarrow> True"
| "ball_encloses ArfPosInf MagInf t \<longleftrightarrow> True"
| "ball_encloses ArfNegInf MagInf t \<longleftrightarrow> True"
| "ball_encloses ArfPosInf (Mag r) t \<longleftrightarrow> False"
| "ball_encloses ArfNegInf (Mag r) t \<longleftrightarrow> False"

definition arb_encloses :: "arb \<Rightarrow> real \<Rightarrow> bool" where
  "arb_encloses x t \<longleftrightarrow> ball_encloses (arb_midref x) (arb_radref x) t"

definition acb_encloses :: "acb \<Rightarrow> complex \<Rightarrow> bool" where
  "acb_encloses z w \<longleftrightarrow>
     arb_encloses (acb_realref z) (Re w) \<and> arb_encloses (acb_imagref z) (Im w)"

subsection \<open>Constants and exact operations of the ball library\<close>

text \<open>Modelled from the spec: the ball library (\<open>arb.h\<close>, \<open>acb.h\<close>, \<open>mag.h\<close>) is not among
  the sources. Its constants, its exact operations (negation, scaling by a power of two,
  division by \<open>i\<close>, conversion of machine numbers) and its tests for finiteness, sign and
  containment of zero or of an integer are modelled by their documented meaning on the
  representation above.\<close>

definition arb_zero :: arb where
  "arb_zero = \<lparr>arb_midref = Arf 0, arb_radref = Mag 0\<rparr>"

definition arb_one :: arb where
  "arb_one = \<lparr>arb_midref = Arf 1, arb_radref = Mag 0\<rparr>"

definition arb_indeterminate :: arb where
  "arb_indeterminate = \<lparr>arb_midref = ArfNan, arb_radref = MagInf\<rparr>"

definition acb_zero :: acb where
  "acb_zero = \<lparr>acb_realref = arb_zero, acb_imagref = arb_zero\<rparr>"

definition acb_one :: acb where
  "acb_one = \<lparr>acb_realref = arb_one, acb_imagref = arb_zero\<rparr>"

definition acb_onei :: acb where
  "acb_onei = \<lparr>acb_realref = arb_zero, acb_imagref = arb_one\<rparr>"

definition acb_indeterminate :: acb where
  "acb_indeterminate = \<lparr>acb_realref = arb_indeterminate, acb_imagref = arb_indeterminate\<rparr>"

definition mag_one :: mag where
  "mag_one = Mag 1"

fun arf_is_finite :: "arf \<Rightarrow> bool" where
  "arf_is_finite (Arf m) \<longleftrightarrow> True"
| "arf_is_finite ArfPosInf \<longleftrightarrow> False"
| "arf_is_finite ArfNegInf \<longleftrightarrow> False"
| "arf_is_finite ArfNan \<longleftrightarrow> False"

fun mag_is_finite :: "mag \<Rightarrow> bool" where
  "mag_is_finite (Mag r) \<longleftrightarrow> True"
| "mag_is_finite MagInf \<longleftrightarrow> False"

definition arb_is_finite :: "arb \<Rightarrow> bool" where
  "arb_is_finite x \<longleftrightarrow> arf_is_finite (arb_midref x) \<and> mag_is_finite (arb_radref x)"

definition acb_is_finite :: "acb \<Rightarrow> bool" where
  "acb_is_finite z \<longleftrightarrow> arb_is_finite (acb_realref z) \<and> arb_is_finite (acb_imagref z)"

definition arb_is_zero :: "arb \<Rightarrow> bool" where
  "arb_is_zero x \<longleftrightarrow> arb_midref x = Arf 0 \<and> arb_radref x = Mag 0"

definition acb_is_real :: "acb \<Rightarrow> bool" where
  "acb_is_real z \<longleftrightarrow> arb_is_zero (acb_imagref z)"

fun ball_contains_zero :: "arf \<Rightarrow> mag \<Rightarrow> bool" where
  "ball_contains_zero (Arf m) (Mag r) \<longleftrightarrow> \<bar>m\<bar> \<le> r"
| "ball_contains_zero (Arf m) MagInf \<longleftrightarrow> True"
| "ball_contains_zero ArfNan r \<longleftrightarrow> True"
| "ball_contains_zero ArfPosInf MagInf \<longleftrightarrow> True"
| "ball_contains_zero ArfNegInf MagInf \<longleftrightarrow> True"
| "ball_contains_zero ArfPosInf (Mag r) \<longleftrightarrow> False"
| "ball_contains_zero ArfNegInf (Mag r) \<longleftrightarrow> False"

definition arb_contains_zero :: "arb \<Rightarrow> bool" where
  "arb_contains_zero x \<longleftrightarrow> ball_contains_zero (arb_midref x) (arb_radref x)"

fun ball_is_nonnegative :: "arf \<Rightarrow> mag \<Rightarrow> bool" where
  "ball_is_nonnegative (Arf m) (Mag r) \<longleftrightarrow> r \<le> m"
| "ball_is_nonnegative ArfPosInf (Mag r) \<longleftrightarrow> True"
| "ball_is_nonnegative m r \<longleftrightarrow> False"

definition arb_is_nonnegative :: "arb \<Rightarrow> bool" where
  "arb_is_nonnegative x \<longleftrightarrow> ball_is_nonnegative (arb_midref x) (arb_radref x)"

fun ball_is_negative :: "arf \<Rightarrow> mag \<Rightarrow> bool" where
  "ball_is_negative (Arf m) (Mag r) \<longleftrightarrow> m + r < 0"
| "ball_is_negative ArfNegInf (Mag r) \<longleftrightarrow> True"
| "ball_is_negative m r \<longleftrightarrow> False"

definition arb_is_negative :: "arb \<Rightarrow> bool" where
  "arb_is_negative x \<longleftrightarrow> ball_is_negative (arb_midref x) (arb_radref x)"

fun ball_contains_nonpositive :: "arf \<Rightarrow> mag \<Rightarrow> bool" where
  "ball_contains_nonpositive (Arf m) (Mag r) \<longleftrightarrow> m - r \<le> 0"
| "ball_contains_nonpositive ArfPosInf (Mag r) \<longleftrightarrow> False"
| "ball_contains_nonpositive m r \<longleftrightarrow> True"

definition arb_contains_nonpositive :: "arb \<Rightarrow> bool" where
  "arb_contains_nonpositive x \<longleftrightarrow> ball_contains_nonpositive (arb_midref x) (arb_radref x)"

fun ball_contains_int :: "arf \<Rightarrow> mag \<Rightarrow> bool" where
  "ball_contains_int (Arf m) (Mag r) \<longleftrightarrow> \<lceil>m - r\<rceil> \<le> \<lfloor>m + r\<rfloor>"
| "ball_contains_int m r \<longleftrightarrow> True"

definition arb_contains_int :: "arb \<Rightarrow> bool" where
  "arb_contains_int x \<longleftrightarrow> ball_contains_int (arb_midref x) (arb_radref x)"

fun arf_neg :: "arf \<Rightarrow> arf" where
  "arf_neg (Arf m) = Arf (- m)"
| "arf_neg ArfPosInf = ArfNegInf"
| "arf_neg ArfNegInf = ArfPosInf"
| "arf_neg ArfNan = ArfNan"

definition arb_neg :: "arb \<Rightarrow> arb" where
  "arb_neg x = x\<lparr>arb_midref := arf_neg (arb_midref x)\<rparr>"

definition acb_neg :: "acb \<Rightarrow> acb" where
  "acb_neg z = \<lparr>acb_realref = arb_neg (acb_realref z), acb_imagref = arb_neg (acb_imagref z)\<rparr>"

subsection \<open>The rounding operations of the ball library, as a parameter\<close>

text \<open>Modelled from the spec: the arithmetic and the special functions of the ball
  library are absent from the sources and round to \<open>prec\<close> bits in ways the example
  program does not see. They are taken as a parameter \<open>L\<close>, one field per library
  function, each with the arguments the program passes (the output variable first where
  the function reads it, the precision last). What the spec asks of them (conservative
  enclosures) is stated as an explicit hypothesis wherever a theorem needs it.\<close>

record lib =
  acb_set_round :: "acb \<Rightarrow> slong \<Rightarrow> acb"
  acb_neg_round :: "acb \<Rightarrow> slong \<Rightarrow> acb"
  arb_set_round :: "arb \<Rightarrow> slong \<Rightarrow> arb"
  acb_union :: "acb \<Rightarrow> acb \<Rightarrow> slong \<Rightarrow> acb"
  arb_floor :: "arb \<Rightarrow> slong \<Rightarrow> arb"
  acb_sqrt :: "acb \<Rightarrow> slong \<Rightarrow> acb"
  acb_sin :: "acb \<Rightarrow> slong \<Rightarrow> acb"
  acb_exp :: "acb \<Rightarrow> slong \<Rightarrow> acb"
  acb_inv :: "acb \<Rightarrow> slong \<Rightarrow> acb"
  acb_zeta :: "acb \<Rightarrow> slong \<Rightarrow> acb"
  acb_gamma :: "acb \<Rightarrow> slong \<Rightarrow> acb"
  acb_sech :: "acb \<Rightarrow> slong \<Rightarrow> acb"
  acb_log :: "acb \<Rightarrow> slong \<Rightarrow> acb"
  acb_cube :: "acb \<Rightarrow> slong \<Rightarrow> acb"
  acb_add :: "acb \<Rightarrow> acb \<Rightarrow> slong \<Rightarrow> acb"
  acb_sub :: "acb \<Rightarrow> acb \<Rightarrow> slong \<Rightarrow> acb"
  acb_mul :: "acb \<Rightarrow> acb \<Rightarrow> slong \<Rightarrow> acb"
  acb_div :: "acb \<Rightarrow> acb \<Rightarrow> slong \<Rightarrow> acb"
  acb_submul :: "acb \<Rightarrow> acb \<Rightarrow> acb \<Rightarrow> slong \<Rightarrow> acb"
  acb_add_si :: "acb \<Rightarrow> slong \<Rightarrow> slong \<Rightarrow> acb"
  acb_add_ui :: "acb \<Rightarrow> ulong \<Rightarrow> slong \<Rightarrow> acb"
  acb_sub_ui :: "acb \<Rightarrow> ulong \<Rightarrow> slong \<Rightarrow> acb"
  acb_mul_ui :: "acb \<Rightarrow> ulong \<Rightarrow> slong \<Rightarrow> acb"
  acb_div_ui :: "acb \<Rightarrow> ulong \<Rightarrow> slong \<Rightarrow> acb"
  acb_pow_ui :: "acb \<Rightarrow> ulong \<Rightarrow> slong \<Rightarrow> acb"
  acb_pow_si :: "acb \<Rightarrow> slong \<Rightarrow> slong \<Rightarrow> acb"
  acb_modular_elliptic_p :: "acb \<Rightarrow> acb \<Rightarrow> slong \<Rightarrow> acb"
  acb_dirichlet_zeta_jet :: "acb \<Rightarrow> int \<Rightarrow> slong \<Rightarrow> slong \<Rightarrow> nat \<Rightarrow> acb"
  acb_lambertw :: "acb \<Rightarrow> int \<Rightarrow> int \<Rightarrow> slong \<Rightarrow> acb"
  arb_const_e :: "slong \<Rightarrow> arb"
  acb_const_pi :: "slong \<Rightarrow> acb"
  acb_rel_accuracy_bits :: "acb \<Rightarrow> slong"

text \<open>\<open>FLINT_MIN(x, y)\<close> is the macro \<open>((x) > (y) ? (y) : (x))\<close>, here on signed words.\<close>

definition FLINT_MIN :: "slong \<Rightarrow> slong \<Rightarrow> slong" where
  "FLINT_MIN x y = (if sint x > sint y then y else x)"

subsection \<open>What the spec asks of the library operations\<close>

text \<open>Modelled from the spec: the enclosure arithmetic is ``exact-conservative'': the ball
  an operation returns encloses the value of the mathematical function at every point
  the argument balls enclose. The predicates below state this, and the preservation of
  finiteness, for one operation each; theorems name the ones they rely on.\<close>

definition encloses_fun1 :: "(acb \<Rightarrow> slong \<Rightarrow> acb) \<Rightarrow> (complex \<Rightarrow> complex) \<Rightarrow> bool" where
  "encloses_fun1 F g \<longleftrightarrow>
     (\<forall>z prec w. acb_encloses z w \<longrightarrow> acb_encloses (F z prec) (g w))"

definition encloses_fun2 ::
  "(acb \<Rightarrow> acb \<Rightarrow> slong \<Rightarrow> acb) \<Rightarrow> (complex \<Rightarrow> complex \<Rightarrow> complex) \<Rightarrow> bool" where
  "encloses_fun2 F g \<longleftrightarrow>
     (\<forall>x y prec v w. acb_encloses x v \<and> acb_encloses y w
        \<longrightarrow> acb_encloses (F x y prec) (g v w))"

definition encloses_real1 :: "(arb \<Rightarrow> slong \<Rightarrow> arb) \<Rightarrow> (real \<Rightarrow> real) \<Rightarrow> bool" where
  "encloses_real1 F g \<longleftrightarrow>
     (\<forall>x prec t. arb_encloses x t \<longrightarrow> arb_encloses (F x prec) (g t))"

definition finite_fun1 :: "(acb \<Rightarrow> slong \<Rightarrow> acb) \<Rightarrow> bool" where
  "finite_fun1 F \<longleftrightarrow> (\<forall>z prec. acb_is_finite z \<longrightarrow> acb_is_finite (F z prec))"

definition finite_fun2 :: "(acb \<Rightarrow> acb \<Rightarrow> slong \<Rightarrow> acb) \<Rightarrow> bool" where
  "finite_fun2 F \<longleftrightarrow>
     (\<forall>x y prec. acb_is_finite x \<and> acb_is_finite y \<longrightarrow> acb_is_finite (F x y prec))"

definition finite_real1 :: "(arb \<Rightarrow> slong \<Rightarrow> arb) \<Rightarrow> bool" where
  "finite_real1 F \<longleftrightarrow> (\<forall>x prec. arb_is_finite x \<longrightarrow> arb_is_finite (F x prec))"

text \<open>The union encloses what either argument encloses; \<open>acb_submul(res, x, y)\<close> encloses
  \<open>res - x y\<close>; the square root is finite on a finite ball that stays off the branch cut.\<close>

definition union_encloses :: "(acb \<Rightarrow> acb \<Rightarrow> slong \<Rightarrow> acb) \<Rightarrow> bool" where
  "union_encloses F \<longleftrightarrow>
     (\<forall>x y prec w. acb_encloses x w \<or> acb_encloses y w \<longrightarrow> acb_encloses (F x y prec) w)"

definition submul_encloses :: "(acb \<Rightarrow> acb \<Rightarrow> acb \<Rightarrow> slong \<Rightarrow> acb) \<Rightarrow> bool" where
  "submul_encloses F \<longleftrightarrow>
     (\<forall>r x y prec u v w. acb_encloses r u \<and> acb_encloses x v \<and> acb_encloses y w
        \<longrightarrow> acb_encloses (F r x y prec) (u - v * w))"

definition sqrt_finite_off_cut :: "(acb \<Rightarrow> slong \<Rightarrow> acb) \<Rightarrow> bool" where
  "sqrt_finite_off_cut F \<longleftrightarrow>
     (\<forall>z prec. acb_is_finite z
        \<and> \<not> (arb_contains_zero (acb_imagref z) \<and> arb_contains_nonpositive (acb_realref z))
        \<longrightarrow> acb_is_finite (F z prec))"

text \<open>The mathematical functions the helpers stand for, in the spec's words: the absolute
  value continued to the right and the left half plane, the floor function continued to
  the vertical strips between integers (where it is constant), and the principal
  square root.\<close>

definition abs_halfplanes :: "complex \<Rightarrow> complex" where
  "abs_halfplanes w = (if 0 \<le> Re w then w else - w)"

definition floor_strips :: "complex \<Rightarrow> complex" where
  "floor_strips w = of_int \<lfloor>Re w\<rfloor>"

text \<open>The library operations the three helpers call, with what the spec asks of each.\<close>

definition helpers_lib_ok :: "lib \<Rightarrow> bool" where
  "helpers_lib_ok L \<longleftrightarrow>
     encloses_fun1 (acb_set_round L) (\<lambda>w. w) \<and> finite_fun1 (acb_set_round L) \<and>
     encloses_fun1 (acb_neg_round L) uminus \<and> finite_fun1 (acb_neg_round L) \<and>
     encloses_real1 (arb_set_round L) (\<lambda>t. t) \<and> finite_real1 (arb_set_round L) \<and>
     encloses_real1 (arb_floor L) (\<lambda>t. of_int \<lfloor>t\<rfloor>) \<and> finite_real1 (arb_floor L) \<and>
     encloses_fun1 (acb_sqrt L) csqrt \<and> sqrt_finite_off_cut (acb_sqrt L)"

text \<open>The same for operations that take a machine word, and for the elementary operations
  the integrands are composed of.\<close>

definition encloses_word ::
  "(acb \<Rightarrow> 64 word \<Rightarrow> slong \<Rightarrow> acb) \<Rightarrow> (complex \<Rightarrow> 64 word \<Rightarrow> complex) \<Rightarrow> bool" where
  "encloses_word F g \<longleftrightarrow>
     (\<forall>z n prec w. acb_encloses z w \<longrightarrow> acb_encloses (F z n prec) (g w n))"

definition elementary_lib_ok :: "lib \<Rightarrow> bool" where
  "elementary_lib_ok L \<longleftrightarrow>
     encloses_fun1 (acb_sin L) sin \<and> encloses_fun1 (acb_exp L) exp \<and>
     encloses_fun1 (acb_inv L) inverse \<and>
     encloses_fun1 (acb_sech L) (\<lambda>w. inverse (cosh w)) \<and>
     encloses_fun1 (acb_cube L) (\<lambda>w. w ^ 3) \<and>
     encloses_fun2 (acb_add L) (+) \<and> encloses_fun2 (acb_mul L) (*) \<and>
     encloses_fun2 (acb_div L) (/) \<and>
     encloses_word (acb_add_si L) (\<lambda>w n. w + of_int (sint n)) \<and>
     encloses_word (acb_add_ui L) (\<lambda>w n. w + of_nat (unat n)) \<and>
     encloses_word (acb_sub_ui L) (\<lambda>w n. w - of_nat (unat n)) \<and>
     encloses_word (acb_mul_ui L) (\<lambda>w n. w * of_nat (unat n)) \<and>
     encloses_word (acb_pow_ui L) (\<lambda>w n. w ^ unat n)"

text \<open>Modelled from the spec: the Riemann zeta function and its derivative, the gamma
  function, the complex logarithm, the Weierstrass function \<open>wp(z; tau)\<close> and the principal
  branch of the Lambert W function are not defined in \<open>Complex_Main\<close>. They are parameters,
  a record of functions, and the contract asks of the library's operations that they
  enclose these functions; \<open>acb_dirichlet_zeta_jet\<close> is asked for the two coefficients that
  \<open>f_zeta_frac\<close> reads, \<open>acb_lambertw\<close> for the branch and flags that \<open>f_lambertw\<close> passes.
  The integer power is HOL's.\<close>

record special_functions =
  sf_zeta :: "complex \<Rightarrow> complex"
  sf_zeta_deriv :: "complex \<Rightarrow> complex"
  sf_gamma :: "complex \<Rightarrow> complex"
  sf_log :: "complex \<Rightarrow> complex"
  sf_wp :: "complex \<Rightarrow> complex \<Rightarrow> complex"
  sf_lambertw :: "complex \<Rightarrow> complex"

definition special_lib_ok :: "lib \<Rightarrow> special_functions \<Rightarrow> bool" where
  "special_lib_ok L S \<longleftrightarrow>
     encloses_fun1 (acb_zeta L) (sf_zeta S) \<and>
     encloses_fun1 (acb_gamma L) (sf_gamma S) \<and>
     encloses_fun1 (acb_log L) (sf_log S) \<and>
     encloses_fun2 (acb_modular_elliptic_p L) (sf_wp S) \<and>
     encloses_word (acb_pow_si L) (\<lambda>w e. w powi sint e) \<and>
     (\<forall>z prec w. acb_encloses z w \<longrightarrow>
        acb_encloses (acb_dirichlet_zeta_jet L z 0 2 prec 0) (sf_zeta S w) \<and>
        acb_encloses (acb_dirichlet_zeta_jet L z 0 2 prec 1) (sf_zeta_deriv S w)) \<and>
     (\<forall>z prec w. acb_encloses z w \<longrightarrow>
        acb_encloses (acb_lambertw L z 0 0 prec) (sf_lambertw S w))"

section \<open>The helper functions of \<open>examples/integrals.c\<close>\<close>

text \<open>\<open>acb_holomorphic_abs\<close> writes its result to \<open>res\<close> and, in its last branch, reads
  \<open>res\<close> before writing it. The argument \<open>res\<close> below is what the output variable holds
  on entry; a call in place, \<open>acb_holomorphic_abs(res, res, ...)\<close>, passes the same ball
  for \<open>res\<close> and \<open>z\<close>.\<close>

definition acb_holomorphic_abs :: "lib \<Rightarrow> acb \<Rightarrow> acb \<Rightarrow> bool \<Rightarrow> slong \<Rightarrow> acb" where
  "acb_holomorphic_abs L res z holomorphic prec =
     (if \<not> acb_is_finite z \<or> (holomorphic \<and> arb_contains_zero (acb_realref z))
      then acb_indeterminate
      else if arb_is_nonnegative (acb_realref z) then acb_set_round L z prec
      else if arb_is_negative (acb_realref z) then acb_neg_round L z prec
      else (let t = acb_neg res in acb_union L z t prec))"

definition acb_holomorphic_floor :: "lib \<Rightarrow> acb \<Rightarrow> bool \<Rightarrow> slong \<Rightarrow> acb" where
  "acb_holomorphic_floor L z holomorphic prec =
     (if \<not> acb_is_finite z \<or> (holomorphic \<and> arb_contains_int (acb_realref z))
      then acb_indeterminate
      else \<lparr>acb_realref = arb_floor L (acb_realref z) prec,
            acb_imagref = arb_set_round L (acb_imagref z) prec\<rparr>)"

definition acb_holomorphic_sqrt :: "lib \<Rightarrow> acb \<Rightarrow> bool \<Rightarrow> slong \<Rightarrow> acb" where
  "acb_holomorphic_sqrt L z holomorphic prec =
     (if \<not> acb_is_finite z \<or>
         (holomorphic \<and> arb_contains_zero (acb_imagref z)
            \<and> arb_contains_nonpositive (acb_realref z))
      then acb_indeterminate
      else acb_sqrt L z prec)"

section \<open>The example integrands\<close>

text \<open>
  An integrand has the C type \<open>int f(acb_ptr res, const acb_t z, void * param, slong
  order, slong prec)\<close>. It either aborts the program (\<open>flint_abort\<close>) or returns an
  \<open>int\<close> with the ball it wrote to \<open>res\<close>. The parameter is a pointer: null, or the
  address of an \<open>slong\<close> in memory; memory is passed in and handed back, so that a write
  would show. Reading through a pointer that holds no \<open>slong\<close> is recorded as a fault.
\<close>

datatype fatal = Abort | Segv

datatype ptr = Null | Ptr nat

type_synonym heap = "nat \<rightharpoonup> slong"

fun load :: "heap \<Rightarrow> ptr \<Rightarrow> slong option" where
  "load h Null = None"
| "load h (Ptr a) = h a"

type_synonym acb_calc_func =
  "heap \<Rightarrow> acb \<Rightarrow> ptr \<Rightarrow> slong \<Rightarrow> slong \<Rightarrow> (fatal + int \<times> acb) \<times> heap"

definition f_sin :: "lib \<Rightarrow> acb_calc_func" where
  "f_sin L h z param order prec =
     (if sint order > 1 then (Inl Abort, h)
      else (Inr (0, acb_sin L z prec), h))"

definition f_floor :: "lib \<Rightarrow> acb_calc_func" where
  "f_floor L h z param order prec =
     (if sint order > 1 then (Inl Abort, h)
      else (Inr (0, acb_holomorphic_floor L z (order \<noteq> 0) prec), h))"

definition f_circle :: "lib \<Rightarrow> acb_calc_func" where
  "f_circle L h z param order prec =
     (if sint order > 1 then (Inl Abort, h)
      else
        let res = acb_one;
            res = acb_submul L res z z prec;
            res = acb_holomorphic_sqrt L res (order \<noteq> 0) prec;
            res = (if order = 0 then res\<lparr>acb_imagref := arb_zero\<rparr> else res)
        in (Inr (0, res), h))"

definition f_atanderiv :: "lib \<Rightarrow> acb_calc_func" where
  "f_atanderiv L h z param order prec =
     (if sint order > 1 then (Inl Abort, h)
      else
        let res = acb_mul L z z prec;
            res = acb_add_ui L res 1 prec;
            res = acb_inv L res prec
        in (Inr (0, res), h))"

definition f_rump :: "lib \<Rightarrow> acb_calc_func" where
  "f_rump L h z param order prec =
     (if sint order > 1 then (Inl Abort, h)
      else
        let res = acb_exp L z prec;
            res = acb_add L res z prec;
            res = acb_sin L res prec
        in (Inr (0, res), h))"

text \<open>The seven arithmetic statements of \<open>f_helfgott\<close> before the absolute value: the
  polynomial \<open>z^4 + 10z^3 + 19z^2 - 6z - 6\<close> in Horner form.\<close>

definition helfgott_poly :: "lib \<Rightarrow> acb \<Rightarrow> slong \<Rightarrow> acb" where
  "helfgott_poly L z prec =
     (let res = acb_add_si L z 10 prec;
          res = acb_mul L res z prec;
          res = acb_add_si L res 19 prec;
          res = acb_mul L res z prec;
          res = acb_add_si L res (- 6) prec;
          res = acb_mul L res z prec;
          res = acb_add_si L res (- 6) prec
      in res)"

definition f_helfgott :: "lib \<Rightarrow> acb_calc_func" where
  "f_helfgott L h z param order prec =
     (if sint order > 1 then (Inl Abort, h)
      else
        let res = helfgott_poly L z prec;
            res = acb_holomorphic_abs L res res (order \<noteq> 0) prec;
            res = (if acb_is_finite res
                   then (let t = acb_exp L z prec in acb_mul L res t prec)
                   else res)
        in (Inr (0, res), h))"

definition f_zeta :: "lib \<Rightarrow> acb_calc_func" where
  "f_zeta L h z param order prec =
     (if sint order > 1 then (Inl Abort, h)
      else (Inr (0, acb_zeta L z prec), h))"

text \<open>\<open>acb_zero(res); mag_one(arb_radref(acb_realref(res)))\<close>: the ball \<open>0 \<plusminus> 1\<close>.\<close>

definition acb_zero_pm_one :: acb where
  "acb_zero_pm_one = acb_zero\<lparr>acb_realref := (acb_realref acb_zero)\<lparr>arb_radref := mag_one\<rparr>\<rparr>"

definition f_essing2 :: "lib \<Rightarrow> acb_calc_func" where
  "f_essing2 L h z param order prec =
     (if sint order > 1 then (Inl Abort, h)
      else
        let res = (if order = 0 \<and> acb_is_real z \<and> arb_contains_zero (acb_realref z)
                   then acb_zero_pm_one
                   else (let res = acb_inv L z prec in acb_sin L res prec));
            res = acb_mul L res z prec
        in (Inr (0, res), h))"

definition f_essing :: "lib \<Rightarrow> acb_calc_func" where
  "f_essing L h z param order prec =
     (if sint order > 1 then (Inl Abort, h)
      else
        let res = (if order = 0 \<and> acb_is_real z \<and> arb_contains_zero (acb_realref z)
                   then acb_zero_pm_one
                   else (let res = acb_inv L z prec in acb_sin L res prec))
        in (Inr (0, res), h))"

definition f_factorial1000 :: "lib \<Rightarrow> acb_calc_func" where
  "f_factorial1000 L h z param order prec =
     (if sint order > 1 then (Inl Abort, h)
      else
        let t = acb_pow_ui L z 1000 prec;
            res = acb_neg z;
            res = acb_exp L res prec;
            res = acb_mul L res t prec
        in (Inr (0, res), h))"

definition f_gamma :: "lib \<Rightarrow> acb_calc_func" where
  "f_gamma L h z param order prec =
     (if sint order > 1 then (Inl Abort, h)
      else (Inr (0, acb_gamma L z prec), h))"

definition f_sin_plus_small :: "lib \<Rightarrow> acb_calc_func" where
  "f_sin_plus_small L h z param order prec =
     (if sint order > 1 then (Inl Abort, h)
      else
        let t = acb_mul L z z prec;
            t = acb_add_ui L t 200 prec;
            t = acb_neg t;
            t = acb_exp L t prec;
            res = acb_sin L z prec;
            res = acb_add L res t prec
        in (Inr (0, res), h))"

definition f_exp :: "lib \<Rightarrow> acb_calc_func" where
  "f_exp L h z param order prec =
     (if sint order > 1 then (Inl Abort, h)
      else (Inr (0, acb_exp L z prec), h))"

definition f_gaussian :: "lib \<Rightarrow> acb_calc_func" where
  "f_gaussian L h z param order prec =
     (if sint order > 1 then (Inl Abort, h)
      else
        let res = acb_mul L z z prec;
            res = acb_neg res;
            res = acb_exp L res prec
        in (Inr (0, res), h))"

definition f_monster :: "lib \<Rightarrow> acb_calc_func" where
  "f_monster L h z param order prec =
     (if sint order > 1 then (Inl Abort, h)
      else
        let t = acb_exp L z prec;
            res = acb_holomorphic_floor L t (order \<noteq> 0) prec;
            res = (if acb_is_finite res
                   then (let res = acb_sub L t res prec;
                             t = acb_add L t z prec;
                             t = acb_sin L t prec
                         in acb_mul L res t prec)
                   else res)
        in (Inr (0, res), h))"

definition f_wolfram :: "lib \<Rightarrow> acb_calc_func" where
  "f_wolfram L h z param order prec =
     (if sint order > 1 then (Inl Abort, h)
      else
        let a = acb_mul_ui L z 10 prec;
            a = acb_sub_ui L a 2 prec;
            a = acb_sech L a prec;
            a = acb_pow_ui L a 2 prec;
            b = acb_mul_ui L z 100 prec;
            b = acb_sub_ui L b 40 prec;
            b = acb_sech L b prec;
            b = acb_pow_ui L b 4 prec;
            c = acb_mul_ui L z 1000 prec;
            c = acb_sub_ui L c 600 prec;
            c = acb_sech L c prec;
            c = acb_pow_ui L c 6 prec;
            res = acb_add L a b prec;
            res = acb_add L res c prec
        in (Inr (0, res), h))"

definition f_sech :: "lib \<Rightarrow> acb_calc_func" where
  "f_sech L h z param order prec =
     (if sint order > 1 then (Inl Abort, h)
      else (Inr (0, acb_sech L z prec), h))"

definition f_sech3 :: "lib \<Rightarrow> acb_calc_func" where
  "f_sech3 L h z param order prec =
     (if sint order > 1 then (Inl Abort, h)
      else
        let res = acb_sech L z prec;
            res = acb_cube L res prec
        in (Inr (0, res), h))"

definition f_log_div1p :: "lib \<Rightarrow> acb_calc_func" where
  "f_log_div1p L h z param order prec =
     (if sint order > 1 then (Inl Abort, h)
      else
        let t = acb_add_ui L z 1 prec;
            res = acb_log L z prec;
            res = acb_div L res t prec;
            res = acb_neg res
        in (Inr (0, res), h))"

definition f_log_div1p_transformed :: "lib \<Rightarrow> acb_calc_func" where
  "f_log_div1p_transformed L h z param order prec =
     (if sint order > 1 then (Inl Abort, h)
      else
        let t = acb_neg z;
            t = acb_exp L t prec;
            res = acb_add_ui L t 1 prec;
            res = acb_div L t res prec;
            res = acb_mul L res z prec
        in (Inr (0, res), h))"

text \<open>\<open>n = ((slong *)(param))[0]\<close> reads memory through \<open>param\<close>; nothing is written.\<close>

definition f_elliptic_p_laurent_n :: "lib \<Rightarrow> acb_calc_func" where
  "f_elliptic_p_laurent_n L h z param order prec =
     (if sint order > 1 then (Inl Abort, h)
      else
        case load h param of
          None \<Rightarrow> (Inl Segv, h)
        | Some n \<Rightarrow>
            let tau = acb_onei;
                res = acb_modular_elliptic_p L z tau prec;
                tau = acb_pow_si L z (- n - 1) prec;
                res = acb_mul L res tau prec
            in (Inr (0, res), h))"

definition f_zeta_frac :: "lib \<Rightarrow> acb_calc_func" where
  "f_zeta_frac L h z param order prec =
     (if sint order > 1 then (Inl Abort, h)
      else
        let t = acb_dirichlet_zeta_jet L z 0 2 prec;
            res = acb_div L (t 1) (t 0) prec
        in (Inr (0, res), h))"

definition f_lambertw :: "lib \<Rightarrow> acb_calc_func" where
  "f_lambertw L h z param order prec =
     (if sint order > 1 then (Inl Abort, h)
      else
        let t = acb_zero;
            prec = FLINT_MIN prec (acb_rel_accuracy_bits L z + 10);
            t = (if order \<noteq> 0
                 then (let t = t\<lparr>acb_realref := arb_const_e L prec\<rparr>;
                           t = acb_inv L t prec;
                           t = acb_add L t z prec
                       in if arb_contains_zero (acb_imagref t)
                             \<and> arb_contains_nonpositive (acb_realref t)
                          then acb_indeterminate else t)
                 else t);
            res = (if acb_is_finite t then acb_lambertw L z 0 0 prec
                   else acb_indeterminate)
        in (Inr (0, res), h))"

text \<open>The catalogue: every integrand of the file, with whether it reads through \<open>param\<close>.\<close>

definition catalogue :: "lib \<Rightarrow> (acb_calc_func \<times> bool) list" where
  "catalogue L =
     [(f_sin L, False), (f_floor L, False), (f_circle L, False), (f_atanderiv L, False),
      (f_rump L, False), (f_helfgott L, False), (f_zeta L, False), (f_essing2 L, False),
      (f_essing L, False), (f_factorial1000 L, False), (f_gamma L, False),
      (f_sin_plus_small L, False), (f_exp L, False), (f_gaussian L, False),
      (f_monster L, False), (f_wolfram L, False), (f_sech L, False), (f_sech3 L, False),
      (f_log_div1p L, False), (f_log_div1p_transformed L, False),
      (f_elliptic_p_laurent_n L, True), (f_zeta_frac L, False), (f_lambertw L, False)]"

text \<open>An integrand call returns an enclosure of \<open>v\<close>: it returns 0 and a ball that encloses
  \<open>v\<close>.\<close>

definition returns_enclosure :: "(fatal + int \<times> acb) \<times> heap \<Rightarrow> complex \<Rightarrow> bool" where
  "returns_enclosure m v \<longleftrightarrow> (\<exists>r. fst m = Inr (0, r) \<and> acb_encloses r v)"

section \<open>The integration engine and the driver's cases\<close>

subsection \<open>More of the ball library: exact operations the driver uses\<close>

text \<open>Modelled from the spec: scaling by \<open>2^e\<close>, division by \<open>i\<close> and the conversion of a
  machine number to a ball are exact in the library (absent from the sources); a C
  \<open>double\<close> is a number, an infinity or NaN, which is what \<open>arf\<close> holds.\<close>

definition pow2 :: "int \<Rightarrow> real" where
  "pow2 e = (if 0 \<le> e then 2 ^ nat e else inverse (2 ^ nat (- e)))"

fun arf_mul_2exp_si :: "arf \<Rightarrow> slong \<Rightarrow> arf" where
  "arf_mul_2exp_si (Arf m) e = Arf (m * pow2 (sint e))"
| "arf_mul_2exp_si m e = m"

fun mag_mul_2exp_si :: "mag \<Rightarrow> slong \<Rightarrow> mag" where
  "mag_mul_2exp_si (Mag r) e = Mag (r * pow2 (sint e))"
| "mag_mul_2exp_si MagInf e = MagInf"

definition arb_mul_2exp_si :: "arb \<Rightarrow> slong \<Rightarrow> arb" where
  "arb_mul_2exp_si x e =
     \<lparr>arb_midref = arf_mul_2exp_si (arb_midref x) e,
      arb_radref = mag_mul_2exp_si (arb_radref x) e\<rparr>"

definition acb_mul_2exp_si :: "acb \<Rightarrow> slong \<Rightarrow> acb" where
  "acb_mul_2exp_si z e =
     \<lparr>acb_realref = arb_mul_2exp_si (acb_realref z) e,
      acb_imagref = arb_mul_2exp_si (acb_imagref z) e\<rparr>"

definition acb_div_onei :: "acb \<Rightarrow> acb" where
  "acb_div_onei z = \<lparr>acb_realref = acb_imagref z, acb_imagref = arb_neg (acb_realref z)\<rparr>"

definition arb_set_d :: "arf \<Rightarrow> arb" where
  "arb_set_d d = \<lparr>arb_midref = d, arb_radref = Mag 0\<rparr>"

definition acb_set_d :: "arf \<Rightarrow> acb" where
  "acb_set_d d = \<lparr>acb_realref = arb_set_d d, acb_imagref = arb_zero\<rparr>"

definition acb_set_d_d :: "arf \<Rightarrow> arf \<Rightarrow> acb" where
  "acb_set_d_d x y = \<lparr>acb_realref = arb_set_d x, acb_imagref = arb_set_d y\<rparr>"

definition acb_set_ui :: "ulong \<Rightarrow> acb" where
  "acb_set_ui n = acb_set_d (Arf (real (unat n)))"

text \<open>Modelled from the spec: \<open>arb_add_error\<close> and \<open>arb_add_error_2exp_si\<close> are absent
  from the sources. By the spec (section 4.5) a tail bound is added to the radius of the
  enclosure (``adds (widens the final enclosure's radius by)''): \<open>arb_add_error(x, err)\<close>
  adds the bound \<open>\<bar>mid\<bar> + rad\<close> on the magnitude of \<open>err\<close> to the radius of \<open>x\<close>,
  \<open>arb_add_error_2exp_si(x, e)\<close> adds \<open>2^e\<close>; the midpoint is not touched.\<close>

fun mag_add :: "mag \<Rightarrow> mag \<Rightarrow> mag" where
  "mag_add (Mag x) (Mag y) = Mag (x + y)"
| "mag_add x y = MagInf"

fun ball_get_mag :: "arf \<Rightarrow> mag \<Rightarrow> mag" where
  "ball_get_mag (Arf m) (Mag r) = Mag (\<bar>m\<bar> + r)"
| "ball_get_mag m r = MagInf"

definition arb_get_mag :: "arb \<Rightarrow> mag" where
  "arb_get_mag x = ball_get_mag (arb_midref x) (arb_radref x)"

definition arb_add_error :: "arb \<Rightarrow> arb \<Rightarrow> arb" where
  "arb_add_error x err = x\<lparr>arb_radref := mag_add (arb_radref x) (arb_get_mag err)\<rparr>"

definition arb_add_error_2exp_si :: "arb \<Rightarrow> slong \<Rightarrow> arb" where
  "arb_add_error_2exp_si x e = x\<lparr>arb_radref := mag_add (arb_radref x) (Mag (pow2 (sint e)))\<rparr>"

text \<open>\<open>FLINT_BIT_COUNT(x)\<close>: the number of bits of the unsigned word \<open>x\<close>, 0 for 0.\<close>

fun bit_length :: "nat \<Rightarrow> nat" where
  "bit_length n = (if n = 0 then 0 else Suc (bit_length (n div 2)))"

declare bit_length.simps [simp del]

definition FLINT_BIT_COUNT :: "ulong \<Rightarrow> slong" where
  "FLINT_BIT_COUNT x = of_nat (bit_length (unat x))"

subsection \<open>The engine\<close>

text \<open>The options of one integration call (\<open>acb_calc_integrate_opt_t\<close>).\<close>

record options =
  deg_limit :: slong
  eval_limit :: slong
  depth_limit :: slong
  use_heap :: int
  verbose :: int

text \<open>Modelled from the spec: \<open>acb_calc_integrate\<close> is absent from the sources. By the
  spec (sections 4.1 to 4.3 and 5) the engine evaluates the integrand at points and
  regions it chooses, at order 0 or as an analyticity probe, each choice depending on the
  values seen so far; it hands the auxiliary parameter unchanged to the integrand; it is
  sequential and always stops. Such an engine is a well-founded tree of evaluation
  requests: \<open>Eval z order prec k\<close> asks for the integrand at \<open>z\<close> and goes on with \<open>k\<close>
  applied to the returned \<open>int\<close> and ball, \<open>Done s\<close> delivers the enclosure \<open>s\<close>. Which tree
  is run for given end points, goal, tolerance, options and precision is the parameter
  \<open>E\<close>. The engine reaches memory only through the integrand, and an abort or fault in the
  integrand ends the run.\<close>

datatype script = Done acb | Eval acb slong slong "int \<Rightarrow> acb \<Rightarrow> script"

type_synonym engine = "acb \<Rightarrow> acb \<Rightarrow> slong \<Rightarrow> mag \<Rightarrow> options \<Rightarrow> slong \<Rightarrow> script"

primrec run :: "script \<Rightarrow> acb_calc_func \<Rightarrow> ptr \<Rightarrow> heap \<Rightarrow> (fatal + acb) \<times> heap" where
  "run (Done s) f param h = (Inr s, h)"
| "run (Eval z order prec k) f param h =
     (case f h z param order prec of
        (Inl e, h') \<Rightarrow> (Inl e, h')
      | (Inr (v, r), h') \<Rightarrow> run (k v r) f param h')"

text \<open>Modelled from the spec: the entry point \<open>acb_calc_integrate(res, f, param, a, b,
  goal, tol, options, prec)\<close>, absent from the sources, runs the engine's tree for its
  arguments against the integrand \<open>f\<close> with the parameter \<open>param\<close>.\<close>

definition acb_calc_integrate ::
  "engine \<Rightarrow> acb_calc_func \<Rightarrow> ptr \<Rightarrow> acb \<Rightarrow> acb \<Rightarrow> slong \<Rightarrow> mag \<Rightarrow> options \<Rightarrow> slong
     \<Rightarrow> heap \<Rightarrow> (fatal + acb) \<times> heap" where
  "acb_calc_integrate E f param a b goal tol opts prec h =
     run (E a b goal tol opts prec) f param h"

text \<open>Sequencing: what follows a call runs on its result, unless the call ended the
  program.\<close>

definition then_do ::
  "(fatal + 'a) \<times> heap \<Rightarrow> ('a \<Rightarrow> heap \<Rightarrow> (fatal + 'b) \<times> heap) \<Rightarrow> (fatal + 'b) \<times> heap" where
  "then_do m k = (case m of (Inl e, h) \<Rightarrow> (Inl e, h) | (Inr x, h) \<Rightarrow> k x h)"

subsection \<open>The truncated integrals: cases 2, 14, 17, 18, 19 and 20 of \<open>main\<close>\<close>

text \<open>
  Each case is the body of its \<open>switch\<close> branch: from the goal, the tolerance, the options
  and the precision to the enclosure left in \<open>s\<close>. The variable \<open>N\<close> of \<open>main\<close> has its
  address taken (case 21), so it lives in memory, at the address \<open>aN\<close>. The truncation
  points of cases 14, 17 and 18 are C \<open>double\<close> expressions of the goal
  (\<open>ceil(sqrt(goal * 0.693147181) + 1.0)\<close>, \<open>ceil(goal * 0.693147181 + 1.0)\<close> and
  \<open>ceil(goal * 0.693147181 / 3.0 + 2.0)\<close>); floating point is not modelled, so the value of
  each is a parameter.
\<close>

record doubles =
  trunc_14 :: "slong \<Rightarrow> arf"
  trunc_17 :: "slong \<Rightarrow> arf"
  trunc_18 :: "slong \<Rightarrow> arf"

definition integral_2 ::
  "lib \<Rightarrow> engine \<Rightarrow> slong \<Rightarrow> mag \<Rightarrow> options \<Rightarrow> slong \<Rightarrow> heap \<Rightarrow> (fatal + acb) \<times> heap" where
  "integral_2 L E goal tol opts prec h =
     (let a = acb_set_d (Arf 0);
          b = acb_one;
          b = acb_mul_2exp_si b goal
      in then_do (acb_calc_integrate E (f_atanderiv L) Null a b goal tol opts prec h)
           (\<lambda>s h.
              let s = s\<lparr>acb_realref := arb_add_error_2exp_si (acb_realref s) (- goal)\<rparr>;
                  s = acb_mul_2exp_si s 1
              in (Inr s, h)))"

definition integral_14 ::
  "lib \<Rightarrow> engine \<Rightarrow> doubles \<Rightarrow> slong \<Rightarrow> mag \<Rightarrow> options \<Rightarrow> slong \<Rightarrow> heap
     \<Rightarrow> (fatal + acb) \<times> heap" where
  "integral_14 L E D goal tol opts prec h =
     (let a = acb_set_d (Arf 0);
          b = acb_set_d (trunc_14 D goal)
      in then_do (acb_calc_integrate E (f_gaussian L) Null a b goal tol opts prec h)
           (\<lambda>s h.
              let b = acb_mul L b b prec;
                  b = acb_neg b;
                  b = acb_exp L b prec;
                  s = s\<lparr>acb_realref := arb_add_error (acb_realref s) (acb_realref b)\<rparr>
              in (Inr s, h)))"

definition integral_17 ::
  "lib \<Rightarrow> engine \<Rightarrow> doubles \<Rightarrow> slong \<Rightarrow> mag \<Rightarrow> options \<Rightarrow> slong \<Rightarrow> heap
     \<Rightarrow> (fatal + acb) \<times> heap" where
  "integral_17 L E D goal tol opts prec h =
     (let a = acb_set_d (Arf 0);
          b = acb_set_d (trunc_17 D goal)
      in then_do (acb_calc_integrate E (f_sech L) Null a b goal tol opts prec h)
           (\<lambda>s h.
              let b = acb_neg b;
                  b = acb_exp L b prec;
                  b = acb_mul_2exp_si b 1;
                  s = s\<lparr>acb_realref := arb_add_error (acb_realref s) (acb_realref b)\<rparr>
              in (Inr s, h)))"

definition integral_18 ::
  "lib \<Rightarrow> engine \<Rightarrow> doubles \<Rightarrow> slong \<Rightarrow> mag \<Rightarrow> options \<Rightarrow> slong \<Rightarrow> heap
     \<Rightarrow> (fatal + acb) \<times> heap" where
  "integral_18 L E D goal tol opts prec h =
     (let a = acb_set_d (Arf 0);
          b = acb_set_d (trunc_18 D goal)
      in then_do (acb_calc_integrate E (f_sech3 L) Null a b goal tol opts prec h)
           (\<lambda>s h.
              let b = acb_neg b;
                  b = acb_mul_ui L b 3 prec;
                  b = acb_exp L b prec;
                  b = acb_mul_2exp_si b 3;
                  b = acb_div_ui L b 3 prec;
                  s = s\<lparr>acb_realref := arb_add_error (acb_realref s) (acb_realref b)\<rparr>
              in (Inr s, h)))"

definition integral_19 ::
  "lib \<Rightarrow> engine \<Rightarrow> nat \<Rightarrow> slong \<Rightarrow> mag \<Rightarrow> options \<Rightarrow> slong \<Rightarrow> heap
     \<Rightarrow> (fatal + acb) \<times> heap" where
  "integral_19 L E aN goal tol opts prec h =
     (if sint goal < 0 then (Inl Abort, h)
      else
        let N = goal + FLINT_BIT_COUNT goal;
            h = h(aN \<mapsto> N);
            a = acb_one;
            a = acb_mul_2exp_si a (- N);
            b = acb_one
        in then_do (acb_calc_integrate E (f_log_div1p L) Null a b goal tol opts prec h)
             (\<lambda>s h.
                let b = acb_set_ui (N + 1);
                    b = acb_mul_2exp_si b (- N);
                    s = s\<lparr>acb_realref := arb_add_error (acb_realref s) (acb_realref b)\<rparr>
                in (Inr s, h)))"

definition integral_20 ::
  "lib \<Rightarrow> engine \<Rightarrow> nat \<Rightarrow> slong \<Rightarrow> mag \<Rightarrow> options \<Rightarrow> slong \<Rightarrow> heap
     \<Rightarrow> (fatal + acb) \<times> heap" where
  "integral_20 L E aN goal tol opts prec h =
     (if sint goal < 0 then (Inl Abort, h)
      else
        let N = goal + FLINT_BIT_COUNT goal;
            h = h(aN \<mapsto> N);
            a = acb_zero;
            b = acb_set_ui N
        in then_do
             (acb_calc_integrate E (f_log_div1p_transformed L) Null a b goal tol opts prec h)
             (\<lambda>s h.
                let b = acb_neg b;
                    b = acb_exp L b prec;
                    b = acb_mul_ui L b (N + 1) prec;
                    s = s\<lparr>acb_realref := arb_add_error (acb_realref s) (acb_realref b)\<rparr>
                in (Inr s, h)))"

text \<open>The spec's words for what the Assembler does with a tail bound: the enclosure with
  the bound added to the radius of its real part, and nothing else changed.\<close>

definition widened :: "acb \<Rightarrow> mag \<Rightarrow> acb" where
  "widened s e =
     \<lparr>acb_realref = \<lparr>arb_midref = arb_midref (acb_realref s),
                     arb_radref = mag_add (arb_radref (acb_realref s)) e\<rparr>,
      acb_imagref = acb_imagref s\<rparr>"

subsection \<open>The contour of case 21\<close>

text \<open>
  Case 21 sets \<open>N = 10\<close> and integrates \<open>f_elliptic_p_laurent_n\<close> with \<open>param = &N\<close> along
  the four edges of the square with corners \<open>\<plusminus>1/2 \<plusminus> i/2\<close>, adds the four results and
  divides by \<open>2 pi i\<close>. The variable \<open>N\<close> lives at the address \<open>aN\<close>.
\<close>

definition integral_21 ::
  "lib \<Rightarrow> engine \<Rightarrow> nat \<Rightarrow> slong \<Rightarrow> mag \<Rightarrow> options \<Rightarrow> slong \<Rightarrow> heap
     \<Rightarrow> (fatal + acb) \<times> heap" where
  "integral_21 L E aN goal tol opts prec h =
     (let s = acb_zero;
          h = h(aN \<mapsto> 10);
          a = acb_set_d_d (Arf (1/2)) (Arf (- (1/2)));
          b = acb_set_d_d (Arf (1/2)) (Arf (1/2))
      in then_do (acb_calc_integrate E (f_elliptic_p_laurent_n L) (Ptr aN) a b goal tol opts
                    prec h) (\<lambda>t h.
         let s = acb_add L s t prec;
             a = acb_set_d_d (Arf (1/2)) (Arf (1/2));
             b = acb_set_d_d (Arf (- (1/2))) (Arf (1/2))
         in then_do (acb_calc_integrate E (f_elliptic_p_laurent_n L) (Ptr aN) a b goal tol opts
                       prec h) (\<lambda>t h.
            let s = acb_add L s t prec;
                a = acb_set_d_d (Arf (- (1/2))) (Arf (1/2));
                b = acb_set_d_d (Arf (- (1/2))) (Arf (- (1/2)))
            in then_do (acb_calc_integrate E (f_elliptic_p_laurent_n L) (Ptr aN) a b goal tol
                          opts prec h) (\<lambda>t h.
               let s = acb_add L s t prec;
                   a = acb_set_d_d (Arf (- (1/2))) (Arf (- (1/2)));
                   b = acb_set_d_d (Arf (1/2)) (Arf (- (1/2)))
               in then_do (acb_calc_integrate E (f_elliptic_p_laurent_n L) (Ptr aN) a b goal
                             tol opts prec h) (\<lambda>t h.
                  let s = acb_add L s t prec;
                      t = acb_const_pi L prec;
                      s = acb_div L s t prec;
                      s = acb_mul_2exp_si s (- 1);
                      s = acb_div_onei s
                  in (Inr s, h))))))"

text \<open>The spec's words for the integrand of case 21: \<open>wp(z; i) z^(-n-1)\<close> for a fixed index
  \<open>n\<close>, in the library's operations, under the order contract.\<close>

definition laurent_integrand :: "lib \<Rightarrow> slong \<Rightarrow> acb_calc_func" where
  "laurent_integrand L n h z param order prec =
     (if sint order > 1 then (Inl Abort, h)
      else (Inr (0, acb_mul L (acb_modular_elliptic_p L z acb_onei prec)
                      (acb_pow_si L z (- n - 1) prec) prec), h))"

section \<open>The start of \<open>main\<close>: selecting the integrals\<close>

text \<open>
  \<open>main\<close> receives \<open>argv[0 .. argc-1]\<close>, here the list \<open>argv\<close>; \<open>argv[argc]\<close> is the null
  pointer, and handing it to \<open>strcmp\<close> is recorded as a fault. The C \<open>int\<close>s \<open>ifrom\<close> and
  \<open>ito\<close> are 32-bit words. What \<open>flint_printf\<close> prints is collected as a list, one string
  for each call.
\<close>

definition nl :: string where
  "nl = [CHR 0x0A]"

text \<open>The C library's \<open>atol\<close> (not part of the repository), as the C standard describes
  \<open>strtol\<close> in base 10: white space, an optional sign, decimal digits; 0 when no digit
  follows. A value outside the range of \<open>long\<close> is undefined for \<open>atol\<close>; the saturation
  of the usual C libraries is modelled.\<close>

definition isspace :: "char \<Rightarrow> bool" where
  "isspace c \<longleftrightarrow> c = CHR '' '' \<or> c = CHR 0x09 \<or> c = CHR 0x0A \<or> c = CHR 0x0B
     \<or> c = CHR 0x0C \<or> c = CHR 0x0D"

definition isdigit :: "char \<Rightarrow> bool" where
  "isdigit c \<longleftrightarrow> 48 \<le> (of_char c :: nat) \<and> (of_char c :: nat) \<le> 57"

fun digits_value :: "nat \<Rightarrow> string \<Rightarrow> nat" where
  "digits_value acc [] = acc"
| "digits_value acc (c # cs) =
     (if isdigit c then digits_value (10 * acc + ((of_char c :: nat) - 48)) cs else acc)"

definition LONG_MAX :: int where
  "LONG_MAX = 2 ^ 63 - 1"

definition LONG_MIN :: int where
  "LONG_MIN = - (2 ^ 63)"

definition atol :: "string \<Rightarrow> int" where
  "atol nptr =
     (case dropWhile isspace nptr of
        [] \<Rightarrow> 0
      | c # cs \<Rightarrow>
          if c = CHR ''-'' then max LONG_MIN (- int (digits_value 0 cs))
          else if c = CHR ''+'' then min LONG_MAX (int (digits_value 0 cs))
          else min LONG_MAX (int (digits_value 0 (c # cs))))"

text \<open>What \<open>%d\<close> prints for a number that is not negative.\<close>

function dec :: "nat \<Rightarrow> string" where
  "dec n = (if n < 10 then [''0123456789'' ! n]
            else dec (n div 10) @ [''0123456789'' ! (n mod 10)])"
  by pat_completeness auto
termination
  by (relation "measure (\<lambda>n. n)") auto

declare dec.simps [simp del]

definition NUM_INTEGRALS :: nat where
  "NUM_INTEGRALS = 24"

definition descr :: "string list" where
  \<open>descr =
     [''int_0^100 sin(x) dx'',
      ''4 int_0^1 1/(1+x^2) dx'',
      ''2 int_0^{inf} 1/(1+x^2) dx   (using domain truncation)'',
      ''4 int_0^1 sqrt(1-x^2) dx'',
      ''int_0^8 sin(x+exp(x)) dx'',
      ''int_0^100 floor(x) dx'',
      ''int_0^1 |x^4+10x^3+19x^2-6x-6| exp(x) dx'',
      ''1/(2 pi i) int zeta(s) ds  (closed path around s = 1)'',
      ''int_0^1 sin(1/x) dx  (slow convergence, use -heap and/or -tol)'',
      ''int_0^1 x sin(1/x) dx  (slow convergence, use -heap and/or -tol)'',
      ''int_0^10000 x^1000 exp(-x) dx'',
      ''int_1^{1+1000i} gamma(x) dx'',
      ''int_{-10}^{10} sin(x) + exp(-200-x^2) dx'',
      ''int_{-1020}^{-1010} exp(x) dx  (use -tol 0 for relative error)'',
      ''int_0^{inf} exp(-x^2) dx   (using domain truncation)'',
      ''int_0^1 sech(10(x-0.2))^2 + sech(100(x-0.4))^4 + sech(1000(x-0.6))^6 dx'',
      ''int_0^8 (exp(x)-floor(exp(x))) sin(x+exp(x)) dx  (use higher -eval)'',
      ''int_0^{inf} sech(x) dx   (using domain truncation)'',
      ''int_0^{inf} sech^3(x) dx   (using domain truncation)'',
      ''int_0^1 -log(x)/(1+x) dx   (using domain truncation)'',
      ''int_0^{inf} x exp(-x)/(1+exp(-x)) dx   (using domain truncation)'',
      ''int_C wp(x)/x^(11) dx   (contour for 10th Laurent coefficient of Weierstrass p-function)'',
      ''N(1000) = count zeros with 0 < t <= 1000 of zeta(s) using argument principle'',
      ''int_0^{1000} W_0(x) dx'']\<close>

text \<open>The first loop of \<open>main\<close>, from index \<open>i\<close> on. An index outside \<open>0 .. 23\<close> aborts at
  once; \<open>-i\<close> as the last argument compares the null \<open>argv[argc]\<close>.\<close>

function select_loop ::
  "string list \<Rightarrow> nat \<Rightarrow> 32 word \<Rightarrow> 32 word \<Rightarrow> fatal + 32 word \<times> 32 word" where
  "select_loop argv i ifrom ito =
     (if i < length argv then
        if argv ! i = ''-i'' then
          if i + 1 < length argv then
            if argv ! (i + 1) = ''all''
            then select_loop argv (i + 1) 0 (word_of_int (int NUM_INTEGRALS - 1))
            else
              let ito = word_of_int (atol (argv ! (i + 1)))
              in if sint ito < 0 \<or> sint ito \<ge> int NUM_INTEGRALS then Inl Abort
                 else select_loop argv (i + 1) ito ito
          else Inl Segv
        else select_loop argv (i + 1) ifrom ito
      else Inr (ifrom, ito))"
  by pat_completeness auto
termination
  by (relation "measure (\<lambda>(argv, i, ifrom, ito). length argv - i)") auto

declare select_loop.simps [simp del]

text \<open>The usage text and the catalogue, as the fourteen calls and the loop print them.\<close>

definition usage_text :: "string list" where
  \<open>usage_text =
     [''Compute integrals using acb_calc_integrate.'' @ nl,
      ''Usage: integrals -i n [-prec p] [-tol eps] [-twice] [...]'' @ nl @ nl,
      ''-i n       - compute integral n (0 <= n <= '' @ dec (NUM_INTEGRALS - 1)
         @ ''), or "-i all"'' @ nl,
      ''-prec p    - precision in bits (default p = 64)'' @ nl,
      ''-goal p    - approximate relative accuracy goal (default p)'' @ nl,
      ''-tol eps   - approximate absolute error goal (default 2^-p)'' @ nl,
      ''-twice     - run twice (to see overhead of computing nodes)'' @ nl,
      ''-heap      - use heap for subinterval queue'' @ nl,
      ''-verbose   - show information'' @ nl,
      ''-verbose2  - show more information'' @ nl,
      ''-deg n     - use quadrature degree up to n'' @ nl,
      ''-eval n    - limit number of function evaluations to n'' @ nl,
      ''-depth n   - limit subinterval queue size to n'' @ nl @ nl,
      ''Implemented integrals:'' @ nl]\<close>

definition catalogue_text :: "string list" where
  "catalogue_text =
     map (\<lambda>integral. ''I'' @ dec integral @ '' = '' @ descr ! integral @ nl)
       [0 ..< NUM_INTEGRALS]"

text \<open>How the start of \<open>main\<close> ends: the program stops, having printed some text, by
  returning from \<open>main\<close> or by a fatal signal; or it goes on, with \<open>ifrom\<close> and \<open>ito\<close>
  chosen, to read the options and run the cases.\<close>

datatype stop = Return int | Die fatal

datatype progress = Stopped "string list" stop | Running "32 word" "32 word"

definition main :: "string list \<Rightarrow> progress" where
  "main argv =
     (case select_loop argv 1 (- 1) (- 1) of
        Inl e \<Rightarrow> Stopped [] (Die e)
      | Inr (ifrom, ito) \<Rightarrow>
          if ifrom = - 1
          then Stopped (usage_text @ catalogue_text @ [nl]) (Return 1)
          else Running ifrom ito)"

section \<open>A library instance for evaluating the model\<close>

text \<open>
  To run the model on concrete balls, the library parameter is instantiated with ideal
  arithmetic: no rounding error, every precision. Operations that no evaluation below
  needs return the indeterminate ball, which encloses everything.
\<close>

fun fin_parts :: "arf \<Rightarrow> mag \<Rightarrow> (real \<times> real) option" where
  "fin_parts (Arf m) (Mag r) = Some (m, r)"
| "fin_parts m r = None"

definition arb_parts :: "arb \<Rightarrow> (real \<times> real) option" where
  "arb_parts x = fin_parts (arb_midref x) (arb_radref x)"

definition arb_ball :: "real \<Rightarrow> real \<Rightarrow> arb" where
  "arb_ball m r = \<lparr>arb_midref = Arf m, arb_radref = Mag r\<rparr>"

definition acb_box :: "real \<Rightarrow> real \<Rightarrow> real \<Rightarrow> real \<Rightarrow> acb" where
  "acb_box a ra b rb = \<lparr>acb_realref = arb_ball a ra, acb_imagref = arb_ball b rb\<rparr>"

definition exact_arb_add :: "arb \<Rightarrow> arb \<Rightarrow> arb" where
  "exact_arb_add x y =
     (case (arb_parts x, arb_parts y) of
        (Some (m1, r1), Some (m2, r2)) \<Rightarrow> arb_ball (m1 + m2) (r1 + r2)
      | _ \<Rightarrow> arb_indeterminate)"

definition exact_arb_sub :: "arb \<Rightarrow> arb \<Rightarrow> arb" where
  "exact_arb_sub x y =
     (case (arb_parts x, arb_parts y) of
        (Some (m1, r1), Some (m2, r2)) \<Rightarrow> arb_ball (m1 - m2) (r1 + r2)
      | _ \<Rightarrow> arb_indeterminate)"

definition exact_arb_mul :: "arb \<Rightarrow> arb \<Rightarrow> arb" where
  "exact_arb_mul x y =
     (case (arb_parts x, arb_parts y) of
        (Some (m1, r1), Some (m2, r2)) \<Rightarrow>
          arb_ball (m1 * m2) (\<bar>m1\<bar> * r2 + \<bar>m2\<bar> * r1 + r1 * r2)
      | _ \<Rightarrow> arb_indeterminate)"

definition exact_arb_union :: "arb \<Rightarrow> arb \<Rightarrow> arb" where
  "exact_arb_union x y =
     (case (arb_parts x, arb_parts y) of
        (Some (m1, r1), Some (m2, r2)) \<Rightarrow>
          (let lo = min (m1 - r1) (m2 - r2); hi = max (m1 + r1) (m2 + r2)
           in arb_ball ((lo + hi) / 2) ((hi - lo) / 2))
      | _ \<Rightarrow> arb_indeterminate)"

definition exact_arb_floor :: "arb \<Rightarrow> arb" where
  "exact_arb_floor x =
     (case arb_parts x of
        Some (m, r) \<Rightarrow>
          (let lo = of_int \<lfloor>m - r\<rfloor>; hi = of_int \<lfloor>m + r\<rfloor>
           in arb_ball ((lo + hi) / 2) ((hi - lo) / 2))
      | None \<Rightarrow> arb_indeterminate)"

definition exact_acb_add :: "acb \<Rightarrow> acb \<Rightarrow> acb" where
  "exact_acb_add x y =
     \<lparr>acb_realref = exact_arb_add (acb_realref x) (acb_realref y),
      acb_imagref = exact_arb_add (acb_imagref x) (acb_imagref y)\<rparr>"

definition exact_acb_sub :: "acb \<Rightarrow> acb \<Rightarrow> acb" where
  "exact_acb_sub x y =
     \<lparr>acb_realref = exact_arb_sub (acb_realref x) (acb_realref y),
      acb_imagref = exact_arb_sub (acb_imagref x) (acb_imagref y)\<rparr>"

definition exact_acb_mul :: "acb \<Rightarrow> acb \<Rightarrow> acb" where
  "exact_acb_mul x y =
     \<lparr>acb_realref = exact_arb_sub (exact_arb_mul (acb_realref x) (acb_realref y))
                                  (exact_arb_mul (acb_imagref x) (acb_imagref y)),
      acb_imagref = exact_arb_add (exact_arb_mul (acb_realref x) (acb_imagref y))
                                  (exact_arb_mul (acb_imagref x) (acb_realref y))\<rparr>"

definition exact_acb_union :: "acb \<Rightarrow> acb \<Rightarrow> acb" where
  "exact_acb_union x y =
     \<lparr>acb_realref = exact_arb_union (acb_realref x) (acb_realref y),
      acb_imagref = exact_arb_union (acb_imagref x) (acb_imagref y)\<rparr>"

definition acb_of_real :: "real \<Rightarrow> acb" where
  "acb_of_real t = acb_box t 0 0 0"

text \<open>The square root of a point is the point \<open>csqrt\<close>; of a wider finite box, a box around
  zero that bounds every square root by \<open>\<bar>sqrt w\<bar> \<le> 1 + \<bar>w\<bar>\<close>.\<close>

definition exact_acb_sqrt :: "acb \<Rightarrow> acb" where
  "exact_acb_sqrt z =
     (case (arb_parts (acb_realref z), arb_parts (acb_imagref z)) of
        (Some (a, ra), Some (b, rb)) \<Rightarrow>
          (if ra = 0 \<and> rb = 0
           then acb_box (Re (csqrt (Complex a b))) 0 (Im (csqrt (Complex a b))) 0
           else (let R = 1 + \<bar>a\<bar> + ra + \<bar>b\<bar> + rb in acb_box 0 R 0 R))
      | _ \<Rightarrow> acb_indeterminate)"

definition exact_lib :: lib where
  "exact_lib =
     \<lparr>acb_set_round = (\<lambda>z prec. z),
      acb_neg_round = (\<lambda>z prec. acb_neg z),
      arb_set_round = (\<lambda>x prec. x),
      acb_union = (\<lambda>x y prec. exact_acb_union x y),
      arb_floor = (\<lambda>x prec. exact_arb_floor x),
      acb_sqrt = (\<lambda>z prec. exact_acb_sqrt z),
      acb_sin = (\<lambda>z prec. acb_indeterminate),
      acb_exp = (\<lambda>z prec. acb_indeterminate),
      acb_inv = (\<lambda>z prec. acb_indeterminate),
      acb_zeta = (\<lambda>z prec. acb_indeterminate),
      acb_gamma = (\<lambda>z prec. acb_indeterminate),
      acb_sech = (\<lambda>z prec. acb_indeterminate),
      acb_log = (\<lambda>z prec. acb_indeterminate),
      acb_cube = (\<lambda>z prec. exact_acb_mul z (exact_acb_mul z z)),
      acb_add = (\<lambda>x y prec. exact_acb_add x y),
      acb_sub = (\<lambda>x y prec. exact_acb_sub x y),
      acb_mul = (\<lambda>x y prec. exact_acb_mul x y),
      acb_div = (\<lambda>x y prec. acb_indeterminate),
      acb_submul = (\<lambda>r x y prec. exact_acb_sub r (exact_acb_mul x y)),
      acb_add_si = (\<lambda>z n prec. exact_acb_add z (acb_of_real (real_of_int (sint n)))),
      acb_add_ui = (\<lambda>z n prec. exact_acb_add z (acb_of_real (real (unat n)))),
      acb_sub_ui = (\<lambda>z n prec. exact_acb_sub z (acb_of_real (real (unat n)))),
      acb_mul_ui = (\<lambda>z n prec. exact_acb_mul z (acb_of_real (real (unat n)))),
      acb_div_ui = (\<lambda>z n prec. acb_indeterminate),
      acb_pow_ui = (\<lambda>z n prec. acb_indeterminate),
      acb_pow_si = (\<lambda>z n prec. acb_indeterminate),
      acb_modular_elliptic_p = (\<lambda>z tau prec. acb_indeterminate),
      acb_dirichlet_zeta_jet = (\<lambda>z deflate len prec k. acb_indeterminate),
      acb_lambertw = (\<lambda>z k flags prec. acb_indeterminate),
      arb_const_e = (\<lambda>prec. arb_indeterminate),
      acb_const_pi = (\<lambda>prec. acb_indeterminate),
      acb_rel_accuracy_bits = (\<lambda>z. 0)\<rparr>"

text \<open>Where the ideal library returns the indeterminate ball, any functions satisfy the
  contract of the special functions; these stand in for them: the leading term of each
  at its pole, and the identity for the Lambert W function.\<close>

definition leading_terms :: special_functions where
  "leading_terms =
     \<lparr>sf_zeta = (\<lambda>w. inverse (w - 1)), sf_zeta_deriv = (\<lambda>w. - inverse ((w - 1)\<^sup>2)),
      sf_gamma = inverse, sf_log = (\<lambda>w. w - 1), sf_wp = (\<lambda>w t. inverse (w\<^sup>2)),
      sf_lambertw = (\<lambda>w. w)\<rparr>"

text \<open>Memory with no cell allocated, for calls of integrands that ignore \<open>param\<close>.\<close>

definition empty_heap :: heap where
  "empty_heap = Map.empty"

text \<open>The real line as a ball: midpoint 0, infinite radius, imaginary part exactly zero.\<close>

definition acb_zero_pm_inf :: acb where
  "acb_zero_pm_inf =
     \<lparr>acb_realref = \<lparr>arb_midref = Arf 0, arb_radref = MagInf\<rparr>, acb_imagref = arb_zero\<rparr>"

text \<open>Memory with one cell, at address 0, holding the \<open>slong\<close> 10.\<close>

definition heap_ten :: heap where
  "heap_ten = [0 \<mapsto> 10]"

text \<open>The options as \<open>acb_calc_integrate_opt_init\<close> leaves them (all fields 0: defaults), and
  an engine for evaluating the model: it probes the integrand at the start point at order
  0 and at the end point at order 1, and delivers the sum of the two values.\<close>

definition acb_calc_integrate_opt_init :: options where
  "acb_calc_integrate_opt_init =
     \<lparr>deg_limit = 0, eval_limit = 0, depth_limit = 0, use_heap = 0, verbose = 0\<rparr>"

definition probe_engine :: engine where
  "probe_engine a b goal tol opts prec =
     Eval a 0 prec (\<lambda>v r. Eval b 1 prec (\<lambda>v' r'. Done (exact_acb_add r r')))"

text \<open>An engine that asks for two Taylor coefficients at the start point (order 2), which
  the example integrands do not provide.\<close>

definition taylor_engine :: engine where
  "taylor_engine a b goal tol opts prec = Eval a 2 prec (\<lambda>v r. Done r)"

text \<open>An engine that probes the integrand once, at the start point, and delivers the ball
  \<open>1 \<plusminus> 1/4\<close>; and the value 3 that each of the three truncation points has for the
  goal 2.\<close>

definition one_probe_engine :: engine where
  "one_probe_engine a b goal tol opts prec = Eval a 0 prec (\<lambda>v r. Done (acb_box 1 (1/4) 0 0))"

definition doubles_goal_2 :: doubles where
  "doubles_goal_2 = \<lparr>trunc_14 = (\<lambda>goal. Arf 3), trunc_17 = (\<lambda>goal. Arf 3),
                     trunc_18 = (\<lambda>goal. Arf 3)\<rparr>"

section \<open>Boolean matrices: \<open>bool_mat/complement.c\<close>\<close>

text \<open>
  A \<open>bool_mat_t\<close> is a dense matrix with \<open>r\<close> rows and \<open>c\<close> columns whose entries are
  reached through an array of row pointers. The header \<open>bool_mat.h\<close> is not among the
  sources, so its accessors are modelled by what \<open>complement.c\<close> does with them.
\<close>

record bool_mat =
  mat_r :: nat
  mat_c :: nat
  mat_rows :: "bool list list"

text \<open>The shape invariant of an initialised matrix: \<open>r\<close> rows of \<open>c\<close> entries each.\<close>

definition bool_mat_wf :: "bool_mat \<Rightarrow> bool" where
  "bool_mat_wf m \<longleftrightarrow>
     length (mat_rows m) = mat_r m \<and> list_all (\<lambda>row. length row = mat_c m) (mat_rows m)"

definition same_shape :: "bool_mat \<Rightarrow> bool_mat \<Rightarrow> bool" where
  "same_shape a b \<longleftrightarrow> mat_r a = mat_r b \<and> mat_c a = mat_c b"

text \<open>Modelled from the spec: the accessor macros and inline functions of \<open>bool_mat.h\<close>
  (absent from the sources): the dimensions, the emptiness test \<open>r == 0 || c == 0\<close>, and
  reading and writing \<open>rows[i][j]\<close>. Accesses outside the allocated shape are undefined
  in C; the theorems below only use accesses inside it.\<close>

definition bool_mat_nrows :: "bool_mat \<Rightarrow> nat" where
  "bool_mat_nrows m = mat_r m"

definition bool_mat_ncols :: "bool_mat \<Rightarrow> nat" where
  "bool_mat_ncols m = mat_c m"

definition bool_mat_is_empty :: "bool_mat \<Rightarrow> bool" where
  "bool_mat_is_empty m \<longleftrightarrow> mat_r m = 0 \<or> mat_c m = 0"

definition bool_mat_get_entry :: "bool_mat \<Rightarrow> nat \<Rightarrow> nat \<Rightarrow> bool" where
  "bool_mat_get_entry m i j = mat_rows m ! i ! j"

definition bool_mat_set_entry :: "bool_mat \<Rightarrow> nat \<Rightarrow> nat \<Rightarrow> bool \<Rightarrow> bool_mat" where
  "bool_mat_set_entry m i j v = m\<lparr>mat_rows := (mat_rows m)[i := (mat_rows m ! i)[j := v]]\<rparr>"

text \<open>The inner loop \<open>for (j = 0; j < ncols(src); j++)\<close> of row \<open>i\<close>, started at
  column \<open>j\<close>, and the outer loop over the rows, started at row \<open>i\<close>.\<close>

function complement_cols :: "bool_mat \<Rightarrow> bool_mat \<Rightarrow> nat \<Rightarrow> nat \<Rightarrow> bool_mat" where
  "complement_cols dest src i j =
     (if j < bool_mat_ncols src
      then complement_cols (bool_mat_set_entry dest i j (\<not> bool_mat_get_entry src i j))
             src i (j + 1)
      else dest)"
  by pat_completeness auto
termination
  by (relation "measure (\<lambda>(dest, src, i, j). bool_mat_ncols src - j)") auto

function complement_rows :: "bool_mat \<Rightarrow> bool_mat \<Rightarrow> nat \<Rightarrow> bool_mat" where
  "complement_rows dest src i =
     (if i < bool_mat_nrows src
      then complement_rows (complement_cols dest src i 0) src (i + 1)
      else dest)"
  by pat_completeness auto
termination
  by (relation "measure (\<lambda>(dest, src, i). bool_mat_nrows src - i)") auto

definition bool_mat_complement :: "bool_mat \<Rightarrow> bool_mat \<Rightarrow> bool_mat" where
  "bool_mat_complement dest src =
     (if bool_mat_is_empty src then dest
      else complement_rows dest src 0)"

declare complement_cols.simps [simp del] complement_rows.simps [simp del]

definition mat_ex :: bool_mat where
  "mat_ex = \<lparr>mat_r = 1, mat_c = 2, mat_rows = [[True, False]]\<rparr>"

definition mat_fresh :: bool_mat where
  "mat_fresh = \<lparr>mat_r = 1, mat_c = 2, mat_rows = [[False, False]]\<rparr>"

definition mat_empty :: bool_mat where
  "mat_empty = \<lparr>mat_r = 0, mat_c = 2, mat_rows = []\<rparr>"

section \<open>Facts about balls and about the library instance\<close>

lemma indeterminate_not_finite: "\<not> acb_is_finite acb_indeterminate"
  by (simp add: acb_is_finite_def acb_indeterminate_def arb_is_finite_def arb_indeterminate_def)

lemma arb_finite_cases:
  assumes "arb_is_finite x"
  obtains m r where "arb_midref x = Arf m" "arb_radref x = Mag r"
  using assms
  by (cases "arb_midref x"; cases "arb_radref x") (auto simp: arb_is_finite_def)

lemma finite_no_zero_signs:
  assumes "arb_is_finite x" "\<not> arb_contains_zero x"
  shows "arb_is_nonnegative x \<or> arb_is_negative x"
proof -
  from assms(1) obtain m r where mr: "arb_midref x = Arf m" "arb_radref x = Mag r"
    by (rule arb_finite_cases)
  with assms(2) have "\<not> \<bar>m\<bar> \<le> r" by (simp add: arb_contains_zero_def)
  then have "r \<le> m \<or> m + r < 0" by linarith
  then show ?thesis using mr by (simp add: arb_is_nonnegative_def arb_is_negative_def)
qed

lemma nonnegative_encloses:
  assumes "arb_is_nonnegative x" "arb_encloses x t"
  shows "0 \<le> t"
  using assms
  by (cases "arb_midref x"; cases "arb_radref x")
     (auto simp: arb_is_nonnegative_def arb_encloses_def)

lemma negative_encloses:
  assumes "arb_is_negative x" "arb_encloses x t"
  shows "t < 0"
  using assms
  by (cases "arb_midref x"; cases "arb_radref x")
     (auto simp: arb_is_negative_def arb_encloses_def)

lemma abs_probe:
  assumes fin: "acb_is_finite z" and ok: "helpers_lib_ok L"
  shows "(acb_holomorphic_abs L res z True prec = acb_indeterminate
            \<longleftrightarrow> arb_contains_zero (acb_realref z)) \<and>
         (\<not> arb_contains_zero (acb_realref z) \<longrightarrow>
            acb_is_finite (acb_holomorphic_abs L res z True prec) \<and>
            (\<forall>w. acb_encloses z w \<longrightarrow>
               acb_encloses (acb_holomorphic_abs L res z True prec) (abs_halfplanes w)))"
proof (cases "arb_contains_zero (acb_realref z)")
  case True
  then show ?thesis by (simp add: acb_holomorphic_abs_def)
next
  case False
  from fin have rf: "arb_is_finite (acb_realref z)" by (simp add: acb_is_finite_def)
  from finite_no_zero_signs[OF rf False]
  consider (pos) "arb_is_nonnegative (acb_realref z)"
    | (neg) "\<not> arb_is_nonnegative (acb_realref z)" "arb_is_negative (acb_realref z)"
    by blast
  then show ?thesis
  proof cases
    case pos
    have eq: "acb_holomorphic_abs L res z True prec = acb_set_round L z prec"
      using fin False pos by (simp add: acb_holomorphic_abs_def)
    have f: "acb_is_finite (acb_set_round L z prec)"
      using ok fin by (simp add: helpers_lib_ok_def finite_fun1_def)
    have e: "acb_encloses (acb_set_round L z prec) (abs_halfplanes w)" if "acb_encloses z w" for w
    proof -
      have "0 \<le> Re w" using that pos by (auto simp: acb_encloses_def intro: nonnegative_encloses)
      then have "abs_halfplanes w = w" by (simp add: abs_halfplanes_def)
      then show ?thesis using ok that by (simp add: helpers_lib_ok_def encloses_fun1_def)
    qed
    show ?thesis using False f e indeterminate_not_finite by (auto simp: eq)
  next
    case neg
    have eq: "acb_holomorphic_abs L res z True prec = acb_neg_round L z prec"
      using fin False neg by (simp add: acb_holomorphic_abs_def)
    have f: "acb_is_finite (acb_neg_round L z prec)"
      using ok fin by (simp add: helpers_lib_ok_def finite_fun1_def)
    have e: "acb_encloses (acb_neg_round L z prec) (abs_halfplanes w)" if "acb_encloses z w" for w
    proof -
      have "Re w < 0" using that neg by (auto simp: acb_encloses_def intro: negative_encloses)
      then have "abs_halfplanes w = - w" by (simp add: abs_halfplanes_def)
      then show ?thesis using ok that by (simp add: helpers_lib_ok_def encloses_fun1_def)
    qed
    show ?thesis using False f e indeterminate_not_finite by (auto simp: eq)
  qed
qed

lemma floor_probe:
  assumes fin: "acb_is_finite z" and ok: "helpers_lib_ok L"
  shows "(acb_holomorphic_floor L z True prec = acb_indeterminate
            \<longleftrightarrow> arb_contains_int (acb_realref z)) \<and>
         (\<not> arb_contains_int (acb_realref z) \<longrightarrow>
            acb_is_finite (acb_holomorphic_floor L z True prec) \<and>
            (\<forall>w. acb_encloses z w \<longrightarrow>
               acb_encloses (acb_holomorphic_floor L z True prec)
                 (Complex (of_int \<lfloor>Re w\<rfloor>) (Im w))))"
proof (cases "arb_contains_int (acb_realref z)")
  case True
  then show ?thesis by (simp add: acb_holomorphic_floor_def)
next
  case False
  let ?r = "\<lparr>acb_realref = arb_floor L (acb_realref z) prec,
             acb_imagref = arb_set_round L (acb_imagref z) prec\<rparr>"
  have eq: "acb_holomorphic_floor L z True prec = ?r"
    using fin False by (simp add: acb_holomorphic_floor_def)
  have f: "acb_is_finite ?r"
    using ok fin by (simp add: helpers_lib_ok_def finite_real1_def acb_is_finite_def)
  have e: "acb_encloses ?r (Complex (of_int \<lfloor>Re w\<rfloor>) (Im w))" if "acb_encloses z w" for w
    using ok that by (simp add: helpers_lib_ok_def encloses_real1_def acb_encloses_def)
  show ?thesis using False f e indeterminate_not_finite by (auto simp: eq)
qed

lemma sqrt_probe:
  assumes fin: "acb_is_finite z" and ok: "helpers_lib_ok L"
  shows "(acb_holomorphic_sqrt L z True prec = acb_indeterminate
            \<longleftrightarrow> arb_contains_zero (acb_imagref z) \<and> arb_contains_nonpositive (acb_realref z)) \<and>
         (\<not> (arb_contains_zero (acb_imagref z) \<and> arb_contains_nonpositive (acb_realref z)) \<longrightarrow>
            acb_is_finite (acb_holomorphic_sqrt L z True prec) \<and>
            (\<forall>w. acb_encloses z w \<longrightarrow>
               acb_encloses (acb_holomorphic_sqrt L z True prec) (csqrt w)))"
proof (cases "arb_contains_zero (acb_imagref z) \<and> arb_contains_nonpositive (acb_realref z)")
  case True
  then show ?thesis by (simp add: acb_holomorphic_sqrt_def)
next
  case False
  have eq: "acb_holomorphic_sqrt L z True prec = acb_sqrt L z prec"
    using fin False by (auto simp: acb_holomorphic_sqrt_def)
  have f: "acb_is_finite (acb_sqrt L z prec)"
    using ok fin False by (simp add: helpers_lib_ok_def sqrt_finite_off_cut_def)
  have e: "acb_encloses (acb_sqrt L z prec) (csqrt w)" if "acb_encloses z w" for w
    using ok that by (simp add: helpers_lib_ok_def encloses_fun1_def)
  show ?thesis using False f e indeterminate_not_finite by (auto simp: eq)
qed

lemma arb_parts_Some:
  "arb_parts x = Some (m, r) \<longleftrightarrow> arb_midref x = Arf m \<and> arb_radref x = Mag r"
  by (cases "arb_midref x"; cases "arb_radref x") (auto simp: arb_parts_def)

lemma arb_parts_finite: "arb_is_finite x \<longleftrightarrow> arb_parts x \<noteq> None"
  by (cases "arb_midref x"; cases "arb_radref x") (auto simp: arb_parts_def arb_is_finite_def)

lemma arb_encloses_parts:
  "arb_parts x = Some (m, r) \<Longrightarrow> arb_encloses x t \<longleftrightarrow> \<bar>t - m\<bar> \<le> r"
  by (simp add: arb_parts_Some arb_encloses_def)

lemma arb_encloses_ball [simp]: "arb_encloses (arb_ball m r) t \<longleftrightarrow> \<bar>t - m\<bar> \<le> r"
  by (simp add: arb_encloses_def arb_ball_def)

lemma arb_encloses_indeterminate [simp]: "arb_encloses arb_indeterminate t"
  by (simp add: arb_encloses_def arb_indeterminate_def)

lemma acb_encloses_indeterminate [simp]: "acb_encloses acb_indeterminate w"
  by (simp add: acb_encloses_def acb_indeterminate_def)

lemma arb_ball_finite [simp]: "arb_is_finite (arb_ball m r)"
  by (simp add: arb_is_finite_def arb_ball_def)

lemma arb_parts_ball [simp]: "arb_parts (arb_ball m r) = Some (m, r)"
  by (simp add: arb_parts_def arb_ball_def)

lemma exact_arb_add_encloses:
  "arb_encloses x s \<Longrightarrow> arb_encloses y t \<Longrightarrow> arb_encloses (exact_arb_add x y) (s + t)"
  by (cases "arb_parts x"; cases "arb_parts y")
     (auto simp: exact_arb_add_def arb_encloses_parts)

lemma exact_arb_sub_encloses:
  "arb_encloses x s \<Longrightarrow> arb_encloses y t \<Longrightarrow> arb_encloses (exact_arb_sub x y) (s - t)"
  by (cases "arb_parts x"; cases "arb_parts y")
     (auto simp: exact_arb_sub_def arb_encloses_parts)

lemma ball_mul_bound:
  fixes s t m1 m2 r1 r2 :: real
  assumes "\<bar>s - m1\<bar> \<le> r1" "\<bar>t - m2\<bar> \<le> r2"
  shows "\<bar>s * t - m1 * m2\<bar> \<le> \<bar>m1\<bar> * r2 + \<bar>m2\<bar> * r1 + r1 * r2"
proof -
  have eq: "s * t - m1 * m2 = m1 * (t - m2) + m2 * (s - m1) + (s - m1) * (t - m2)"
    by (simp add: algebra_simps)
  have a: "\<bar>m1 * (t - m2)\<bar> \<le> \<bar>m1\<bar> * r2"
    using assms(2) by (simp add: abs_mult mult_left_mono)
  have b: "\<bar>m2 * (s - m1)\<bar> \<le> \<bar>m2\<bar> * r1"
    using assms(1) by (simp add: abs_mult mult_left_mono)
  have c: "\<bar>(s - m1) * (t - m2)\<bar> \<le> r1 * r2"
    using assms by (simp add: abs_mult mult_mono)
  show ?thesis unfolding eq using a b c by linarith
qed

lemma exact_arb_mul_encloses:
  "arb_encloses x s \<Longrightarrow> arb_encloses y t \<Longrightarrow> arb_encloses (exact_arb_mul x y) (s * t)"
  by (cases "arb_parts x"; cases "arb_parts y")
     (auto simp: exact_arb_mul_def arb_encloses_parts ball_mul_bound)

lemma exact_arb_union_encloses:
  "arb_encloses x t \<or> arb_encloses y t \<Longrightarrow> arb_encloses (exact_arb_union x y) t"
  by (cases "arb_parts x"; cases "arb_parts y")
     (auto simp: exact_arb_union_def arb_encloses_parts Let_def abs_le_iff field_simps)

lemma exact_arb_floor_encloses:
  assumes "arb_encloses x t"
  shows "arb_encloses (exact_arb_floor x) (of_int \<lfloor>t\<rfloor>)"
proof (cases "arb_parts x")
  case None
  then show ?thesis by (simp add: exact_arb_floor_def)
next
  case (Some p)
  obtain m r where p: "p = (m, r)" by (cases p)
  from assms Some p have "\<bar>t - m\<bar> \<le> r" by (simp add: arb_encloses_parts)
  then have "m - r \<le> t" "t \<le> m + r" by linarith+
  then have "\<lfloor>m - r\<rfloor> \<le> \<lfloor>t\<rfloor>" "\<lfloor>t\<rfloor> \<le> \<lfloor>m + r\<rfloor>" by (simp_all add: floor_mono)
  then have "(of_int \<lfloor>m - r\<rfloor> :: real) \<le> of_int \<lfloor>t\<rfloor>" "(of_int \<lfloor>t\<rfloor> :: real) \<le> of_int \<lfloor>m + r\<rfloor>"
    by simp_all
  then show ?thesis
    using Some p by (simp add: exact_arb_floor_def Let_def abs_le_iff field_simps)
qed

lemma arb_finiteE:
  assumes "arb_is_finite x"
  obtains m r where "arb_parts x = Some (m, r)"
  using assms
  by (cases "arb_midref x"; cases "arb_radref x") (auto simp: arb_parts_def arb_is_finite_def)

lemma exact_finite [simp]:
  "arb_is_finite x \<Longrightarrow> arb_is_finite y \<Longrightarrow> arb_is_finite (exact_arb_add x y)"
  "arb_is_finite x \<Longrightarrow> arb_is_finite y \<Longrightarrow> arb_is_finite (exact_arb_sub x y)"
  "arb_is_finite x \<Longrightarrow> arb_is_finite y \<Longrightarrow> arb_is_finite (exact_arb_mul x y)"
  "arb_is_finite x \<Longrightarrow> arb_is_finite y \<Longrightarrow> arb_is_finite (exact_arb_union x y)"
  "arb_is_finite x \<Longrightarrow> arb_is_finite (exact_arb_floor x)"
  by (erule arb_finiteE, (erule arb_finiteE)?,
      simp add: exact_arb_add_def exact_arb_sub_def exact_arb_mul_def
        exact_arb_union_def exact_arb_floor_def Let_def)+

lemma exact_acb_mul_encloses:
  "acb_encloses x v \<Longrightarrow> acb_encloses y w \<Longrightarrow> acb_encloses (exact_acb_mul x y) (v * w)"
  by (simp add: acb_encloses_def exact_acb_mul_def exact_arb_sub_encloses
      exact_arb_add_encloses exact_arb_mul_encloses)

lemma exact_acb_sub_encloses:
  "acb_encloses x v \<Longrightarrow> acb_encloses y w \<Longrightarrow> acb_encloses (exact_acb_sub x y) (v - w)"
  by (simp add: acb_encloses_def exact_acb_sub_def exact_arb_sub_encloses)

lemma exact_acb_union_encloses:
  "acb_encloses x w \<or> acb_encloses y w \<Longrightarrow> acb_encloses (exact_acb_union x y) w"
  by (auto simp: acb_encloses_def exact_acb_union_def exact_arb_union_encloses)

lemma exact_acb_mul_finite:
  "acb_is_finite x \<Longrightarrow> acb_is_finite y \<Longrightarrow> acb_is_finite (exact_acb_mul x y)"
  by (simp add: acb_is_finite_def exact_acb_mul_def)

lemma arf_neg_encloses:
  "ball_encloses m r t \<Longrightarrow> ball_encloses (arf_neg m) r (- t)"
  by (cases m; cases r) auto

lemma acb_neg_encloses: "acb_encloses z w \<Longrightarrow> acb_encloses (acb_neg z) (- w)"
  by (simp add: acb_encloses_def acb_neg_def arb_neg_def arb_encloses_def arf_neg_encloses)

lemma acb_neg_finite: "acb_is_finite z \<Longrightarrow> acb_is_finite (acb_neg z)"
  by (cases "arb_midref (acb_realref z)"; cases "arb_midref (acb_imagref z)")
     (simp_all add: acb_is_finite_def acb_neg_def arb_neg_def arb_is_finite_def)

lemma csqrt_bound: "\<bar>Re (csqrt w)\<bar> \<le> 1 + cmod w" "\<bar>Im (csqrt w)\<bar> \<le> 1 + cmod w"
proof -
  have "cmod (csqrt w) ^ 2 = cmod w"
    by (metis norm_power power2_csqrt)
  moreover have "x \<le> 1 + x ^ 2" for x :: real
  proof -
    have "0 \<le> (x - 1) ^ 2" by simp
    then have "2 * x \<le> 1 + x ^ 2" by (simp add: power2_diff)
    then show ?thesis using zero_le_power2[of x] by linarith
  qed
  ultimately have "cmod (csqrt w) \<le> 1 + cmod w" by metis
  then show "\<bar>Re (csqrt w)\<bar> \<le> 1 + cmod w" "\<bar>Im (csqrt w)\<bar> \<le> 1 + cmod w"
    using abs_Re_le_cmod[of "csqrt w"] abs_Im_le_cmod[of "csqrt w"] by linarith+
qed

lemma exact_acb_sqrt_encloses:
  assumes "acb_encloses z w"
  shows "acb_encloses (exact_acb_sqrt z) (csqrt w)"
proof (cases "arb_parts (acb_realref z)")
  case None
  then show ?thesis by (simp add: exact_acb_sqrt_def)
next
  case (Some p)
  obtain a ra where p: "p = (a, ra)" by (cases p)
  show ?thesis
  proof (cases "arb_parts (acb_imagref z)")
    case None
    then show ?thesis using Some p by (simp add: exact_acb_sqrt_def)
  next
    case (Some q)
    obtain b rb where q: "q = (b, rb)" by (cases q)
    note re = \<open>arb_parts (acb_realref z) = Some p\<close>[unfolded p]
    note im = Some[unfolded q]
    from assms have A: "\<bar>Re w - a\<bar> \<le> ra" and B: "\<bar>Im w - b\<bar> \<le> rb"
      using re im by (simp_all add: acb_encloses_def arb_encloses_parts)
    show ?thesis
    proof (cases "ra = 0 \<and> rb = 0")
      case True
      with A B have "w = Complex a b" by (simp add: complex_eq_iff)
      then show ?thesis using re im True
        by (simp add: exact_acb_sqrt_def acb_box_def acb_encloses_def)
    next
      case False
      have "cmod w \<le> \<bar>Re w\<bar> + \<bar>Im w\<bar>" by (rule cmod_le)
      also have "\<dots> \<le> \<bar>a\<bar> + ra + \<bar>b\<bar> + rb" using A B by linarith
      finally have "1 + cmod w \<le> 1 + \<bar>a\<bar> + ra + \<bar>b\<bar> + rb" by simp
      then show ?thesis using re im False csqrt_bound[of w]
        by (auto simp: exact_acb_sqrt_def acb_box_def acb_encloses_def Let_def)
    qed
  qed
qed

lemma exact_acb_sqrt_finite: "acb_is_finite z \<Longrightarrow> acb_is_finite (exact_acb_sqrt z)"
  by (cases "arb_parts (acb_realref z)"; cases "arb_parts (acb_imagref z)")
     (auto simp: exact_acb_sqrt_def acb_is_finite_def arb_parts_finite acb_box_def Let_def)

lemma exact_lib_helpers_ok: "helpers_lib_ok exact_lib"
  unfolding helpers_lib_ok_def
  by (simp add: exact_lib_def encloses_fun1_def finite_fun1_def encloses_real1_def
      finite_real1_def sqrt_finite_off_cut_def
      acb_neg_encloses acb_neg_finite exact_arb_floor_encloses exact_acb_sqrt_encloses
      exact_acb_sqrt_finite)

subsection \<open>Enclosures through the library contracts\<close>

lemma enc1: "encloses_fun1 F g \<Longrightarrow> acb_encloses z w \<Longrightarrow> acb_encloses (F z prec) (g w)"
  by (simp add: encloses_fun1_def)

lemma enc2:
  "encloses_fun2 F g \<Longrightarrow> acb_encloses x v \<Longrightarrow> acb_encloses y w
     \<Longrightarrow> acb_encloses (F x y prec) (g v w)"
  by (simp add: encloses_fun2_def)

lemma encw: "encloses_word F g \<Longrightarrow> acb_encloses z w \<Longrightarrow> acb_encloses (F z n prec) (g w n)"
  by (simp add: encloses_word_def)

lemma returns_enclosureI: "acb_encloses r v \<Longrightarrow> returns_enclosure ((Inr (0, r), h)) v"
  by (simp add: returns_enclosure_def)

lemma zero_pm_one_finite: "acb_is_finite acb_zero_pm_one"
  by (simp add: acb_zero_pm_one_def acb_zero_def arb_zero_def mag_one_def acb_is_finite_def
      arb_is_finite_def)

lemma zero_pm_one_encloses: "\<bar>t\<bar> \<le> 1 \<Longrightarrow> acb_encloses acb_zero_pm_one (of_real t)"
  by (simp add: acb_zero_pm_one_def acb_zero_def arb_zero_def mag_one_def acb_encloses_def
      arb_encloses_def)

lemma acb_one_encloses: "acb_encloses acb_one 1"
  by (simp add: acb_encloses_def acb_one_def arb_one_def arb_zero_def arb_encloses_def)

lemma acb_onei_encloses: "acb_encloses acb_onei \<i>"
  by (simp add: acb_encloses_def acb_onei_def arb_one_def arb_zero_def arb_encloses_def)

lemma elliptic_enclosure:
  assumes wp: "encloses_fun2 (acb_modular_elliptic_p L) wp"
    and pw: "encloses_word (acb_pow_si L) (\<lambda>w e. w powi sint e)"
    and ml: "encloses_fun2 (acb_mul L) (*)"
    and n: "load h param = Some n" and o: "\<not> sint order > 1" and w: "acb_encloses z w"
  shows "returns_enclosure (f_elliptic_p_laurent_n L h z param order prec)
           (wp w \<i> * w powi sint (- n - 1))"
proof -
  have p: "acb_encloses (acb_modular_elliptic_p L z acb_onei prec) (wp w \<i>)"
    using wp w acb_onei_encloses by (rule enc2)
  have q: "acb_encloses (acb_pow_si L z (- n - 1) prec) (w powi sint (- n - 1))"
    using encw[OF pw w] .
  have "acb_encloses (acb_mul L (acb_modular_elliptic_p L z acb_onei prec)
          (acb_pow_si L z (- n - 1) prec) prec) (wp w \<i> * w powi sint (- n - 1))"
    using ml p q by (rule enc2)
  then show ?thesis
    unfolding f_elliptic_p_laurent_n_def Let_def using n o by (simp add: returns_enclosureI)
qed

section \<open>The non-analytic locus of each helper\<close>

text \<open>
  The functions \<open>abs_halfplanes\<close> and \<open>floor_strips\<close> are complex differentiable off the
  imaginary axis, respectively off the vertical lines through the integers, and agree
  with the absolute value and the floor function on the real line: they are the
  holomorphic extensions the helpers' comments name. The function \<open>floor (Re w) + i Im w\<close>
  is complex differentiable at no point off those lines.
\<close>

lemma abs_Re_diff_le: "\<bar>Re x - Re w\<bar> \<le> dist x w"
  using abs_Re_le_cmod[of "x - w"] by (simp add: dist_norm)

lemma floor_strips_holomorphic:
  assumes "Re w \<notin> \<int>"
  shows "(floor_strips has_field_derivative 0) (at w)"
proof -
  define n where "n = \<lfloor>Re w\<rfloor>"
  have lo: "of_int n < Re w"
    using assms unfolding n_def by (metis Ints_of_int less_le of_int_floor_le)
  have hi: "Re w < of_int n + 1" unfolding n_def by linarith
  define d where "d = min (Re w - of_int n) (of_int n + 1 - Re w)"
  have d: "0 < d" using lo hi by (simp add: d_def)
  have same: "of_int n = floor_strips x" if "dist x w < d" for x
  proof -
    have "\<bar>Re x - Re w\<bar> < d" using that abs_Re_diff_le[of x w] by linarith
    then have "of_int n < Re x" "Re x < of_int n + 1" unfolding d_def by linarith+
    then have "\<lfloor>Re x\<rfloor> = n" by linarith
    then show ?thesis by (simp add: floor_strips_def)
  qed
  have "((\<lambda>x. of_int n :: complex) has_field_derivative 0) (at w within UNIV)" by simp
  then have "(floor_strips has_field_derivative 0) (at w within UNIV)"
    using d by (rule has_field_derivative_transform_within) (simp_all add: same)
  then show ?thesis by simp
qed

lemma abs_halfplanes_holomorphic:
  assumes "Re w \<noteq> 0"
  shows "(abs_halfplanes has_field_derivative (if 0 < Re w then 1 else - 1)) (at w)"
proof -
  define d where "d = \<bar>Re w\<bar>"
  have d: "0 < d" using assms by (simp add: d_def)
  have same: "(if 0 < Re w then x else - x) = abs_halfplanes x" if "dist x w < d" for x
  proof -
    have "\<bar>Re x - Re w\<bar> < \<bar>Re w\<bar>" using that abs_Re_diff_le[of x w] unfolding d_def by linarith
    then have "(0 < Re w \<longrightarrow> 0 < Re x) \<and> (\<not> 0 < Re w \<longrightarrow> Re x < 0)" using assms by linarith
    then show ?thesis by (auto simp: abs_halfplanes_def)
  qed
  have "((\<lambda>x. if 0 < Re w then x else - x) has_field_derivative (if 0 < Re w then 1 else - 1))
          (at w within UNIV)"
    by (auto intro!: derivative_eq_intros)
  then have "(abs_halfplanes has_field_derivative (if 0 < Re w then 1 else - 1)) (at w within UNIV)"
    using d by (rule has_field_derivative_transform_within) (simp_all add: same)
  then show ?thesis by simp
qed

lemma extensions_on_reals:
  "abs_halfplanes (of_real x) = of_real \<bar>x\<bar>" "floor_strips (of_real x) = of_int \<lfloor>x\<rfloor>"
  by (simp_all add: abs_halfplanes_def floor_strips_def)


lemma Im_not_holomorphic:
  "\<not> ((\<lambda>x. of_real (Im x) :: complex) has_field_derivative E) (at w)"
proof
  assume "((\<lambda>x. of_real (Im x) :: complex) has_field_derivative E) (at w)"
  then have lim: "((\<lambda>k. (of_real (Im (w + k)) - of_real (Im w)) / k) \<longlongrightarrow> E) (at 0)"
    by (simp add: DERIV_def)
  have q: "(of_real (Im (w + k)) - of_real (Im w) :: complex) / k = of_real (Im k) / k" for k
    by simp
  from lim have lim': "((\<lambda>k. of_real (Im k) / k) \<longlongrightarrow> E) (at (0::complex))"
    by (simp only: q)
  define X where "X = (\<lambda>n. of_real (inverse (real (Suc n))) :: complex)"
  define Y where "Y = (\<lambda>n. \<i> * of_real (inverse (real (Suc n))))"
  have r: "(\<lambda>n. inverse (real (Suc n))) \<longlonglongrightarrow> 0" by (rule LIMSEQ_inverse_real_of_nat)
  have "X \<longlonglongrightarrow> of_real 0" unfolding X_def by (rule tendsto_of_real[OF r])
  then have X0: "X \<longlonglongrightarrow> 0" by (simp only: of_real_0)
  have "Y \<longlonglongrightarrow> \<i> * of_real 0"
    unfolding Y_def by (rule tendsto_mult_left[OF tendsto_of_real[OF r]])
  then have Y0: "Y \<longlonglongrightarrow> 0" by (simp only: of_real_0 mult_zero_right)
  have Xn: "\<forall>i. X i \<in> UNIV - {0}" and Yn: "\<forall>i. Y i \<in> UNIV - {0}"
    by (simp_all add: X_def Y_def del: of_nat_Suc)
  from lim' have seq: "\<forall>Z. (\<forall>i. Z i \<in> UNIV - {0}) \<longrightarrow> Z \<longlonglongrightarrow> 0
      \<longrightarrow> ((\<lambda>k. of_real (Im k) / k) \<circ> Z) \<longlonglongrightarrow> E"
    by (simp only: tendsto_at_iff_sequentially)
  from seq Xn X0 have "((\<lambda>k. of_real (Im k) / k) \<circ> X) \<longlonglongrightarrow> E" by blast
  moreover have "((\<lambda>k. of_real (Im k) / k) \<circ> X) = (\<lambda>n. 0)"
  proof
    fix n
    have "Im (X n) = 0" unfolding X_def by (simp only: Im_complex_of_real)
    then show "((\<lambda>k. of_real (Im k) / k) \<circ> X) n = 0" by simp
  qed
  ultimately have E0: "E = 0" using LIMSEQ_unique[of "\<lambda>n. 0" E 0] by simp
  from seq Yn Y0 have "((\<lambda>k. of_real (Im k) / k) \<circ> Y) \<longlonglongrightarrow> E" by blast
  moreover have "((\<lambda>k. of_real (Im k) / k) \<circ> Y) = (\<lambda>n. - \<i>)"
  proof
    fix n
    define t where "t = inverse (real (Suc n))"
    have t: "t \<noteq> 0" unfolding t_def by (simp del: of_nat_Suc)
    have "of_real (Im (\<i> * of_real t)) / (\<i> * of_real t) = - \<i>"
      using t by (simp add: divide_simps)
    then show "((\<lambda>k. of_real (Im k) / k) \<circ> Y) n = - \<i>"
      by (simp only: Y_def t_def comp_def)
  qed
  ultimately have "E = - \<i>" using LIMSEQ_unique[of "\<lambda>n. - \<i>" E "- \<i>"] by simp
  with E0 show False by simp
qed


lemma floor_with_imag_not_holomorphic:
  assumes "Re w \<notin> \<int>"
  shows "\<not> ((\<lambda>x. Complex (of_int \<lfloor>Re x\<rfloor>) (Im x)) has_field_derivative D) (at w)"
proof
  assume d: "((\<lambda>x. Complex (of_int \<lfloor>Re x\<rfloor>) (Im x)) has_field_derivative D) (at w)"
  have "((\<lambda>x. Complex (of_int \<lfloor>Re x\<rfloor>) (Im x) - floor_strips x) has_field_derivative D - 0)
          (at w)"
    by (rule DERIV_diff[OF d floor_strips_holomorphic[OF assms]])
  moreover have "(\<lambda>x. Complex (of_int \<lfloor>Re x\<rfloor>) (Im x) - floor_strips x)
                   = (\<lambda>x. \<i> * of_real (Im x))"
    by (simp add: fun_eq_iff floor_strips_def complex_eq_iff)
  ultimately have "((\<lambda>x. \<i> * of_real (Im x)) has_field_derivative D) (at w)" by simp
  then have "((\<lambda>x. (- \<i>) * (\<i> * of_real (Im x))) has_field_derivative (- \<i>) * D) (at w)"
    by (rule DERIV_cmult)
  then have "((\<lambda>x. of_real (Im x) :: complex) has_field_derivative (- \<i>) * D) (at w)"
    by simp
  with Im_not_holomorphic show False by blast
qed

text \<open>
  What the three helpers do at a probe of order above zero (\<open>holomorphic\<close> set) on a finite
  ball \<open>z\<close>, for every library: each returns the indeterminate ball exactly on its locus,
  \<open>acb_holomorphic_abs\<close> when the real part of \<open>z\<close> contains zero, \<open>acb_holomorphic_floor\<close>
  when it contains an integer, \<open>acb_holomorphic_sqrt\<close> when the imaginary part contains
  zero and the real part a non-positive number. Off the locus the result is finite; it
  encloses the continued absolute value, respectively the principal square root, over
  \<open>z\<close>, and the continued floor function at the points of \<open>z\<close> on the real axis.
\<close>

lemma probe_loci:
  assumes "acb_is_finite z" and "helpers_lib_ok L"
  shows
    "(acb_holomorphic_abs L res z True prec = acb_indeterminate
        \<longleftrightarrow> arb_contains_zero (acb_realref z)) \<and>
     (\<not> arb_contains_zero (acb_realref z) \<longrightarrow>
        acb_is_finite (acb_holomorphic_abs L res z True prec) \<and>
        (\<forall>w. acb_encloses z w \<longrightarrow>
           acb_encloses (acb_holomorphic_abs L res z True prec) (abs_halfplanes w))) \<and>
     (acb_holomorphic_floor L z True prec = acb_indeterminate
        \<longleftrightarrow> arb_contains_int (acb_realref z)) \<and>
     (\<not> arb_contains_int (acb_realref z) \<longrightarrow>
        acb_is_finite (acb_holomorphic_floor L z True prec) \<and>
        (\<forall>w. acb_encloses z w \<and> Im w = 0 \<longrightarrow>
           acb_encloses (acb_holomorphic_floor L z True prec) (floor_strips w))) \<and>
     (acb_holomorphic_sqrt L z True prec = acb_indeterminate
        \<longleftrightarrow> arb_contains_zero (acb_imagref z) \<and> arb_contains_nonpositive (acb_realref z)) \<and>
     (\<not> (arb_contains_zero (acb_imagref z) \<and> arb_contains_nonpositive (acb_realref z)) \<longrightarrow>
        acb_is_finite (acb_holomorphic_sqrt L z True prec) \<and>
        (\<forall>w. acb_encloses z w \<longrightarrow>
           acb_encloses (acb_holomorphic_sqrt L z True prec) (csqrt w)))"
proof -
  have fl: "Complex (of_int \<lfloor>Re w\<rfloor>) (Im w) = floor_strips w" if "Im w = 0" for w
    using that by (simp add: floor_strips_def complex_eq_iff)
  show ?thesis
    using abs_probe[OF assms, of res prec] floor_probe[OF assms, of prec]
      sqrt_probe[OF assms, of prec] fl
    by metis
qed

text \<open>
  Claim C2 asks, for a finite ball off the locus of the helper, for a finite enclosure of
  the holomorphic extension. \<open>acb_holomorphic_floor\<close> does not return one: probed on the
  point \<open>1/2 + i\<close>, which is finite and whose real part contains no integer, it returns
  the point \<open>i\<close>, and so does \<open>f_floor\<close> at order 1. The floor function continued to the
  strip \<open>0 < Re w < 1\<close> is the constant 0 there, complex differentiable at \<open>1/2 + i\<close>, and
  the point \<open>i\<close> does not enclose 0: the helper copies the imaginary part of \<open>z\<close> into the
  result.
\<close>

theorem holomorphic_floor_copies_imag:
  "acb_is_finite (acb_box (1/2) 0 1 0) \<and>
   \<not> arb_contains_int (acb_realref (acb_box (1/2) 0 1 0)) \<and>
   acb_encloses (acb_box (1/2) 0 1 0) (Complex (1/2) 1) \<and>
   acb_holomorphic_floor exact_lib (acb_box (1/2) 0 1 0) True 64 = acb_box 0 0 1 0 \<and>
   f_floor exact_lib empty_heap (acb_box (1/2) 0 1 0) Null 1 64
     = (Inr (0, acb_box 0 0 1 0), empty_heap) \<and>
   acb_is_finite (acb_box 0 0 1 0) \<and>
   floor_strips (Complex (1/2) 1) = 0 \<and>
   (floor_strips has_field_derivative 0) (at (Complex (1/2) 1)) \<and>
   \<not> acb_encloses (acb_holomorphic_floor exact_lib (acb_box (1/2) 0 1 0) True 64)
       (floor_strips (Complex (1/2) 1))"
proof -
  have "Re (Complex (1/2) 1) \<notin> \<int>"
  proof
    assume "Re (Complex (1/2) 1) \<in> \<int>"
    then obtain k :: int where "(1/2 :: real) = of_int k" by (auto elim: Ints_cases)
    then have "(1 :: real) = of_int (2 * k)" by simp
    then have "(1 :: int) = 2 * k" using of_int_eq_iff[of 1 "2 * k", where ?'a = real] by simp
    then show False by presburger
  qed
  then have d: "(floor_strips has_field_derivative 0) (at (Complex (1/2) 1))"
    by (rule floor_strips_holomorphic)
  have r: "acb_holomorphic_floor exact_lib (acb_box (1/2) 0 1 0) True 64 = acb_box 0 0 1 0"
    by (simp add: acb_is_finite_def acb_box_def arb_ball_def arb_is_finite_def
        arb_contains_int_def acb_holomorphic_floor_def
        exact_lib_def exact_arb_floor_def arb_parts_def Let_def)
  have f: "f_floor exact_lib empty_heap (acb_box (1/2) 0 1 0) Null 1 64
     = (Inr (0, acb_box 0 0 1 0), empty_heap)"
    by (simp add: f_floor_def r)
  show ?thesis
    unfolding r f using d
    by (simp add: acb_is_finite_def acb_box_def arb_ball_def arb_is_finite_def
        arb_contains_int_def acb_encloses_def arb_encloses_def floor_strips_def)
qed

text \<open>In plain values: the helper returns the point \<open>i\<close>, and the point \<open>i\<close> does not enclose
  the value 0 of the continued floor function.\<close>

theorem holomorphic_floor_copies_imag_witness:
  "acb_holomorphic_floor exact_lib (acb_box (1/2) 0 1 0) True 64 = acb_box 0 0 1 0 \<and>
   \<not> acb_encloses (acb_box 0 0 1 0) 0"
proof -
  have r: "acb_holomorphic_floor exact_lib (acb_box (1/2) 0 1 0) True 64 = acb_box 0 0 1 0"
    and v: "floor_strips (Complex (1/2) 1) = 0"
    and n: "\<not> acb_encloses (acb_holomorphic_floor exact_lib (acb_box (1/2) 0 1 0) True 64)
             (floor_strips (Complex (1/2) 1))"
    using holomorphic_floor_copies_imag by blast+
  from n show ?thesis unfolding r v using r by blast
qed

section \<open>Non-finite regions and intermediate results\<close>

text \<open>
  Claim C7. A region that is not finite makes each of the three helpers return the
  indeterminate ball; nothing aborts there. \<open>f_helfgott\<close> and \<open>f_monster\<close>, called with a
  supported order, test the helper's result: when it is not finite they return it as it
  is, with return value 0 and without the arithmetic that follows (the result does not
  depend on the product with \<open>exp\<close> or \<open>sin\<close>), and a helper input that is not finite
  therefore comes out as the indeterminate ball.
\<close>

theorem nonfinite_propagates:
  "(\<not> acb_is_finite z \<longrightarrow>
      acb_holomorphic_abs L res z holomorphic prec = acb_indeterminate \<and>
      acb_holomorphic_floor L z holomorphic prec = acb_indeterminate \<and>
      acb_holomorphic_sqrt L z holomorphic prec = acb_indeterminate) \<and>
   (\<not> sint order > 1 \<longrightarrow>
      (let p = helfgott_poly L z prec;
           a = acb_holomorphic_abs L p p (order \<noteq> 0) prec
       in (\<not> acb_is_finite a \<longrightarrow> f_helfgott L h z param order prec = (Inr (0, a), h)) \<and>
          (\<not> acb_is_finite p \<longrightarrow>
             f_helfgott L h z param order prec = (Inr (0, acb_indeterminate), h))) \<and>
      (let t = acb_exp L z prec;
           a = acb_holomorphic_floor L t (order \<noteq> 0) prec
       in (\<not> acb_is_finite a \<longrightarrow> f_monster L h z param order prec = (Inr (0, a), h)) \<and>
          (\<not> acb_is_finite t \<longrightarrow>
             f_monster L h z param order prec = (Inr (0, acb_indeterminate), h))))"
proof -
  have ind: "\<not> acb_is_finite acb_indeterminate"
    by (simp add: acb_is_finite_def acb_indeterminate_def arb_is_finite_def
        arb_indeterminate_def)
  have helpers: "acb_holomorphic_abs L r y b q = acb_indeterminate"
    "acb_holomorphic_floor L y b q = acb_indeterminate"
    "acb_holomorphic_sqrt L y b q = acb_indeterminate"
    if "\<not> acb_is_finite y" for r y b q
    using that
    by (simp_all add: acb_holomorphic_abs_def acb_holomorphic_floor_def
        acb_holomorphic_sqrt_def)
  show ?thesis
    using ind helpers
    by (simp add: f_helfgott_def f_monster_def Let_def)
qed

text \<open>The theorem at the indeterminate ball and order 0.\<close>

theorem nonfinite_propagates_witness:
  "\<not> acb_is_finite acb_indeterminate \<and> \<not> sint (0::slong) > 1 \<and>
   acb_holomorphic_abs exact_lib acb_zero acb_indeterminate False 64 = acb_indeterminate \<and>
   acb_holomorphic_floor exact_lib acb_indeterminate False 64 = acb_indeterminate \<and>
   acb_holomorphic_sqrt exact_lib acb_indeterminate False 64 = acb_indeterminate \<and>
   \<not> acb_is_finite (helfgott_poly exact_lib acb_indeterminate 64) \<and>
   f_helfgott exact_lib empty_heap acb_indeterminate Null 0 64
     = (Inr (0, acb_indeterminate), empty_heap) \<and>
   \<not> acb_is_finite (acb_exp exact_lib acb_indeterminate 64) \<and>
   f_monster exact_lib empty_heap acb_indeterminate Null 0 64
     = (Inr (0, acb_indeterminate), empty_heap)"
proof -
  have n: "\<not> acb_is_finite acb_indeterminate" by (rule indeterminate_not_finite)
  have o: "\<not> sint (0::slong) > 1" by simp
  have p: "\<not> acb_is_finite (helfgott_poly exact_lib acb_indeterminate 64)"
    by (simp add: helfgott_poly_def exact_lib_def exact_acb_add_def exact_acb_mul_def
        exact_arb_add_def exact_arb_sub_def exact_arb_mul_def arb_parts_def
        acb_indeterminate_def arb_indeterminate_def acb_is_finite_def arb_is_finite_def
        Let_def)
  have e: "\<not> acb_is_finite (acb_exp exact_lib acb_indeterminate 64)"
    using n by (simp add: exact_lib_def)
  show ?thesis
    using n o p e
      nonfinite_propagates[of acb_indeterminate exact_lib acb_zero False 64 0 empty_heap Null]
    by (simp add: Let_def)
qed

section \<open>Enclosures of values at order 0\<close>

lemma abs_value_encloses:
  assumes ok: "helpers_lib_ok L" and un: "union_encloses (acb_union L)"
    and side: "res = z \<or> arb_is_nonnegative (acb_realref z) \<or> arb_is_negative (acb_realref z)"
    and x: "acb_encloses z (of_real x)"
  shows "acb_encloses (acb_holomorphic_abs L res z False prec) (of_real \<bar>x\<bar>)"
proof (cases "acb_is_finite z")
  case False
  then show ?thesis by (simp add: acb_holomorphic_abs_def)
next
  case True
  have xr: "arb_encloses (acb_realref z) x" using x by (simp add: acb_encloses_def)
  have nx: "acb_encloses (acb_neg z) (of_real (- x))"
    using acb_neg_encloses[OF x] by simp
  consider (pos) "arb_is_nonnegative (acb_realref z)"
    | (neg) "\<not> arb_is_nonnegative (acb_realref z)" "arb_is_negative (acb_realref z)"
    | (mix) "\<not> arb_is_nonnegative (acb_realref z)" "\<not> arb_is_negative (acb_realref z)"
    by blast
  then show ?thesis
  proof cases
    case pos
    then have "0 \<le> x" using xr by (rule nonnegative_encloses)
    then show ?thesis
      using True pos ok x
      by (simp add: acb_holomorphic_abs_def helpers_lib_ok_def encloses_fun1_def)
  next
    case neg
    then have "x < 0" using xr by (auto intro: negative_encloses)
    moreover have "acb_encloses (acb_neg_round L z prec) (- of_real x)"
      using ok x by (simp add: helpers_lib_ok_def encloses_fun1_def)
    ultimately show ?thesis
      using True neg by (simp add: acb_holomorphic_abs_def)
  next
    case mix
    with side have rz: "res = z" by blast
    have "acb_encloses (acb_union L z (acb_neg z) prec) (of_real \<bar>x\<bar>)"
    proof (cases "0 \<le> x")
      case True
      then show ?thesis using un x by (simp add: union_encloses_def)
    next
      case False
      then have "\<bar>x\<bar> = - x" by simp
      then show ?thesis using un nx by (simp add: union_encloses_def)
    qed
    then show ?thesis
      using True mix rz by (simp add: acb_holomorphic_abs_def)
  qed
qed

lemma circle_value_encloses:
  assumes ok: "helpers_lib_ok L" and sm: "submul_encloses (acb_submul L)"
    and x: "acb_encloses z (of_real x)" and x1: "\<bar>x\<bar> \<le> 1"
  shows "\<exists>r. f_circle L h z param 0 prec = (Inr (0, r), h) \<and> acb_imagref r = arb_zero \<and>
             acb_encloses r (of_real (sqrt (1 - x\<^sup>2)))"
proof -
  let ?u = "acb_submul L acb_one z z prec"
  let ?s = "acb_holomorphic_sqrt L ?u False prec"
  have "x\<^sup>2 \<le> 1\<^sup>2" using x1 abs_le_square_iff[of x 1] by simp
  then have nn: "0 \<le> 1 - x\<^sup>2" by simp
  have "acb_encloses ?u (1 - of_real x * of_real x)"
    using sm acb_one_encloses x by (simp add: submul_encloses_def)
  then have u: "acb_encloses ?u (of_real (1 - x\<^sup>2))" by (simp add: power2_eq_square)
  have "acb_encloses ?s (csqrt (of_real (1 - x\<^sup>2)))"
  proof (cases "acb_is_finite ?u")
    case True
    then show ?thesis
      using ok u by (simp add: acb_holomorphic_sqrt_def helpers_lib_ok_def encloses_fun1_def)
  next
    case False
    then show ?thesis by (simp add: acb_holomorphic_sqrt_def)
  qed
  then have s: "acb_encloses ?s (of_real (sqrt (1 - x\<^sup>2)))"
    by (simp only: of_real_sqrt[OF nn])
  have "acb_encloses (?s\<lparr>acb_imagref := arb_zero\<rparr>) (of_real (sqrt (1 - x\<^sup>2)))"
    using s by (simp add: acb_encloses_def arb_zero_def arb_encloses_def)
  then show ?thesis by (simp add: f_circle_def Let_def)
qed

lemma elementary_enclosures:
  assumes ok: "elementary_lib_ok L" and w: "acb_encloses z w"
  shows "returns_enclosure (f_sin L h z param 0 prec) (sin w)"
    and "returns_enclosure (f_atanderiv L h z param 0 prec) (inverse (w * w + 1))"
    and "returns_enclosure (f_rump L h z param 0 prec) (sin (exp w + w))"
    and "returns_enclosure (f_factorial1000 L h z param 0 prec) (exp (- w) * w ^ 1000)"
    and "returns_enclosure (f_sin_plus_small L h z param 0 prec)
           (sin w + exp (- (w * w + 200)))"
    and "returns_enclosure (f_exp L h z param 0 prec) (exp w)"
    and "returns_enclosure (f_gaussian L h z param 0 prec) (exp (- (w * w)))"
    and "returns_enclosure (f_wolfram L h z param 0 prec)
           (inverse (cosh (w * 10 - 2)) ^ 2 + inverse (cosh (w * 100 - 40)) ^ 4
              + inverse (cosh (w * 1000 - 600)) ^ 6)"
    and "returns_enclosure (f_sech L h z param 0 prec) (inverse (cosh w))"
    and "returns_enclosure (f_sech3 L h z param 0 prec) (inverse (cosh w) ^ 3)"
    and "returns_enclosure (f_log_div1p_transformed L h z param 0 prec)
           (exp (- w) / (exp (- w) + 1) * w)"
proof -
  note c = ok[unfolded elementary_lib_ok_def]
  have sin': "\<And>x v p. acb_encloses x v \<Longrightarrow> acb_encloses (acb_sin L x p) (sin v)"
    and exp': "\<And>x v p. acb_encloses x v \<Longrightarrow> acb_encloses (acb_exp L x p) (exp v)"
    and inv': "\<And>x v p. acb_encloses x v \<Longrightarrow> acb_encloses (acb_inv L x p) (inverse v)"
    and sech': "\<And>x v p. acb_encloses x v \<Longrightarrow> acb_encloses (acb_sech L x p) (inverse (cosh v))"
    and cube': "\<And>x v p. acb_encloses x v \<Longrightarrow> acb_encloses (acb_cube L x p) (v ^ 3)"
    and add': "\<And>x y u v p. acb_encloses x u \<Longrightarrow> acb_encloses y v
                 \<Longrightarrow> acb_encloses (acb_add L x y p) (u + v)"
    and mul': "\<And>x y u v p. acb_encloses x u \<Longrightarrow> acb_encloses y v
                 \<Longrightarrow> acb_encloses (acb_mul L x y p) (u * v)"
    and div': "\<And>x y u v p. acb_encloses x u \<Longrightarrow> acb_encloses y v
                 \<Longrightarrow> acb_encloses (acb_div L x y p) (u / v)"
    and add_ui': "\<And>x v n p. acb_encloses x v
                 \<Longrightarrow> acb_encloses (acb_add_ui L x n p) (v + of_nat (unat n))"
    and sub_ui': "\<And>x v n p. acb_encloses x v
                 \<Longrightarrow> acb_encloses (acb_sub_ui L x n p) (v - of_nat (unat n))"
    and mul_ui': "\<And>x v n p. acb_encloses x v
                 \<Longrightarrow> acb_encloses (acb_mul_ui L x n p) (v * of_nat (unat n))"
    and pow_ui': "\<And>x v n p. acb_encloses x v
                 \<Longrightarrow> acb_encloses (acb_pow_ui L x n p) (v ^ unat n)"
    using c by (simp_all add: encloses_fun1_def encloses_fun2_def encloses_word_def)
  note neg' = acb_neg_encloses
  show "returns_enclosure (f_sin L h z param 0 prec) (sin w)"
    unfolding f_sin_def by (simp add: returns_enclosureI sin' w)
  show "returns_enclosure (f_atanderiv L h z param 0 prec) (inverse (w * w + 1))"
    unfolding f_atanderiv_def Let_def
    using inv'[OF add_ui'[OF mul'[OF w w], where n = 1]] by (simp add: returns_enclosureI)
  show "returns_enclosure (f_rump L h z param 0 prec) (sin (exp w + w))"
    unfolding f_rump_def Let_def
    using sin'[OF add'[OF exp'[OF w] w]] by (simp add: returns_enclosureI)
  show "returns_enclosure (f_factorial1000 L h z param 0 prec) (exp (- w) * w ^ 1000)"
    unfolding f_factorial1000_def Let_def
    using mul'[OF exp'[OF neg'[OF w]] pow_ui'[OF w, where n = 1000]] by (simp add: returns_enclosureI)
  show "returns_enclosure (f_sin_plus_small L h z param 0 prec)
           (sin w + exp (- (w * w + 200)))"
    unfolding f_sin_plus_small_def Let_def
    using add'[OF sin'[OF w] exp'[OF neg'[OF add_ui'[OF mul'[OF w w], where n = 200]]]]
    by (simp add: returns_enclosureI)
  show "returns_enclosure (f_exp L h z param 0 prec) (exp w)"
    unfolding f_exp_def by (simp add: returns_enclosureI exp' w)
  show "returns_enclosure (f_gaussian L h z param 0 prec) (exp (- (w * w)))"
    unfolding f_gaussian_def Let_def
    using exp'[OF neg'[OF mul'[OF w w]]] by (simp add: returns_enclosureI)
  show "returns_enclosure (f_wolfram L h z param 0 prec)
           (inverse (cosh (w * 10 - 2)) ^ 2 + inverse (cosh (w * 100 - 40)) ^ 4
              + inverse (cosh (w * 1000 - 600)) ^ 6)"
    unfolding f_wolfram_def Let_def
    using add'[OF add'[OF
          pow_ui'[OF sech'[OF sub_ui'[OF mul_ui'[OF w, where n = 10], where n = 2]], where n = 2]
          pow_ui'[OF sech'[OF sub_ui'[OF mul_ui'[OF w, where n = 100], where n = 40]], where n = 4]]
          pow_ui'[OF sech'[OF sub_ui'[OF mul_ui'[OF w, where n = 1000], where n = 600]], where n = 6]]
    by (simp add: returns_enclosureI)
  show "returns_enclosure (f_sech L h z param 0 prec) (inverse (cosh w))"
    unfolding f_sech_def by (simp add: returns_enclosureI sech' w)
  show "returns_enclosure (f_sech3 L h z param 0 prec) (inverse (cosh w) ^ 3)"
    unfolding f_sech3_def Let_def
    using cube'[OF sech'[OF w]] by (simp add: returns_enclosureI)
  show "returns_enclosure (f_log_div1p_transformed L h z param 0 prec)
           (exp (- w) / (exp (- w) + 1) * w)"
    unfolding f_log_div1p_transformed_def Let_def
    using mul'[OF div'[OF exp'[OF neg'[OF w]] add_ui'[OF exp'[OF neg'[OF w]], where n = 1]] w]
    by (simp add: returns_enclosureI)
qed


lemma abs_in_place_finite:
  assumes ok: "helpers_lib_ok L" and unf: "finite_fun2 (acb_union L)"
  shows "acb_holomorphic_abs L z z False prec = acb_indeterminate
         \<or> acb_is_finite (acb_holomorphic_abs L z z False prec)"
proof (cases "acb_is_finite z")
  case False
  then show ?thesis by (simp add: acb_holomorphic_abs_def)
next
  case True
  then have "acb_is_finite (acb_set_round L z prec)" "acb_is_finite (acb_neg_round L z prec)"
    "acb_is_finite (acb_union L z (acb_neg z) prec)"
    using ok unf acb_neg_finite[of z]
    by (simp_all add: helpers_lib_ok_def finite_fun1_def finite_fun2_def)
  then show ?thesis using True by (simp add: acb_holomorphic_abs_def)
qed

lemma helfgott_enclosure:
  assumes ok: "helpers_lib_ok L" and un: "union_encloses (acb_union L)"
    and unf: "finite_fun2 (acb_union L)" and el: "elementary_lib_ok L"
    and x: "acb_encloses z (of_real x)"
  shows "returns_enclosure (f_helfgott L h z param 0 prec)
           (of_real (\<bar>(((x + 10) * x + 19) * x - 6) * x - 6\<bar> * exp x))"
proof -
  let ?p = "helfgott_poly L z prec"
  let ?a = "acb_holomorphic_abs L ?p ?p False prec"
  let ?v = "(((x + 10) * x + 19) * x - 6) * x - 6"
  note c = el[unfolded elementary_lib_ok_def]
  have exp': "\<And>x v p. acb_encloses x v \<Longrightarrow> acb_encloses (acb_exp L x p) (exp v)"
    and mul': "\<And>x y u v p. acb_encloses x u \<Longrightarrow> acb_encloses y v
                 \<Longrightarrow> acb_encloses (acb_mul L x y p) (u * v)"
    and add_si': "\<And>x v n p. acb_encloses x v
                 \<Longrightarrow> acb_encloses (acb_add_si L x n p) (v + of_int (sint n))"
    using c by (simp_all add: encloses_fun1_def encloses_fun2_def encloses_word_def)
  have "acb_encloses ?p
          ((((of_real x + of_int (sint (10::slong))) * of_real x + of_int (sint (19::slong)))
              * of_real x + of_int (sint (- 6 :: slong))) * of_real x
            + of_int (sint (- 6 :: slong)))"
    unfolding helfgott_poly_def Let_def
    by (intro add_si' mul' x)
  then have p: "acb_encloses ?p (of_real ?v)" by simp
  have a: "acb_encloses ?a (of_real \<bar>?v\<bar>)"
    using ok un _ p by (rule abs_value_encloses) simp
  have e: "acb_encloses (acb_exp L z prec) (of_real (exp x))"
    using exp'[OF x] by (simp add: exp_of_real)
  show ?thesis
  proof (cases "acb_is_finite ?a")
    case True
    then show ?thesis
      unfolding f_helfgott_def Let_def using mul'[OF a e] by (simp add: returns_enclosureI)
  next
    case False
    with abs_in_place_finite[OF ok unf, of ?p prec] have "?a = acb_indeterminate" by blast
    then show ?thesis
      unfolding f_helfgott_def Let_def using False by (simp add: returns_enclosureI)
  qed
qed

lemma floor_value_encloses:
  assumes ok: "helpers_lib_ok L" and x: "acb_encloses z (of_real x)"
  shows "acb_encloses (acb_holomorphic_floor L z False prec) (of_int \<lfloor>x\<rfloor>)"
proof (cases "acb_is_finite z")
  case False
  then show ?thesis by (simp add: acb_holomorphic_floor_def)
next
  case True
  have "arb_encloses (acb_realref z) x" "arb_encloses (acb_imagref z) 0"
    using x by (simp_all add: acb_encloses_def)
  then have "arb_encloses (arb_floor L (acb_realref z) prec) (of_int \<lfloor>x\<rfloor>)"
    "arb_encloses (arb_set_round L (acb_imagref z) prec) 0"
    using ok by (simp_all add: helpers_lib_ok_def encloses_real1_def)
  then show ?thesis using True by (simp add: acb_holomorphic_floor_def acb_encloses_def)
qed

lemma floor_order0_finite:
  assumes ok: "helpers_lib_ok L"
  shows "acb_holomorphic_floor L z False prec = acb_indeterminate
         \<or> acb_is_finite (acb_holomorphic_floor L z False prec)"
proof (cases "acb_is_finite z")
  case False
  then show ?thesis by (simp add: acb_holomorphic_floor_def)
next
  case True
  then have "arb_is_finite (arb_floor L (acb_realref z) prec)"
    "arb_is_finite (arb_set_round L (acb_imagref z) prec)"
    using ok by (simp_all add: helpers_lib_ok_def finite_real1_def acb_is_finite_def)
  then show ?thesis using True by (simp add: acb_holomorphic_floor_def acb_is_finite_def)
qed

lemma floor_enclosure:
  assumes ok: "helpers_lib_ok L" and x: "acb_encloses z (of_real x)"
  shows "returns_enclosure (f_floor L h z param 0 prec) (of_int \<lfloor>x\<rfloor>)"
  unfolding f_floor_def using floor_value_encloses[OF ok x, of prec]
  by (simp add: returns_enclosureI)

lemma monster_enclosure:
  assumes ok: "helpers_lib_ok L" and el: "elementary_lib_ok L"
    and sb: "encloses_fun2 (acb_sub L) (-)" and x: "acb_encloses z (of_real x)"
  shows "returns_enclosure (f_monster L h z param 0 prec)
           (of_real ((exp x - of_int \<lfloor>exp x\<rfloor>) * sin (exp x + x)))"
proof -
  let ?t = "acb_exp L z prec"
  let ?f = "acb_holomorphic_floor L ?t False prec"
  note c = el[unfolded elementary_lib_ok_def]
  have ex: "encloses_fun1 (acb_exp L) exp" and sn: "encloses_fun1 (acb_sin L) sin"
    and ad: "encloses_fun2 (acb_add L) (+)" and ml: "encloses_fun2 (acb_mul L) (*)"
    using c by simp_all
  have "acb_encloses ?t (exp (of_real x))" using ex x by (rule enc1)
  then have t: "acb_encloses ?t (of_real (exp x))" by (simp only: exp_of_real)
  have f: "acb_encloses ?f (of_int \<lfloor>exp x\<rfloor>)" using ok t by (rule floor_value_encloses)
  show ?thesis
  proof (cases "acb_is_finite ?f")
    case True
    have d: "acb_encloses (acb_sub L ?t ?f prec) (of_real (exp x) - of_int \<lfloor>exp x\<rfloor>)"
      using sb t f by (rule enc2)
    have "acb_encloses (acb_add L ?t z prec) (of_real (exp x) + of_real x)"
      using ad t x by (rule enc2)
    then have "acb_encloses (acb_sin L (acb_add L ?t z prec) prec)
                 (sin (of_real (exp x) + of_real x))"
      by (rule enc1[OF sn])
    then have s: "acb_encloses (acb_sin L (acb_add L ?t z prec) prec)
                 (of_real (sin (exp x + x)))"
      by (simp add: sin_of_real flip: of_real_add)
    have "acb_encloses (acb_mul L (acb_sub L ?t ?f prec)
             (acb_sin L (acb_add L ?t z prec) prec) prec)
            ((of_real (exp x) - of_int \<lfloor>exp x\<rfloor>) * of_real (sin (exp x + x)))"
      using ml d s by (rule enc2)
    then have "acb_encloses (acb_mul L (acb_sub L ?t ?f prec)
             (acb_sin L (acb_add L ?t z prec) prec) prec)
            (of_real ((exp x - of_int \<lfloor>exp x\<rfloor>) * sin (exp x + x)))"
      by simp
    then show ?thesis
      unfolding f_monster_def Let_def using True by (simp add: returns_enclosureI)
  next
    case False
    with floor_order0_finite[OF ok, of ?t prec] have "?f = acb_indeterminate" by blast
    then show ?thesis
      unfolding f_monster_def Let_def using False by (simp add: returns_enclosureI)
  qed
qed

lemma real_region_point:
  assumes "acb_is_real z" and "acb_encloses z w"
  shows "w = of_real (Re w)"
proof -
  have "Im w = 0"
    using assms by (simp add: acb_is_real_def arb_is_zero_def acb_encloses_def arb_encloses_def)
  then show ?thesis by (simp add: complex_eq_iff)
qed

lemma essing_enclosures:
  assumes el: "elementary_lib_ok L" and w: "acb_encloses z w"
  shows "returns_enclosure (f_essing L h z param 0 prec) (sin (inverse w))"
    and "returns_enclosure (f_essing2 L h z param 0 prec) (sin (inverse w) * w)"
proof -
  note c = el[unfolded elementary_lib_ok_def]
  have sn: "encloses_fun1 (acb_sin L) sin" and iv: "encloses_fun1 (acb_inv L) inverse"
    and ml: "encloses_fun2 (acb_mul L) (*)"
    using c by simp_all
  let ?s = "if acb_is_real z \<and> arb_contains_zero (acb_realref z)
            then acb_zero_pm_one else acb_sin L (acb_inv L z prec) prec"
  have s: "acb_encloses ?s (sin (inverse w))"
  proof (cases "acb_is_real z \<and> arb_contains_zero (acb_realref z)")
    case True
    then have "w = of_real (Re w)" using w by (blast intro: real_region_point)
    then have "sin (inverse w) = of_real (sin (inverse (Re w)))"
      by (metis of_real_inverse sin_of_real)
    moreover have "acb_encloses acb_zero_pm_one (of_real (sin (inverse (Re w))))"
      by (rule zero_pm_one_encloses) simp
    ultimately show ?thesis using True by simp
  next
    case False
    then show ?thesis using enc1[OF sn enc1[OF iv w]] by auto
  qed
  show "returns_enclosure (f_essing L h z param 0 prec) (sin (inverse w))"
    unfolding f_essing_def Let_def using s by (simp add: returns_enclosureI)
  have "acb_encloses (acb_mul L ?s z prec) (sin (inverse w) * w)"
    using ml s w by (rule enc2)
  then show "returns_enclosure (f_essing2 L h z param 0 prec) (sin (inverse w) * w)"
    unfolding f_essing2_def Let_def by (simp add: returns_enclosureI)
qed

lemma special_enclosures:
  assumes sp: "special_lib_ok L S" and el: "elementary_lib_ok L" and w: "acb_encloses z w"
  shows "returns_enclosure (f_zeta L h z param 0 prec) (sf_zeta S w)"
    and "returns_enclosure (f_gamma L h z param 0 prec) (sf_gamma S w)"
    and "returns_enclosure (f_log_div1p L h z param 0 prec) (- (sf_log S w / (w + 1)))"
    and "returns_enclosure (f_zeta_frac L h z param 0 prec) (sf_zeta_deriv S w / sf_zeta S w)"
    and "returns_enclosure (f_lambertw L h z param 0 prec) (sf_lambertw S w)"
    and "load h param = Some n \<Longrightarrow>
         returns_enclosure (f_elliptic_p_laurent_n L h z param 0 prec)
           (sf_wp S w \<i> * w powi sint (- n - 1))"
proof -
  note c = el[unfolded elementary_lib_ok_def]
  note s = sp[unfolded special_lib_ok_def]
  have ml: "encloses_fun2 (acb_mul L) (*)" and dv: "encloses_fun2 (acb_div L) (/)"
    and au: "encloses_word (acb_add_ui L) (\<lambda>w n. w + of_nat (unat n))"
    using c by simp_all
  have ze: "encloses_fun1 (acb_zeta L) (sf_zeta S)"
    and ga: "encloses_fun1 (acb_gamma L) (sf_gamma S)"
    and lg: "encloses_fun1 (acb_log L) (sf_log S)"
    and wp: "encloses_fun2 (acb_modular_elliptic_p L) (sf_wp S)"
    and pw: "encloses_word (acb_pow_si L) (\<lambda>w e. w powi sint e)"
    using s by simp_all
  have jet: "acb_encloses (acb_dirichlet_zeta_jet L z 0 2 p 0) (sf_zeta S w)"
    "acb_encloses (acb_dirichlet_zeta_jet L z 0 2 p 1) (sf_zeta_deriv S w)" for p
    using s w by blast+
  have lw: "acb_encloses (acb_lambertw L z 0 0 p) (sf_lambertw S w)" for p
    using s w by blast
  show "returns_enclosure (f_zeta L h z param 0 prec) (sf_zeta S w)"
    unfolding f_zeta_def using enc1[OF ze w] by (simp add: returns_enclosureI)
  show "returns_enclosure (f_gamma L h z param 0 prec) (sf_gamma S w)"
    unfolding f_gamma_def using enc1[OF ga w] by (simp add: returns_enclosureI)
  have "acb_encloses (acb_add_ui L z 1 prec) (w + of_nat (unat (1 :: 64 word)))"
    using au w by (rule encw)
  then have p1: "acb_encloses (acb_add_ui L z 1 prec) (w + 1)" by simp
  have "acb_encloses (acb_div L (acb_log L z prec) (acb_add_ui L z 1 prec) prec)
          (sf_log S w / (w + 1))"
    using dv enc1[OF lg w] p1 by (rule enc2)
  then show "returns_enclosure (f_log_div1p L h z param 0 prec) (- (sf_log S w / (w + 1)))"
    unfolding f_log_div1p_def Let_def
    by (simp add: returns_enclosureI acb_neg_encloses)
  have "acb_encloses (acb_div L (acb_dirichlet_zeta_jet L z 0 2 prec 1)
          (acb_dirichlet_zeta_jet L z 0 2 prec 0) prec) (sf_zeta_deriv S w / sf_zeta S w)"
    using dv jet(2) jet(1) by (rule enc2)
  then show "returns_enclosure (f_zeta_frac L h z param 0 prec)
               (sf_zeta_deriv S w / sf_zeta S w)"
    unfolding f_zeta_frac_def Let_def by (simp add: returns_enclosureI)
  have z0: "acb_is_finite acb_zero"
    by (simp add: acb_is_finite_def acb_zero_def arb_zero_def arb_is_finite_def)
  show "returns_enclosure (f_lambertw L h z param 0 prec) (sf_lambertw S w)"
    unfolding f_lambertw_def Let_def using lw z0 by (simp add: returns_enclosureI)
  show "returns_enclosure (f_elliptic_p_laurent_n L h z param 0 prec)
           (sf_wp S w \<i> * w powi sint (- n - 1))" if "load h param = Some n"
    using wp pw ml that _ w by (rule elliptic_enclosure) simp
qed

lemma acb_of_real_encloses: "acb_encloses (acb_of_real t) (of_real t)"
  by (simp add: acb_of_real_def acb_box_def acb_encloses_def)

lemma exact_acb_add_encloses:
  "acb_encloses x v \<Longrightarrow> acb_encloses y w \<Longrightarrow> acb_encloses (exact_acb_add x y) (v + w)"
  by (simp add: acb_encloses_def exact_acb_add_def exact_arb_add_encloses)

lemma exact_lib_elementary_ok: "elementary_lib_ok exact_lib"
proof -
  have j: "acb_encloses (acb_of_real (real_of_int k)) (of_int k)"
    "acb_encloses (acb_of_real (real m)) (of_nat m)" for k m
    using acb_of_real_encloses[of "real_of_int k"] acb_of_real_encloses[of "real m"]
    by (simp_all only: of_real_of_int_eq of_real_of_nat_eq)
  have i: "acb_encloses (acb_of_real (real_of_int (sint n))) (of_int (sint n))"
    "acb_encloses (acb_of_real (real (unat n))) (of_nat (unat n))" for n :: "64 word"
    by (rule j)+
  have cube: "acb_encloses (exact_acb_mul z (exact_acb_mul z z)) (w ^ 3)"
    if "acb_encloses z w" for z w
    using exact_acb_mul_encloses[OF that exact_acb_mul_encloses[OF that that]]
    by (simp add: power3_eq_cube mult.assoc)
  have words:
    "acb_encloses (exact_acb_add z (acb_of_real (real_of_int (sint n)))) (w + of_int (sint n))"
    "acb_encloses (exact_acb_add z (acb_of_real (real (unat n)))) (w + of_nat (unat n))"
    "acb_encloses (exact_acb_sub z (acb_of_real (real (unat n)))) (w - of_nat (unat n))"
    "acb_encloses (exact_acb_mul z (acb_of_real (real (unat n)))) (w * of_nat (unat n))"
    if "acb_encloses z w" for z w and n :: "64 word"
    by (rule exact_acb_add_encloses[OF that i(1)] exact_acb_add_encloses[OF that i(2)]
        exact_acb_sub_encloses[OF that i(2)] exact_acb_mul_encloses[OF that i(2)])+
  show ?thesis
    unfolding elementary_lib_ok_def encloses_fun1_def encloses_fun2_def encloses_word_def
    by (simp only: exact_lib_def lib.select_convs)
       (intro conjI allI impI; (elim conjE)?;
        (rule acb_encloses_indeterminate cube words exact_acb_add_encloses
           exact_acb_mul_encloses; assumption?))
qed

lemma exact_lib_union_finite: "finite_fun2 (acb_union exact_lib)"
  by (simp add: finite_fun2_def exact_lib_def exact_acb_union_def acb_is_finite_def)

lemma exact_lib_union_ok: "union_encloses (acb_union exact_lib)"
  by (simp add: union_encloses_def exact_lib_def exact_acb_union_encloses)

lemma exact_lib_submul_ok: "submul_encloses (acb_submul exact_lib)"
  by (simp add: submul_encloses_def exact_lib_def exact_acb_sub_encloses exact_acb_mul_encloses)

lemma exact_lib_sub_ok: "encloses_fun2 (acb_sub exact_lib) (-)"
  by (simp add: encloses_fun2_def exact_lib_def exact_acb_sub_encloses)

lemma exact_lib_special_ok: "special_lib_ok exact_lib S"
  by (simp add: special_lib_ok_def encloses_fun1_def encloses_fun2_def encloses_word_def
      exact_lib_def)

text \<open>
  Claim C1, as amended. At order 0, on every region, with the library's operations
  enclosing the functions they compute: each example integrand returns an enclosure of its
  function at every point of the region, where \<open>f_floor\<close>, \<open>f_helfgott\<close> and \<open>f_monster\<close>,
  functions of a real variable, do so at every real point, \<open>f_essing\<close> and \<open>f_essing2\<close> at
  every point but zero, \<open>f_elliptic_p_laurent_n\<close> when \<open>param\<close> points to \<open>n\<close>, and the
  special functions \<open>S\<close> are any functions that the library's operations enclose. The
  exception is \<open>f_circle\<close>: it returns a ball with imaginary part set to zero that
  encloses \<open>sqrt (1 - x\<^sup>2)\<close> for every real \<open>x\<close> of the region with \<open>\<bar>x\<bar> \<le> 1\<close>.
  \<open>acb_holomorphic_abs\<close> (\<open>holomorphic\<close> clear) returns a ball enclosing \<open>\<bar>x\<bar>\<close> for every
  real \<open>x\<close> of the region \<open>z\<close> whenever the real part of \<open>z\<close> is non-negative or negative, or
  the call is in place (\<open>res\<close> is \<open>z\<close>, as in \<open>f_helfgott\<close>); an in-place call on a finite
  region straddling zero returns the union of \<open>z\<close> and \<open>-z\<close>.
\<close>

theorem value_enclosures:
  assumes "helpers_lib_ok L" and "elementary_lib_ok L"
    and "union_encloses (acb_union L)" and "finite_fun2 (acb_union L)"
    and "submul_encloses (acb_submul L)"
  shows
    "(res = z \<or> arb_is_nonnegative (acb_realref z) \<or> arb_is_negative (acb_realref z) \<longrightarrow>
        (\<forall>x. acb_encloses z (of_real x) \<longrightarrow>
           acb_encloses (acb_holomorphic_abs L res z False prec) (of_real \<bar>x\<bar>))) \<and>
     (acb_is_finite z \<and> \<not> arb_is_nonnegative (acb_realref z)
        \<and> \<not> arb_is_negative (acb_realref z) \<longrightarrow>
        acb_holomorphic_abs L z z False prec = acb_union L z (acb_neg z) prec) \<and>
     (\<forall>x. acb_encloses z (of_real x) \<and> \<bar>x\<bar> \<le> 1 \<longrightarrow>
        (\<exists>r. f_circle L h z param 0 prec = (Inr (0, r), h) \<and> acb_imagref r = arb_zero \<and>
              acb_encloses r (of_real (sqrt (1 - x\<^sup>2))))) \<and>
     (\<forall>x. acb_encloses z (of_real x) \<longrightarrow>
        returns_enclosure (f_helfgott L h z param 0 prec)
          (of_real (\<bar>x ^ 4 + 10 * x ^ 3 + 19 * x\<^sup>2 - 6 * x - 6\<bar> * exp x))) \<and>
     (\<forall>w. acb_encloses z w \<longrightarrow>
        returns_enclosure (f_sin L h z param 0 prec) (sin w) \<and>
        returns_enclosure (f_atanderiv L h z param 0 prec) (1 / (1 + w\<^sup>2)) \<and>
        returns_enclosure (f_rump L h z param 0 prec) (sin (w + exp w)) \<and>
        returns_enclosure (f_factorial1000 L h z param 0 prec) (exp (- w) * w ^ 1000) \<and>
        returns_enclosure (f_sin_plus_small L h z param 0 prec)
          (sin w + exp (- 200 - w\<^sup>2)) \<and>
        returns_enclosure (f_exp L h z param 0 prec) (exp w) \<and>
        returns_enclosure (f_gaussian L h z param 0 prec) (exp (- (w\<^sup>2))) \<and>
        returns_enclosure (f_wolfram L h z param 0 prec)
          ((1 / cosh (10 * w - 2)) ^ 2 + (1 / cosh (100 * w - 40)) ^ 4
             + (1 / cosh (1000 * w - 600)) ^ 6) \<and>
        returns_enclosure (f_sech L h z param 0 prec) (1 / cosh w) \<and>
        returns_enclosure (f_sech3 L h z param 0 prec) ((1 / cosh w) ^ 3) \<and>
        returns_enclosure (f_log_div1p_transformed L h z param 0 prec)
          (w * exp (- w) / (1 + exp (- w)))) \<and>
     (\<forall>x. acb_encloses z (of_real x) \<longrightarrow>
        returns_enclosure (f_floor L h z param 0 prec) (of_int \<lfloor>x\<rfloor>)) \<and>
     (encloses_fun2 (acb_sub L) (-) \<longrightarrow>
        (\<forall>x. acb_encloses z (of_real x) \<longrightarrow>
           returns_enclosure (f_monster L h z param 0 prec)
             (of_real ((exp x - of_int \<lfloor>exp x\<rfloor>) * sin (x + exp x))))) \<and>
     (\<forall>w. acb_encloses z w \<and> w \<noteq> 0 \<longrightarrow>
        returns_enclosure (f_essing L h z param 0 prec) (sin (1 / w)) \<and>
        returns_enclosure (f_essing2 L h z param 0 prec) (w * sin (1 / w))) \<and>
     (special_lib_ok L S \<longrightarrow>
        (\<forall>w. acb_encloses z w \<longrightarrow>
           returns_enclosure (f_zeta L h z param 0 prec) (sf_zeta S w) \<and>
           returns_enclosure (f_gamma L h z param 0 prec) (sf_gamma S w) \<and>
           returns_enclosure (f_log_div1p L h z param 0 prec) (- (sf_log S w / (1 + w))) \<and>
           returns_enclosure (f_zeta_frac L h z param 0 prec)
             (sf_zeta_deriv S w / sf_zeta S w) \<and>
           returns_enclosure (f_lambertw L h z param 0 prec) (sf_lambertw S w) \<and>
           (load h param = Some n \<longrightarrow>
              returns_enclosure (f_elliptic_p_laurent_n L h z param 0 prec)
                (sf_wp S w \<i> * w powi sint (- n - 1)))))"
proof (intro conjI impI allI)
  fix x
  assume "res = z \<or> arb_is_nonnegative (acb_realref z) \<or> arb_is_negative (acb_realref z)"
    and "acb_encloses z (of_real x)"
  then show "acb_encloses (acb_holomorphic_abs L res z False prec) (of_real \<bar>x\<bar>)"
    using assms(1,3) by (rule abs_value_encloses[rotated 2])
next
  assume "acb_is_finite z \<and> \<not> arb_is_nonnegative (acb_realref z)
            \<and> \<not> arb_is_negative (acb_realref z)"
  then show "acb_holomorphic_abs L z z False prec = acb_union L z (acb_neg z) prec"
    by (simp add: acb_holomorphic_abs_def)
next
  fix x
  assume "acb_encloses z (of_real x) \<and> \<bar>x\<bar> \<le> 1"
  then show "\<exists>r. f_circle L h z param 0 prec = (Inr (0, r), h) \<and> acb_imagref r = arb_zero \<and>
              acb_encloses r (of_real (sqrt (1 - x\<^sup>2)))"
    using assms(1,5) circle_value_encloses by blast
next
  fix x
  assume x: "acb_encloses z (of_real x)"
  have p: "x ^ 4 + 10 * x ^ 3 + 19 * x\<^sup>2 - 6 * x - 6 = (((x + 10) * x + 19) * x - 6) * x - 6"
    by (simp add: algebra_simps power4_eq_xxxx power3_eq_cube power2_eq_square)
  show "returns_enclosure (f_helfgott L h z param 0 prec)
          (of_real (\<bar>x ^ 4 + 10 * x ^ 3 + 19 * x\<^sup>2 - 6 * x - 6\<bar> * exp x))"
    unfolding p by (rule helfgott_enclosure[OF assms(1,3,4,2) x])
next
  fix w
  assume w: "acb_encloses z w"
  note e = elementary_enclosures[OF assms(2) w, of h param prec]
  show "returns_enclosure (f_sin L h z param 0 prec) (sin w)" by (rule e)
  show "returns_enclosure (f_atanderiv L h z param 0 prec) (1 / (1 + w\<^sup>2))"
    using e(2) by (simp add: power2_eq_square inverse_eq_divide add.commute)
  show "returns_enclosure (f_rump L h z param 0 prec) (sin (w + exp w))"
    using e(3) by (simp add: add.commute)
  show "returns_enclosure (f_factorial1000 L h z param 0 prec) (exp (- w) * w ^ 1000)"
    by (rule e)
  have q: "- 200 - w\<^sup>2 = - (w * w + 200)" by (simp add: power2_eq_square)
  show "returns_enclosure (f_sin_plus_small L h z param 0 prec) (sin w + exp (- 200 - w\<^sup>2))"
    unfolding q by (rule e)
  show "returns_enclosure (f_exp L h z param 0 prec) (exp w)" by (rule e)
  show "returns_enclosure (f_gaussian L h z param 0 prec) (exp (- (w\<^sup>2)))"
    using e(7) by (simp add: power2_eq_square)
  show "returns_enclosure (f_wolfram L h z param 0 prec)
          ((1 / cosh (10 * w - 2)) ^ 2 + (1 / cosh (100 * w - 40)) ^ 4
             + (1 / cosh (1000 * w - 600)) ^ 6)"
    using e(8) by (simp add: inverse_eq_divide mult.commute)
  show "returns_enclosure (f_sech L h z param 0 prec) (1 / cosh w)"
    using e(9) by (simp add: inverse_eq_divide)
  show "returns_enclosure (f_sech3 L h z param 0 prec) ((1 / cosh w) ^ 3)"
    using e(10) by (simp add: inverse_eq_divide)
  show "returns_enclosure (f_log_div1p_transformed L h z param 0 prec)
          (w * exp (- w) / (1 + exp (- w)))"
    using e(11) by (simp add: add.commute mult.commute)
next
  fix x
  assume "acb_encloses z (of_real x)"
  with assms(1) show "returns_enclosure (f_floor L h z param 0 prec) (of_int \<lfloor>x\<rfloor>)"
    by (rule floor_enclosure)
next
  fix x
  assume sb: "encloses_fun2 (acb_sub L) (-)" and x: "acb_encloses z (of_real x)"
  have c: "x + exp x = exp x + x" by simp
  show "returns_enclosure (f_monster L h z param 0 prec)
          (of_real ((exp x - of_int \<lfloor>exp x\<rfloor>) * sin (x + exp x)))"
    unfolding c by (rule monster_enclosure[OF assms(1,2) sb x])
next
  fix w
  assume "acb_encloses z w \<and> w \<noteq> 0"
  then have w: "acb_encloses z w" by simp
  note e = essing_enclosures[OF assms(2) w, of h param prec]
  show "returns_enclosure (f_essing L h z param 0 prec) (sin (1 / w))"
    using e(1) by (simp add: inverse_eq_divide)
  show "returns_enclosure (f_essing2 L h z param 0 prec) (w * sin (1 / w))"
    using e(2) by (simp add: inverse_eq_divide mult.commute)
next
  fix w
  assume sp: "special_lib_ok L S" and w: "acb_encloses z w"
  note e = special_enclosures[OF sp assms(2) w, of h param prec]
  show "returns_enclosure (f_zeta L h z param 0 prec) (sf_zeta S w)" by (rule e)
  show "returns_enclosure (f_gamma L h z param 0 prec) (sf_gamma S w)" by (rule e)
  have c: "1 + w = w + 1" by simp
  show "returns_enclosure (f_log_div1p L h z param 0 prec) (- (sf_log S w / (1 + w)))"
    unfolding c by (rule e)
  show "returns_enclosure (f_zeta_frac L h z param 0 prec) (sf_zeta_deriv S w / sf_zeta S w)"
    by (rule e)
  show "returns_enclosure (f_lambertw L h z param 0 prec) (sf_lambertw S w)" by (rule e)
  show "returns_enclosure (f_elliptic_p_laurent_n L h z param 0 prec)
          (sf_wp S w \<i> * w powi sint (- n - 1))" if "load h param = Some n"
    using sp assms(2) w that by (rule special_enclosures(6))
qed

text \<open>The theorem on the ideal library: at the in-place call on \<open>0 \<plusminus> 1\<close> with
  \<open>x = -1\<close>; at \<open>f_circle\<close>, \<open>f_gaussian\<close>, \<open>f_floor\<close>, \<open>f_monster\<close>, \<open>f_essing\<close> and \<open>f_zeta\<close> on
  \<open>1/2 \<plusminus> 1/2\<close> with \<open>x = 1/2\<close>; and at \<open>f_elliptic_p_laurent_n\<close> on the point 1 with
  \<open>param\<close> pointing to 10.\<close>

theorem value_enclosures_witness:
  "helpers_lib_ok exact_lib \<and> elementary_lib_ok exact_lib \<and>
   union_encloses (acb_union exact_lib) \<and> finite_fun2 (acb_union exact_lib) \<and>
   submul_encloses (acb_submul exact_lib) \<and>
   encloses_fun2 (acb_sub exact_lib) (-) \<and> special_lib_ok exact_lib leading_terms \<and>
   acb_encloses (acb_box 0 1 0 0) (of_real (- 1)) \<and>
   acb_encloses (acb_holomorphic_abs exact_lib (acb_box 0 1 0 0) (acb_box 0 1 0 0) False 64)
     (of_real \<bar>- 1\<bar>) \<and>
   acb_holomorphic_abs exact_lib (acb_box 0 1 0 0) (acb_box 0 1 0 0) False 64
     = acb_union exact_lib (acb_box 0 1 0 0) (acb_neg (acb_box 0 1 0 0)) 64 \<and>
   acb_encloses (acb_box (1/2) (1/2) 0 0) (of_real (1/2)) \<and>
   (\<exists>r. f_circle exact_lib empty_heap (acb_box (1/2) (1/2) 0 0) Null 0 64
          = (Inr (0, r), empty_heap) \<and> acb_imagref r = arb_zero \<and>
        acb_encloses r (of_real (sqrt (1 - (1/2)\<^sup>2)))) \<and>
   returns_enclosure (f_gaussian exact_lib empty_heap (acb_box (1/2) (1/2) 0 0) Null 0 64)
     (exp (- ((of_real (1/2))\<^sup>2))) \<and>
   returns_enclosure (f_floor exact_lib empty_heap (acb_box (1/2) (1/2) 0 0) Null 0 64)
     (of_int \<lfloor>1/2 :: real\<rfloor>) \<and>
   returns_enclosure (f_monster exact_lib empty_heap (acb_box (1/2) (1/2) 0 0) Null 0 64)
     (of_real ((exp (1/2) - of_int \<lfloor>exp (1/2 :: real)\<rfloor>) * sin (1/2 + exp (1/2)))) \<and>
   of_real (1/2) \<noteq> (0 :: complex) \<and>
   returns_enclosure (f_essing exact_lib empty_heap (acb_box (1/2) (1/2) 0 0) Null 0 64)
     (sin (1 / of_real (1/2))) \<and>
   returns_enclosure (f_zeta exact_lib empty_heap (acb_box (1/2) (1/2) 0 0) Null 0 64)
     (sf_zeta leading_terms (of_real (1/2))) \<and>
   load heap_ten (Ptr 0) = Some 10 \<and> acb_encloses acb_one (of_real 1) \<and>
   returns_enclosure (f_elliptic_p_laurent_n exact_lib heap_ten acb_one (Ptr 0) 0 64)
     (sf_wp leading_terms (of_real 1) \<i> * of_real 1 powi sint (- 10 - 1 :: slong))"
proof -
  have e1: "acb_encloses (acb_box 0 1 0 0) (of_real (- 1))"
    by (simp add: acb_encloses_def acb_box_def)
  have e2: "acb_encloses (acb_box (1/2) (1/2) 0 0) (of_real (1/2))"
    by (simp add: acb_encloses_def acb_box_def)
  have e3: "acb_encloses acb_one (of_real 1)" using acb_one_encloses by simp
  have s: "acb_is_finite (acb_box 0 1 0 0) \<and> \<not> arb_is_nonnegative (acb_realref (acb_box 0 1 0 0))
      \<and> \<not> arb_is_negative (acb_realref (acb_box 0 1 0 0))"
    by (simp add: acb_is_finite_def acb_box_def arb_ball_def arb_is_finite_def
        arb_is_nonnegative_def arb_is_negative_def)
  have h: "\<bar>1/2::real\<bar> \<le> 1" by simp
  have n: "of_real (1/2) \<noteq> (0 :: complex)" by simp
  have l: "load heap_ten (Ptr 0) = Some 10" by (simp add: heap_ten_def)
  note sb = exact_lib_sub_ok
  note sp = exact_lib_special_ok[of leading_terms]
  note ok = exact_lib_helpers_ok exact_lib_elementary_ok exact_lib_union_ok
    exact_lib_union_finite exact_lib_submul_ok
  note t1 = value_enclosures[OF ok, where res = "acb_box 0 1 0 0" and z = "acb_box 0 1 0 0"
      and prec = 64]
  note t2 = value_enclosures[OF ok, where res = acb_zero and z = "acb_box (1/2) (1/2) 0 0"
      and prec = 64 and h = empty_heap and param = Null and S = leading_terms]
  note t3 = value_enclosures[OF ok, where res = acb_zero and z = acb_one
      and prec = 64 and h = heap_ten and param = "Ptr 0" and S = leading_terms and n = 10]
  have a: "acb_encloses (acb_holomorphic_abs exact_lib (acb_box 0 1 0 0) (acb_box 0 1 0 0)
             False 64) (of_real \<bar>- 1\<bar>)"
    "acb_holomorphic_abs exact_lib (acb_box 0 1 0 0) (acb_box 0 1 0 0) False 64
       = acb_union exact_lib (acb_box 0 1 0 0) (acb_neg (acb_box 0 1 0 0)) 64"
    using t1 e1 s by blast+
  have b: "\<exists>r. f_circle exact_lib empty_heap (acb_box (1/2) (1/2) 0 0) Null 0 64
          = (Inr (0, r), empty_heap) \<and> acb_imagref r = arb_zero \<and>
        acb_encloses r (of_real (sqrt (1 - (1/2)\<^sup>2)))"
    "returns_enclosure (f_gaussian exact_lib empty_heap (acb_box (1/2) (1/2) 0 0) Null 0 64)
       (exp (- ((of_real (1/2))\<^sup>2)))"
    "returns_enclosure (f_floor exact_lib empty_heap (acb_box (1/2) (1/2) 0 0) Null 0 64)
       (of_int \<lfloor>1/2 :: real\<rfloor>)"
    "returns_enclosure (f_monster exact_lib empty_heap (acb_box (1/2) (1/2) 0 0) Null 0 64)
       (of_real ((exp (1/2) - of_int \<lfloor>exp (1/2 :: real)\<rfloor>) * sin (1/2 + exp (1/2))))"
    "returns_enclosure (f_essing exact_lib empty_heap (acb_box (1/2) (1/2) 0 0) Null 0 64)
       (sin (1 / of_real (1/2)))"
    "returns_enclosure (f_zeta exact_lib empty_heap (acb_box (1/2) (1/2) 0 0) Null 0 64)
       (sf_zeta leading_terms (of_real (1/2)))"
    using t2 e2 h n sb sp by blast+
  have c: "returns_enclosure (f_elliptic_p_laurent_n exact_lib heap_ten acb_one (Ptr 0) 0 64)
     (sf_wp leading_terms (of_real 1) \<i> * of_real 1 powi sint (- 10 - 1 :: slong))"
    using t3 e3 l sp by blast
  show ?thesis
    using ok sb sp e1 e2 e3 n l a b c by (intro conjI)
qed

lemma csqrt_neg_9_16: "csqrt (Complex (- (9/16)) 0) = Complex 0 (3/4)"
proof -
  have "(Complex 0 (3/4))\<^sup>2 = Complex (- (9/16)) 0"
    by (simp add: power2_eq_square complex_eq_iff)
  moreover have "csqrt ((Complex 0 (3/4))\<^sup>2) = Complex 0 (3/4)"
    by (rule csqrt_square) simp
  ultimately show ?thesis by simp
qed

text \<open>The claim as stated fails twice. \<open>f_circle\<close> at the real point \<open>5/4\<close> returns
  the point \<open>0\<close>, while \<open>sqrt (1 - z\<^sup>2)\<close> is \<open>3/4 i\<close> there: the imaginary part is
  overwritten with zero. And \<open>acb_holomorphic_abs\<close>, called on \<open>z = -1 \<plusminus> 2\<close> with an
  output variable that holds \<open>0\<close>, negates that variable instead of \<open>z\<close> and returns
  \<open>-1 \<plusminus> 2\<close>, which does not enclose \<open>\<bar>-3\<bar>\<close>.\<close>

theorem value_enclosures_counterexample:
  "acb_is_finite (acb_box (5/4) 0 0 0) \<and>
   acb_encloses (acb_box (5/4) 0 0 0) (5/4) \<and>
   f_circle exact_lib empty_heap (acb_box (5/4) 0 0 0) Null 0 64
     = (Inr (0, acb_box 0 0 0 0), empty_heap) \<and>
   csqrt (1 - (5/4)\<^sup>2) = Complex 0 (3/4) \<and>
   \<not> acb_encloses (acb_box 0 0 0 0) (csqrt (1 - (5/4)\<^sup>2)) \<and>
   acb_is_finite (acb_box (- 1) 2 0 0) \<and>
   acb_encloses (acb_box (- 1) 2 0 0) (of_real (- 3)) \<and>
   acb_holomorphic_abs exact_lib acb_zero (acb_box (- 1) 2 0 0) False 64
     = acb_box (- 1) 2 0 0 \<and>
   \<not> acb_encloses (acb_holomorphic_abs exact_lib acb_zero (acb_box (- 1) 2 0 0) False 64)
       (of_real \<bar>- 3\<bar>)"
proof -
  have c: "(1::complex) - (5/4)\<^sup>2 = Complex (- (9/16)) 0"
    by (simp add: power2_eq_square complex_eq_iff)
  have v: "csqrt (1 - (5/4)\<^sup>2) = Complex 0 (3/4)"
    by (simp only: c csqrt_neg_9_16)
  have f: "f_circle exact_lib empty_heap (acb_box (5/4) 0 0 0) Null 0 64
     = (Inr (0, acb_box 0 0 0 0), empty_heap)"
    by (simp add: f_circle_def exact_lib_def acb_holomorphic_sqrt_def exact_acb_sqrt_def
        exact_acb_sub_def exact_acb_mul_def exact_arb_sub_def exact_arb_mul_def
        exact_arb_add_def acb_one_def arb_one_def arb_zero_def acb_box_def arb_ball_def
        arb_parts_def acb_is_finite_def arb_is_finite_def csqrt_neg_9_16 Let_def)
  have a: "acb_holomorphic_abs exact_lib acb_zero (acb_box (- 1) 2 0 0) False 64
     = acb_box (- 1) 2 0 0"
    by (simp add: acb_holomorphic_abs_def exact_lib_def exact_acb_union_def
        exact_arb_union_def acb_neg_def arb_neg_def acb_zero_def arb_zero_def acb_box_def
        arb_ball_def arb_parts_def acb_is_finite_def arb_is_finite_def
        arb_is_nonnegative_def arb_is_negative_def Let_def)
  show ?thesis
    unfolding a f v
    by (simp add: acb_is_finite_def acb_box_def arb_ball_def arb_is_finite_def
        acb_encloses_def arb_encloses_def)
qed

section \<open>The essential singularity of \<open>sin (1/z)\<close>\<close>

text \<open>
  Claim C9, as amended. At order 0, on a region with imaginary part exactly zero whose
  real part contains zero, \<open>f_essing\<close> returns the fixed ball \<open>0 \<plusminus> 1\<close> and \<open>f_essing2\<close>
  returns the product of \<open>0 \<plusminus> 1\<close> with \<open>z\<close>, whatever the library computes for \<open>1/z\<close>
  and the sine. The first is finite, the second is finite when \<open>z\<close> is, and they enclose
  \<open>sin (1/x)\<close> and \<open>x sin (1/x)\<close> for every nonzero real \<open>x\<close> of the region.
\<close>

theorem essential_singularity_enclosures:
  assumes "encloses_fun2 (acb_mul L) (*)" and "finite_fun2 (acb_mul L)"
    and "acb_is_real z" and "arb_contains_zero (acb_realref z)"
  shows
    "f_essing L h z param 0 prec = (Inr (0, acb_zero_pm_one), h) \<and>
     acb_is_finite acb_zero_pm_one \<and>
     (\<forall>x. x \<noteq> 0 \<and> acb_encloses z (of_real x) \<longrightarrow>
        acb_encloses acb_zero_pm_one (of_real (sin (1 / x)))) \<and>
     f_essing2 L h z param 0 prec = (Inr (0, acb_mul L acb_zero_pm_one z prec), h) \<and>
     (acb_is_finite z \<longrightarrow> acb_is_finite (acb_mul L acb_zero_pm_one z prec)) \<and>
     (\<forall>x. x \<noteq> 0 \<and> acb_encloses z (of_real x) \<longrightarrow>
        acb_encloses (acb_mul L acb_zero_pm_one z prec) (of_real (x * sin (1 / x))))"
proof (intro conjI allI impI)
  show "f_essing L h z param 0 prec = (Inr (0, acb_zero_pm_one), h)"
    using assms(3,4) by (simp add: f_essing_def)
  show "f_essing2 L h z param 0 prec = (Inr (0, acb_mul L acb_zero_pm_one z prec), h)"
    using assms(3,4) by (simp add: f_essing2_def)
  show "acb_is_finite acb_zero_pm_one" by (rule zero_pm_one_finite)
  show "acb_is_finite (acb_mul L acb_zero_pm_one z prec)" if "acb_is_finite z"
    using assms(2) that zero_pm_one_finite by (simp add: finite_fun2_def)
next
  fix x :: real
  assume "x \<noteq> 0 \<and> acb_encloses z (of_real x)"
  show "acb_encloses acb_zero_pm_one (of_real (sin (1 / x)))"
    by (rule zero_pm_one_encloses) simp
next
  fix x :: real
  assume x: "x \<noteq> 0 \<and> acb_encloses z (of_real x)"
  have "acb_encloses acb_zero_pm_one (of_real (sin (1 / x)))"
    by (rule zero_pm_one_encloses) simp
  with x assms(1)
  have "acb_encloses (acb_mul L acb_zero_pm_one z prec) (of_real (sin (1 / x)) * of_real x)"
    unfolding encloses_fun2_def by blast
  then show "acb_encloses (acb_mul L acb_zero_pm_one z prec) (of_real (x * sin (1 / x)))"
    by (simp add: mult.commute)
qed

lemma exact_lib_mul_ok:
  "encloses_fun2 (acb_mul exact_lib) (*)" "finite_fun2 (acb_mul exact_lib)"
  by (simp_all add: encloses_fun2_def finite_fun2_def exact_lib_def exact_acb_mul_encloses
      exact_acb_mul_finite)

text \<open>The theorem at the region \<open>0 \<plusminus> 1\<close> and the point \<open>x = 1/2\<close>.\<close>

theorem essential_singularity_enclosures_witness:
  "encloses_fun2 (acb_mul exact_lib) (*) \<and> finite_fun2 (acb_mul exact_lib) \<and>
   acb_is_real (acb_box 0 1 0 0) \<and> arb_contains_zero (acb_realref (acb_box 0 1 0 0)) \<and>
   acb_is_finite (acb_box 0 1 0 0) \<and> (1/2::real) \<noteq> 0 \<and>
   acb_encloses (acb_box 0 1 0 0) (of_real (1/2)) \<and>
   f_essing exact_lib empty_heap (acb_box 0 1 0 0) Null 0 64
     = (Inr (0, acb_zero_pm_one), empty_heap) \<and>
   acb_encloses acb_zero_pm_one (of_real (sin (1 / (1/2)))) \<and>
   f_essing2 exact_lib empty_heap (acb_box 0 1 0 0) Null 0 64
     = (Inr (0, acb_mul exact_lib acb_zero_pm_one (acb_box 0 1 0 0) 64), empty_heap) \<and>
   acb_is_finite (acb_mul exact_lib acb_zero_pm_one (acb_box 0 1 0 0) 64) \<and>
   acb_encloses (acb_mul exact_lib acb_zero_pm_one (acb_box 0 1 0 0) 64)
     (of_real (1/2 * sin (1 / (1/2))))"
proof -
  have r: "acb_is_real (acb_box 0 1 0 0)" "arb_contains_zero (acb_realref (acb_box 0 1 0 0))"
    "acb_is_finite (acb_box 0 1 0 0)"
    by (simp_all add: acb_is_real_def arb_is_zero_def acb_box_def arb_ball_def
        arb_contains_zero_def acb_is_finite_def arb_is_finite_def)
  have e: "acb_encloses (acb_box 0 1 0 0) (of_real (1/2))"
    by (simp add: acb_encloses_def acb_box_def)
  have n: "(1/2::real) \<noteq> 0" by simp
  show ?thesis
    using r e n exact_lib_mul_ok
      essential_singularity_enclosures[OF exact_lib_mul_ok r(1,2), of empty_heap Null 64]
    by blast
qed

text \<open>The claim as stated fails on the whole real line \<open>0 \<plusminus> \<infinity>\<close>, a real region that
  contains zero: the product \<open>f_essing2\<close> returns there is not finite.\<close>

theorem essential_singularity_counterexample:
  "acb_is_real acb_zero_pm_inf \<and> arb_contains_zero (acb_realref acb_zero_pm_inf) \<and>
   f_essing2 exact_lib empty_heap acb_zero_pm_inf Null 0 64
     = (Inr (0, acb_indeterminate), empty_heap) \<and>
   \<not> acb_is_finite acb_indeterminate"
  by (simp add: acb_is_real_def arb_is_zero_def acb_zero_pm_inf_def arb_zero_def
      arb_contains_zero_def f_essing2_def exact_lib_def exact_acb_mul_def
      exact_arb_mul_def exact_arb_sub_def exact_arb_add_def arb_parts_def
      acb_zero_pm_one_def acb_zero_def mag_one_def acb_indeterminate_def
      arb_indeterminate_def acb_is_finite_def arb_is_finite_def arb_ball_def Let_def)

section \<open>The order contract of the integrands\<close>

text \<open>
  Claim C3. Every integrand of the catalogue, on every input, aborts the program exactly
  when \<open>order > 1\<close>. With \<open>order \<le> 1\<close> (in particular 0 or 1) it returns 0 together with
  a ball and leaves memory as it was; for \<open>f_elliptic_p_laurent_n\<close>, the one integrand that
  reads through \<open>param\<close>, this needs \<open>param\<close> to point to an \<open>slong\<close>, as C requires of a
  pointer that is dereferenced.
\<close>

theorem order_contract:
  assumes "(f, derefs) \<in> set (catalogue L)"
  shows "(fst (f h z param order prec) = Inl Abort \<longleftrightarrow> sint order > 1) \<and>
         (\<not> sint order > 1 \<and> (derefs \<longrightarrow> load h param \<noteq> None) \<longrightarrow>
            (\<exists>res. f h z param order prec = (Inr (0, res), h)))"
  using assms
  unfolding catalogue_def
  by (auto simp: f_sin_def f_floor_def f_circle_def f_atanderiv_def f_rump_def f_helfgott_def
      f_zeta_def f_essing2_def f_essing_def f_factorial1000_def f_gamma_def
      f_sin_plus_small_def f_exp_def f_gaussian_def f_monster_def f_wolfram_def f_sech_def
      f_sech3_def f_log_div1p_def f_log_div1p_transformed_def f_elliptic_p_laurent_n_def
      f_zeta_frac_def f_lambertw_def Let_def split: option.splits if_splits)


text \<open>The theorem at \<open>f_elliptic_p_laurent_n\<close> with \<open>param\<close> pointing to the cell that
  holds 10, at order 2 and at order 1.\<close>

theorem order_contract_witness:
  "(f_elliptic_p_laurent_n exact_lib, True) \<in> set (catalogue exact_lib) \<and>
   load heap_ten (Ptr 0) \<noteq> None \<and> sint (2::slong) > 1 \<and> \<not> sint (1::slong) > 1 \<and>
   fst (f_elliptic_p_laurent_n exact_lib heap_ten acb_one (Ptr 0) 2 64) = Inl Abort \<and>
   (\<exists>res. f_elliptic_p_laurent_n exact_lib heap_ten acb_one (Ptr 0) 1 64
            = (Inr (0, res), heap_ten))"
proof -
  have m: "(f_elliptic_p_laurent_n exact_lib, True) \<in> set (catalogue exact_lib)"
    by (simp add: catalogue_def)
  have l: "load heap_ten (Ptr 0) \<noteq> None" by (simp add: heap_ten_def)
  have o: "sint (2::slong) > 1" "\<not> sint (1::slong) > 1" by simp_all
  show ?thesis
    using m l o order_contract[OF m, of heap_ten acb_one "Ptr 0" 2 64]
      order_contract[OF m, of heap_ten acb_one "Ptr 0" 1 64]
    by blast
qed

section \<open>The auxiliary parameter\<close>

lemma run_keeps_heap:
  assumes "\<And>h z order prec. snd (f h z p order prec) = h"
  shows "snd (run sc f p h) = h"
proof (induction sc arbitrary: h)
  case (Done s)
  show ?case by simp
next
  case (Eval z order prec k)
  obtain res h' where r: "f h z p order prec = (res, h')" by (cases "f h z p order prec")
  with assms[of h z order prec] have h': "h' = h" by simp
  show ?case
  proof (cases res)
    case (Inl e)
    then show ?thesis using r h' by simp
  next
    case (Inr vr)
    obtain v b where "vr = (v, b)" by (cases vr)
    then show ?thesis using r h' Inr Eval.IH[OF rangeI rangeI, of v b h] by simp
  qed
qed

lemma run_same_values:
  assumes "\<And>z order prec. f h z p order prec = g h z q order prec"
    and "\<And>z order prec. snd (f h z p order prec) = h"
  shows "run sc f p h = run sc g q h"
proof (induction sc)
  case (Done s)
  show ?case by simp
next
  case (Eval z order prec k)
  obtain res h' where r: "f h z p order prec = (res, h')" by (cases "f h z p order prec")
  with assms(2)[of z order prec] have h': "h' = h" by simp
  have g: "g h z q order prec = (res, h)" using assms(1)[of z order prec] r h' by simp
  show ?case
  proof (cases res)
    case (Inl e)
    then show ?thesis using r h' g by simp
  next
    case (Inr vr)
    obtain v b where "vr = (v, b)" by (cases vr)
    then show ?thesis using r h' g Inr Eval.IH[OF rangeI rangeI, of v b] by simp
  qed
qed

lemma elliptic_keeps_heap: "snd (f_elliptic_p_laurent_n L h z param order prec) = h"
  by (simp add: f_elliptic_p_laurent_n_def Let_def split: option.splits)

lemma elliptic_reads_param:
  "load h' param = load h param \<Longrightarrow>
   fst (f_elliptic_p_laurent_n L h' z param order prec)
     = fst (f_elliptic_p_laurent_n L h z param order prec)"
  by (simp add: f_elliptic_p_laurent_n_def Let_def split: option.splits)

lemma elliptic_is_laurent:
  "load h param = Some n \<Longrightarrow>
   f_elliptic_p_laurent_n L h z param order prec = laurent_integrand L n h z q order prec"
  by (simp add: f_elliptic_p_laurent_n_def laurent_integrand_def Let_def)

lemma integrate_keeps_heap:
  assumes "\<And>h z order prec. snd (f h z p order prec) = h"
  shows "snd (acb_calc_integrate E f p a b goal tol opts prec h) = h"
  unfolding acb_calc_integrate_def using assms by (rule run_keeps_heap)

lemma integrate_same_values:
  assumes "\<And>z order prec. f h z p order prec = g h z q order prec"
    and "\<And>z order prec. snd (f h z p order prec) = h"
  shows "acb_calc_integrate E f p a b goal tol opts prec h
           = acb_calc_integrate E g q a b goal tol opts prec h"
  unfolding acb_calc_integrate_def using assms by (rule run_same_values)

lemma then_do_fst:
  "snd m = h \<Longrightarrow> then_do m k = (case fst m of Inl e \<Rightarrow> (Inl e, h) | Inr x \<Rightarrow> k x h)"
  by (cases m; cases "fst m") (auto simp: then_do_def)

lemma edge_then:
  "then_do (acb_calc_integrate E (f_elliptic_p_laurent_n L) p a b goal tol opts prec h) k
     = (case fst (acb_calc_integrate E (f_elliptic_p_laurent_n L) p a b goal tol opts prec h)
        of Inl e \<Rightarrow> (Inl e, h) | Inr x \<Rightarrow> k x h)"
  by (rule then_do_fst, rule integrate_keeps_heap, rule elliptic_keeps_heap)

lemma laurent_keeps_heap: "snd (laurent_integrand L n h z param order prec) = h"
  by (simp add: laurent_integrand_def)

lemma corners:
  "acb_set_d_d (Arf (1/2)) (Arf (- (1/2))) = acb_box (1/2) 0 (- (1/2)) 0"
  "acb_set_d_d (Arf (1/2)) (Arf (1/2)) = acb_box (1/2) 0 (1/2) 0"
  "acb_set_d_d (Arf (- (1/2))) (Arf (1/2)) = acb_box (- (1/2)) 0 (1/2) 0"
  "acb_set_d_d (Arf (- (1/2))) (Arf (- (1/2))) = acb_box (- (1/2)) 0 (- (1/2)) 0"
  by (simp_all add: acb_set_d_d_def arb_set_d_def acb_box_def arb_ball_def)

lemma integral_21_edges:
  "integral_21 L E aN goal tol opts prec h =
     (let N10 = h(aN \<mapsto> 10);
          edge = (\<lambda>a b. fst (acb_calc_integrate E (f_elliptic_p_laurent_n L) (Ptr aN) a b goal
                               tol opts prec N10))
      in case edge (acb_box (1/2) 0 (- (1/2)) 0) (acb_box (1/2) 0 (1/2) 0) of
           Inl e \<Rightarrow> (Inl e, N10)
         | Inr t1 \<Rightarrow>
        (case edge (acb_box (1/2) 0 (1/2) 0) (acb_box (- (1/2)) 0 (1/2) 0) of
           Inl e \<Rightarrow> (Inl e, N10)
         | Inr t2 \<Rightarrow>
        (case edge (acb_box (- (1/2)) 0 (1/2) 0) (acb_box (- (1/2)) 0 (- (1/2)) 0) of
           Inl e \<Rightarrow> (Inl e, N10)
         | Inr t3 \<Rightarrow>
        (case edge (acb_box (- (1/2)) 0 (- (1/2)) 0) (acb_box (1/2) 0 (- (1/2)) 0) of
           Inl e \<Rightarrow> (Inl e, N10)
         | Inr t4 \<Rightarrow>
             (Inr (acb_div_onei (acb_mul_2exp_si
                     (acb_div L
                        (acb_add L (acb_add L (acb_add L (acb_add L acb_zero t1 prec) t2 prec)
                           t3 prec) t4 prec)
                        (acb_const_pi L prec) prec) (- 1))), N10)))))"
  unfolding integral_21_def Let_def edge_then corners
  by (simp split: sum.splits)

text \<open>
  Claim C8. \<open>f_elliptic_p_laurent_n\<close> leaves memory as it found it on every input, and of
  memory its result depends only on the \<open>slong\<close> it reads through \<open>param\<close>. When \<open>param\<close>
  points to \<open>n\<close>, the order is supported and the library's operations enclose the
  Weierstrass function \<open>wp\<close>, the integer power and the product, it returns an enclosure of
  \<open>wp(w; i) w^(-n-1)\<close> for every point \<open>w\<close> of \<open>z\<close>. Case 21, for every engine: it is the
  four integrations of \<open>f_elliptic_p_laurent_n\<close> with \<open>param = &N\<close>, in memory with
  \<open>N = 10\<close>, along the edges from \<open>1/2 - i/2\<close> to \<open>1/2 + i/2\<close> to \<open>-1/2 + i/2\<close> to
  \<open>-1/2 - i/2\<close> and back, in this order and stopping at the first that fails, followed
  by the sum of the four results divided by \<open>pi\<close>, by 2 and by \<open>i\<close>; each of these
  integrations is the integration of the fixed integrand with \<open>n = 10\<close>, every call the
  engine makes returns an enclosure of \<open>wp(w; i) w^(-11)\<close>, and memory afterwards is memory
  before with \<open>N = 10\<close>.
\<close>

theorem param_passed_unchanged:
  assumes "encloses_fun2 (acb_modular_elliptic_p L) wp"
    and "encloses_word (acb_pow_si L) (\<lambda>w e. w powi sint e)"
    and "encloses_fun2 (acb_mul L) (*)"
  shows
    "snd (f_elliptic_p_laurent_n L h z param order prec) = h \<and>
     (load h' param = load h param \<longrightarrow>
        fst (f_elliptic_p_laurent_n L h' z param order prec)
          = fst (f_elliptic_p_laurent_n L h z param order prec)) \<and>
     (load h param = Some n \<and> \<not> sint order > 1 \<and> acb_encloses z w \<longrightarrow>
        returns_enclosure (f_elliptic_p_laurent_n L h z param order prec)
          (wp w \<i> * w powi sint (- n - 1))) \<and>
     integral_21 L E aN goal tol opts prec m =
       (let N10 = m(aN \<mapsto> 10);
            edge = (\<lambda>a b. fst (acb_calc_integrate E (f_elliptic_p_laurent_n L) (Ptr aN) a b
                                 goal tol opts prec N10))
        in case edge (acb_box (1/2) 0 (- (1/2)) 0) (acb_box (1/2) 0 (1/2) 0) of
             Inl e \<Rightarrow> (Inl e, N10)
           | Inr t1 \<Rightarrow>
          (case edge (acb_box (1/2) 0 (1/2) 0) (acb_box (- (1/2)) 0 (1/2) 0) of
             Inl e \<Rightarrow> (Inl e, N10)
           | Inr t2 \<Rightarrow>
          (case edge (acb_box (- (1/2)) 0 (1/2) 0) (acb_box (- (1/2)) 0 (- (1/2)) 0) of
             Inl e \<Rightarrow> (Inl e, N10)
           | Inr t3 \<Rightarrow>
          (case edge (acb_box (- (1/2)) 0 (- (1/2)) 0) (acb_box (1/2) 0 (- (1/2)) 0) of
             Inl e \<Rightarrow> (Inl e, N10)
           | Inr t4 \<Rightarrow>
               (Inr (acb_div_onei (acb_mul_2exp_si
                       (acb_div L
                          (acb_add L (acb_add L (acb_add L (acb_add L acb_zero t1 prec) t2 prec)
                             t3 prec) t4 prec)
                          (acb_const_pi L prec) prec) (- 1))), N10))))) \<and>
     (\<forall>a b. acb_calc_integrate E (f_elliptic_p_laurent_n L) (Ptr aN) a b goal tol opts prec
               (m(aN \<mapsto> 10))
             = acb_calc_integrate E (laurent_integrand L 10) Null a b goal tol opts prec
                 (m(aN \<mapsto> 10))) \<and>
     (\<forall>x v order' prec'. \<not> sint order' > 1 \<and> acb_encloses x v \<longrightarrow>
        returns_enclosure (f_elliptic_p_laurent_n L (m(aN \<mapsto> 10)) x (Ptr aN) order' prec')
          (wp v \<i> * v powi (- 11))) \<and>
     snd (integral_21 L E aN goal tol opts prec m) = m(aN \<mapsto> 10) \<and>
     load (snd (integral_21 L E aN goal tol opts prec m)) (Ptr aN) = Some 10"
proof (intro conjI impI allI)
  show "snd (f_elliptic_p_laurent_n L h z param order prec) = h"
    by (rule elliptic_keeps_heap)
  show "fst (f_elliptic_p_laurent_n L h' z param order prec)
          = fst (f_elliptic_p_laurent_n L h z param order prec)"
    if "load h' param = load h param"
    using that by (rule elliptic_reads_param)
  show "returns_enclosure (f_elliptic_p_laurent_n L h z param order prec)
          (wp w \<i> * w powi sint (- n - 1))"
    if "load h param = Some n \<and> \<not> sint order > 1 \<and> acb_encloses z w"
    using assms that by (blast intro: elliptic_enclosure)
  show "acb_calc_integrate E (f_elliptic_p_laurent_n L) (Ptr aN) a b goal tol opts prec
               (m(aN \<mapsto> 10))
             = acb_calc_integrate E (laurent_integrand L 10) Null a b goal tol opts prec
                 (m(aN \<mapsto> 10))" for a b
    by (rule integrate_same_values) (simp_all add: elliptic_is_laurent elliptic_keeps_heap)
  show "returns_enclosure (f_elliptic_p_laurent_n L (m(aN \<mapsto> 10)) x (Ptr aN) order' prec')
          (wp v \<i> * v powi (- 11))"
    if "\<not> sint order' > 1 \<and> acb_encloses x v" for x v order' prec'
  proof -
    have l: "load (m(aN \<mapsto> 10)) (Ptr aN) = Some 10" by simp
    have s: "sint (- 10 - 1 :: slong) = - 11" by simp
    from that have o: "\<not> sint order' > 1" and e: "acb_encloses x v" by simp_all
    show ?thesis using elliptic_enclosure[OF assms l o e, of prec'] by (simp only: s)
  qed
  show s: "snd (integral_21 L E aN goal tol opts prec m) = m(aN \<mapsto> 10)"
    unfolding integral_21_edges Let_def by (simp split: sum.splits)
  show "load (snd (integral_21 L E aN goal tol opts prec m)) (Ptr aN) = Some 10"
    unfolding s by simp
qed (rule integral_21_edges)

text \<open>The theorem on the ideal library, at the cell holding 10 (with and without a
  second cell) and order 0, and at case 21 from memory with no cell allocated: run by the
  probing engine, and by the engine that asks for order 2, where the first integration
  aborts.\<close>

theorem param_passed_unchanged_witness:
  "encloses_fun2 (acb_modular_elliptic_p exact_lib) (\<lambda>w t. inverse (w\<^sup>2)) \<and>
   encloses_word (acb_pow_si exact_lib) (\<lambda>w e. w powi sint e) \<and>
   encloses_fun2 (acb_mul exact_lib) (*) \<and>
   load (heap_ten(1 \<mapsto> 3)) (Ptr 0) = load heap_ten (Ptr 0) \<and>
   fst (f_elliptic_p_laurent_n exact_lib (heap_ten(1 \<mapsto> 3)) acb_one (Ptr 0) 0 64)
     = fst (f_elliptic_p_laurent_n exact_lib heap_ten acb_one (Ptr 0) 0 64) \<and>
   snd (f_elliptic_p_laurent_n exact_lib heap_ten acb_one (Ptr 0) 0 64) = heap_ten \<and>
   load heap_ten (Ptr 0) = Some 10 \<and> \<not> sint (0::slong) > 1 \<and> acb_encloses acb_one 1 \<and>
   returns_enclosure (f_elliptic_p_laurent_n exact_lib heap_ten acb_one (Ptr 0) 0 64)
     (inverse (1\<^sup>2) * 1 powi sint (- 10 - 1 :: slong)) \<and>
   integral_21 exact_lib probe_engine 0 64 (Mag 0) acb_calc_integrate_opt_init 64 empty_heap
     = (Inr acb_indeterminate, heap_ten) \<and>
   integral_21 exact_lib taylor_engine 0 64 (Mag 0) acb_calc_integrate_opt_init 64 empty_heap
     = (Inl Abort, heap_ten) \<and>
   load (snd (integral_21 exact_lib taylor_engine 0 64 (Mag 0) acb_calc_integrate_opt_init 64
     empty_heap)) (Ptr 0) = Some 10"
proof -
  have c: "encloses_fun2 (acb_modular_elliptic_p exact_lib) (\<lambda>w t. inverse (w\<^sup>2))"
    "encloses_word (acb_pow_si exact_lib) (\<lambda>w e. w powi sint e)"
    by (simp_all add: encloses_fun2_def encloses_word_def exact_lib_def)
  have ml: "encloses_fun2 (acb_mul exact_lib) (*)"
    by (simp add: encloses_fun2_def exact_lib_def exact_acb_mul_encloses)
  have l: "load heap_ten (Ptr 0) = Some 10" by (simp add: heap_ten_def)
  have o: "\<not> sint (0::slong) > 1" by simp
  have h: "empty_heap(0 \<mapsto> 10) = heap_ten" by (simp add: empty_heap_def heap_ten_def)
  have mi: "acb_mul exact_lib acb_indeterminate acb_indeterminate 64 = acb_indeterminate"
    by (simp add: exact_lib_def exact_acb_mul_def exact_arb_mul_def exact_arb_sub_def
        exact_arb_add_def arb_parts_def acb_indeterminate_def arb_indeterminate_def)
  have e: "acb_modular_elliptic_p exact_lib z t p = acb_indeterminate"
    "acb_pow_si exact_lib z k p = acb_indeterminate" for z t k p
    by (simp_all add: exact_lib_def)
  have pr: "fst (acb_calc_integrate probe_engine (f_elliptic_p_laurent_n exact_lib) (Ptr 0) a b
      64 (Mag 0) acb_calc_integrate_opt_init 64 heap_ten) = Inr acb_indeterminate" for a b
    by (simp add: acb_calc_integrate_def probe_engine_def f_elliptic_p_laurent_n_def
        heap_ten_def e mi Let_def)
       (simp add: exact_acb_add_def exact_arb_add_def arb_parts_def acb_indeterminate_def
        arb_indeterminate_def)
  have ty: "fst (acb_calc_integrate taylor_engine (f_elliptic_p_laurent_n exact_lib) (Ptr 0) a b
      64 (Mag 0) acb_calc_integrate_opt_init 64 heap_ten) = Inl Abort" for a b
    by (simp add: acb_calc_integrate_def taylor_engine_def f_elliptic_p_laurent_n_def)
  have d: "acb_div_onei (acb_mul_2exp_si (acb_div exact_lib x (acb_const_pi exact_lib 64) 64)
             (- 1)) = acb_indeterminate" for x
    by (simp add: exact_lib_def acb_div_onei_def acb_mul_2exp_si_def arb_mul_2exp_si_def
        arb_neg_def acb_indeterminate_def arb_indeterminate_def)
  note t1 = param_passed_unchanged[OF c ml, where h = heap_ten and z = acb_one
      and param = "Ptr 0" and order = 0 and prec = 64 and h' = "heap_ten(1 \<mapsto> 3)" and n = 10 and w = 1
      and E = probe_engine and aN = 0 and goal = 64 and tol = "Mag 0"
      and opts = acb_calc_integrate_opt_init and m = empty_heap]
  note t2 = param_passed_unchanged[OF c ml, where h = heap_ten and z = acb_one
      and param = "Ptr 0" and order = 0 and prec = 64 and h' = "heap_ten(1 \<mapsto> 3)" and n = 10 and w = 1
      and E = taylor_engine and aN = 0 and goal = 64 and tol = "Mag 0"
      and opts = acb_calc_integrate_opt_init and m = empty_heap]
  have a1: "acb_encloses acb_one 1" by (rule acb_one_encloses)
  have l': "load (heap_ten(1 \<mapsto> 3)) (Ptr 0) = load heap_ten (Ptr 0)"
    by (simp add: heap_ten_def)
  show ?thesis
    using c ml l l' o a1 t1 t2
    by (simp add: h pr ty d Let_def)
qed

section \<open>Selection of the integrals on the command line\<close>

lemma select_loop_no_flag:
  "''-i'' \<notin> set (drop i argv) \<Longrightarrow> select_loop argv i ifrom ito = Inr (ifrom, ito)"
proof (induction argv i ifrom ito rule: select_loop.induct)
  case (1 argv i ifrom ito)
  show ?case
  proof (cases "i < length argv")
    case False
    then show ?thesis by (subst select_loop.simps) simp
  next
    case True
    then have d: "drop i argv = argv ! i # drop (i + 1) argv"
      by (simp add: Cons_nth_drop_Suc)
    with "1.prems" have ni: "argv ! i \<noteq> ''-i''" and rest: "''-i'' \<notin> set (drop (i + 1) argv)"
      by auto
    from "1.IH"(3)[OF True ni rest] show ?thesis
      using True ni by (subst select_loop.simps) simp
  qed
qed

lemma valid_index_not_minus_one:
  fixes w :: "32 word"
  assumes "\<not> (sint w < 0 \<or> sint w \<ge> int NUM_INTEGRALS)"
  shows "w \<noteq> - 1"
  using assms by auto

lemma select_loop_flag:
  "select_loop argv i ifrom ito = Inr (f, t) \<Longrightarrow>
   ifrom \<noteq> - 1 \<or> ''-i'' \<in> set (drop i argv) \<Longrightarrow> f \<noteq> - 1"
proof (induction argv i ifrom ito rule: select_loop.induct)
  case (1 argv i ifrom ito)
  show ?case
  proof (cases "i < length argv")
    case False
    with "1.prems" show ?thesis by (subst (asm) select_loop.simps) simp
  next
    case True
    then have d: "drop i argv = argv ! i # drop (i + 1) argv"
      by (simp add: Cons_nth_drop_Suc)
    show ?thesis
    proof (cases "argv ! i = ''-i''")
      case False
      from "1.prems"(1) have "select_loop argv (i + 1) ifrom ito = Inr (f, t)"
        using True False by (subst (asm) select_loop.simps) simp
      moreover have "ifrom \<noteq> - 1 \<or> ''-i'' \<in> set (drop (i + 1) argv)"
        using "1.prems"(2) d False by auto
      ultimately show ?thesis using "1.IH"(3)[OF True False] by blast
    next
      case flag: True
      show ?thesis
      proof (cases "i + 1 < length argv")
        case False
        with "1.prems"(1) True flag show ?thesis
          by (subst (asm) select_loop.simps) simp
      next
        case next_arg: True
        show ?thesis
        proof (cases "argv ! (i + 1) = ''all''")
          case True
          from "1.prems"(1)
          have "select_loop argv (i + 1) 0 (word_of_int (int NUM_INTEGRALS - 1)) = Inr (f, t)"
            using \<open>i < length argv\<close> flag next_arg True
            by (subst (asm) select_loop.simps) simp
          then show ?thesis
            using "1.IH"(1)[OF \<open>i < length argv\<close> flag next_arg True] by simp
        next
          case False
          let ?ito = "word_of_int (atol (argv ! (i + 1))) :: 32 word"
          from "1.prems"(1) have
            ok: "\<not> (sint ?ito < 0 \<or> sint ?ito \<ge> int NUM_INTEGRALS)" and
            run: "select_loop argv (i + 1) ?ito ?ito = Inr (f, t)"
            using \<open>i < length argv\<close> flag next_arg False
            by (subst (asm) select_loop.simps; simp add: Let_def split: if_splits)+
          from valid_index_not_minus_one[OF ok] have "?ito \<noteq> - 1" .
          then show ?thesis
            using "1.IH"(2)[OF \<open>i < length argv\<close> flag next_arg False refl ok run] by blast
        qed
      qed
    qed
  qed
qed

lemma select_loop_skip:
  "i \<le> k \<Longrightarrow> k \<le> length argv \<Longrightarrow> ''-i'' \<notin> set (take (k - i) (drop i argv)) \<Longrightarrow>
   select_loop argv i ifrom ito = select_loop argv k ifrom ito"
proof (induction "k - i" arbitrary: i)
  case 0
  then show ?case by simp
next
  case (Suc n)
  then have lt: "i < k" "i < length argv" by simp_all
  then have d: "drop i argv = argv ! i # drop (i + 1) argv"
    by (simp add: Cons_nth_drop_Suc)
  have k: "k - i = Suc (k - (i + 1))" using lt by simp
  from Suc.prems(3) have ni: "argv ! i \<noteq> ''-i''"
    and rest: "''-i'' \<notin> set (take (k - (i + 1)) (drop (i + 1) argv))"
    unfolding d k by auto
  have "select_loop argv i ifrom ito = select_loop argv (i + 1) ifrom ito"
    using lt ni by (subst select_loop.simps) simp
  also have "\<dots> = select_loop argv k ifrom ito"
    using Suc.hyps(1)[of "i + 1"] Suc.hyps(2) lt Suc.prems(2) rest by simp
  finally show ?case .
qed


lemma main_no_flag:
  assumes "''-i'' \<notin> set (tl argv)"
  shows "main argv = Stopped (usage_text @ catalogue_text @ [nl]) (Return 1)"
proof -
  have "''-i'' \<notin> set (drop 1 argv)" using assms by (simp add: drop_Suc)
  then have "select_loop argv 1 (- 1) (- 1) = Inr (- 1, - 1)" by (rule select_loop_no_flag)
  then show ?thesis by (simp add: main_def)
qed

lemma main_flag:
  assumes "''-i'' \<in> set (tl argv)"
  shows "main argv \<noteq> Stopped (usage_text @ catalogue_text @ [nl]) (Return 1)"
proof (cases "select_loop argv 1 (- 1) (- 1)")
  case (Inl e)
  then show ?thesis by (simp add: main_def)
next
  case (Inr p)
  obtain f t where p: "p = (f, t)" by (cases p)
  have "''-i'' \<in> set (drop 1 argv)" using assms by (simp add: drop_Suc)
  with Inr p have "f \<noteq> - 1" using select_loop_flag[of argv 1 "- 1" "- 1" f t] by simp
  then show ?thesis using Inr p by (simp add: main_def)
qed

lemma main_bad_index:
  assumes argv: "argv = pre @ [''-i'', s] @ post" and pre: "pre \<noteq> []"
    and first: "''-i'' \<notin> set (tl pre)" and s: "s \<noteq> ''all''"
    and bad: "sint (word_of_int (atol s) :: 32 word) < 0
              \<or> sint (word_of_int (atol s) :: 32 word) \<ge> 24"
  shows "main argv = Stopped [] (Die Abort)"
proof -
  let ?k = "length pre"
  have k1: "1 \<le> ?k" using pre by (cases pre) simp_all
  have kl: "?k \<le> length argv" using argv by simp
  have "take (?k - 1) (drop 1 argv) = tl pre"
    using argv pre by (cases pre) (simp_all add: drop_Suc)
  with first have "''-i'' \<notin> set (take (?k - 1) (drop 1 argv))" by simp
  from select_loop_skip[OF k1 kl this]
  have "select_loop argv 1 (- 1) (- 1) = select_loop argv ?k (- 1) (- 1)" .
  also have "\<dots> = Inl Abort"
    using argv s bad
    by (subst select_loop.simps) (simp add: nth_append NUM_INTEGRALS_def Let_def)
  finally show ?thesis by (simp add: main_def)
qed

text \<open>
  Claim C6, as amended. With no \<open>-i\<close> among the arguments the program prints the usage
  text and the catalogue of all 24 descriptions, each as \<open>I<k> = <description>\<close>, and
  returns 1; with an \<open>-i\<close> among them it never ends that way. When the first \<open>-i\<close> is
  followed by a string other than \<open>all\<close> whose value, as the \<open>int\<close> stored in \<open>ito\<close>, is
  outside \<open>0 .. 23\<close>, the program aborts and has printed nothing.
\<close>

theorem main_selection:
  "(''-i'' \<notin> set (tl argv) \<longrightarrow>
      main argv = Stopped (usage_text @ catalogue_text @ [nl]) (Return 1)) \<and>
   (''-i'' \<in> set (tl argv) \<longrightarrow>
      main argv \<noteq> Stopped (usage_text @ catalogue_text @ [nl]) (Return 1)) \<and>
   (argv = pre @ [''-i'', s] @ post \<and> pre \<noteq> [] \<and> ''-i'' \<notin> set (tl pre) \<and> s \<noteq> ''all'' \<and>
    (sint (word_of_int (atol s) :: 32 word) < 0 \<or> sint (word_of_int (atol s) :: 32 word) \<ge> 24)
      \<longrightarrow> main argv = Stopped [] (Die Abort)) \<and>
   length catalogue_text = 24 \<and> length descr = 24 \<and>
   (\<forall>k < 24. catalogue_text ! k = ''I'' @ dec k @ '' = '' @ descr ! k @ nl)"
proof (intro conjI impI)
  show "length catalogue_text = 24" "length descr = 24"
    by (simp_all add: catalogue_text_def NUM_INTEGRALS_def descr_def)
  show "\<forall>k < 24. catalogue_text ! k = ''I'' @ dec k @ '' = '' @ descr ! k @ nl"
    by (simp add: catalogue_text_def NUM_INTEGRALS_def)
qed (auto intro: main_no_flag main_bad_index dest: main_flag)


text \<open>The theorem at the command lines \<open>integrals\<close>, \<open>integrals -i 7\<close> and
  \<open>integrals -i -1\<close>, with the last line of the catalogue.\<close>

theorem main_selection_witness:
  "''-i'' \<notin> set (tl [''integrals'']) \<and>
   main [''integrals''] = Stopped (usage_text @ catalogue_text @ [nl]) (Return 1) \<and>
   ''-i'' \<in> set (tl [''integrals'', ''-i'', ''7'']) \<and>
   main [''integrals'', ''-i'', ''7'']
     \<noteq> Stopped (usage_text @ catalogue_text @ [nl]) (Return 1) \<and>
   [''integrals'', ''-i'', ''-1''] = [''integrals''] @ [''-i'', ''-1''] @ [] \<and>
   sint (word_of_int (atol ''-1'') :: 32 word) < 0 \<and>
   main [''integrals'', ''-i'', ''-1''] = Stopped [] (Die Abort) \<and>
   catalogue_text ! 23 = ''I23 = int_0^{1000} W_0(x) dx'' @ nl"
proof -
  have a: "''-i'' \<notin> set (tl [''integrals''])" by simp
  have b: "''-i'' \<in> set (tl [''integrals'', ''-i'', ''7''])" by simp
  have c: "[''integrals'', ''-i'', ''-1''] = [''integrals''] @ [''-i'', ''-1''] @ []" by simp
  have d: "[''integrals''] \<noteq> []" "''-i'' \<notin> set (tl [''integrals''])" "''-1'' \<noteq> ''all''"
    by simp_all
  have e: "sint (word_of_int (atol ''-1'') :: 32 word) < 0"
    by (simp add: atol_def isspace_def isdigit_def LONG_MIN_def)
  have f: "(23::nat) < 24" by simp
  have g: "dec 23 = ''23''" by (simp add: dec.simps)
  have h: "descr ! 23 = ''int_0^{1000} W_0(x) dx''" by (simp add: descr_def)
  note t1 = main_selection[of "[''integrals'']"]
  note t2 = main_selection[of "[''integrals'', ''-i'', ''7'']"]
  note t3 = main_selection[of "[''integrals'', ''-i'', ''-1'']" "[''integrals'']" "''-1''" "[]"]
  have k: "catalogue_text ! 23 = ''I23 = int_0^{1000} W_0(x) dx'' @ nl"
    using t1 f g h by simp
  show ?thesis
    using a b c d e k t1 t2 t3 by blast
qed

text \<open>The claim as stated fails for an invalid index: \<open>integrals -i 24\<close> aborts, with
  nothing printed, instead of printing the usage text and returning 1.\<close>

theorem main_selection_counterexample:
  "atol ''24'' = 24 \<and>
   main [''integrals'', ''-i'', ''24''] = Stopped [] (Die Abort) \<and>
   main [''integrals'', ''-i'', ''24'']
     \<noteq> Stopped (usage_text @ catalogue_text @ [nl]) (Return 1)"
proof -
  have a: "atol ''24'' = 24"
    by (simp add: atol_def isspace_def isdigit_def LONG_MAX_def)
  have "select_loop [''integrals'', ''-i'', ''24''] 1 (- 1) (- 1) = Inl Abort"
    by (subst select_loop.simps) (simp add: a NUM_INTEGRALS_def)
  then have "main [''integrals'', ''-i'', ''24''] = Stopped [] (Die Abort)"
    by (simp add: main_def)
  then show ?thesis using a by simp
qed

section \<open>Tail bounds of the truncated integrals\<close>

lemma add_error_widened:
  "s\<lparr>acb_realref := arb_add_error (acb_realref s) e\<rparr> = widened s (arb_get_mag e)"
  "s\<lparr>acb_realref := arb_add_error_2exp_si (acb_realref s) k\<rparr> = widened s (Mag (pow2 (sint k)))"
  by (simp_all add: widened_def arb_add_error_def arb_add_error_2exp_si_def)

lemma set_d_finite: "acb_is_finite (acb_set_d d) \<longleftrightarrow> arf_is_finite d"
  by (simp add: acb_is_finite_def acb_set_d_def arb_set_d_def arb_is_finite_def arb_zero_def)

lemma one_zero_finite: "acb_is_finite acb_one" "acb_is_finite acb_zero"
  by (simp_all add: acb_is_finite_def acb_one_def acb_zero_def arb_one_def arb_zero_def
      arb_is_finite_def)

lemma mul_2exp_finite: "acb_is_finite z \<Longrightarrow> acb_is_finite (acb_mul_2exp_si z e)"
  by (cases "arb_midref (acb_realref z)"; cases "arb_radref (acb_realref z)";
      cases "arb_midref (acb_imagref z)"; cases "arb_radref (acb_imagref z)")
     (simp_all add: acb_is_finite_def acb_mul_2exp_si_def arb_mul_2exp_si_def arb_is_finite_def)

text \<open>
  Claim C5. In each of the cases 2, 14, 17, 18, 19 and 20 the engine is called once, on
  the truncated segment, whose end points are finite balls (for cases 14, 17 and 18:
  when the \<open>double\<close> is finite); the enclosure left in \<open>s\<close> is the enclosure the engine
  returned, widened: the tail bound is added to the radius of its real part, the midpoint
  of the real part and the imaginary part stay as they were. Case 2 then doubles the
  widened enclosure. Cases 19 and 20 apply to a goal that is not negative (they abort
  otherwise).
\<close>

theorem tail_bound_added:
  "arb_midref (acb_realref (widened s e)) = arb_midref (acb_realref s) \<and>
   arb_radref (acb_realref (widened s e)) = mag_add (arb_radref (acb_realref s)) e \<and>
   acb_imagref (widened s e) = acb_imagref s \<and>
   integral_2 L E goal tol opts prec h =
     then_do (acb_calc_integrate E (f_atanderiv L) Null
                (acb_set_d (Arf 0)) (acb_mul_2exp_si acb_one goal) goal tol opts prec h)
       (\<lambda>s h. (Inr (acb_mul_2exp_si (widened s (Mag (pow2 (sint (- goal))))) 1), h)) \<and>
   acb_is_finite (acb_set_d (Arf 0)) \<and> acb_is_finite (acb_mul_2exp_si acb_one goal) \<and>
   integral_14 L E D goal tol opts prec h =
     (let b = acb_set_d (trunc_14 D goal)
      in then_do (acb_calc_integrate E (f_gaussian L) Null
                    (acb_set_d (Arf 0)) b goal tol opts prec h)
           (\<lambda>s h. (Inr (widened s (arb_get_mag (acb_realref
                      (acb_exp L (acb_neg (acb_mul L b b prec)) prec)))), h))) \<and>
   (arf_is_finite (trunc_14 D goal) \<longrightarrow> acb_is_finite (acb_set_d (trunc_14 D goal))) \<and>
   integral_17 L E D goal tol opts prec h =
     (let b = acb_set_d (trunc_17 D goal)
      in then_do (acb_calc_integrate E (f_sech L) Null
                    (acb_set_d (Arf 0)) b goal tol opts prec h)
           (\<lambda>s h. (Inr (widened s (arb_get_mag (acb_realref
                      (acb_mul_2exp_si (acb_exp L (acb_neg b) prec) 1)))), h))) \<and>
   (arf_is_finite (trunc_17 D goal) \<longrightarrow> acb_is_finite (acb_set_d (trunc_17 D goal))) \<and>
   integral_18 L E D goal tol opts prec h =
     (let b = acb_set_d (trunc_18 D goal)
      in then_do (acb_calc_integrate E (f_sech3 L) Null
                    (acb_set_d (Arf 0)) b goal tol opts prec h)
           (\<lambda>s h. (Inr (widened s (arb_get_mag (acb_realref
                      (acb_div_ui L (acb_mul_2exp_si
                         (acb_exp L (acb_mul_ui L (acb_neg b) 3 prec) prec) 3) 3 prec)))),
                   h))) \<and>
   (arf_is_finite (trunc_18 D goal) \<longrightarrow> acb_is_finite (acb_set_d (trunc_18 D goal))) \<and>
   (\<not> sint goal < 0 \<longrightarrow>
      integral_19 L E aN goal tol opts prec h =
        (let N = goal + FLINT_BIT_COUNT goal
         in then_do (acb_calc_integrate E (f_log_div1p L) Null
                       (acb_mul_2exp_si acb_one (- N)) acb_one goal tol opts prec
                       (h(aN \<mapsto> N)))
              (\<lambda>s h. (Inr (widened s (arb_get_mag (acb_realref
                         (acb_mul_2exp_si (acb_set_ui (N + 1)) (- N))))), h))) \<and>
      integral_20 L E aN goal tol opts prec h =
        (let N = goal + FLINT_BIT_COUNT goal
         in then_do (acb_calc_integrate E (f_log_div1p_transformed L) Null
                       acb_zero (acb_set_ui N) goal tol opts prec (h(aN \<mapsto> N)))
              (\<lambda>s h. (Inr (widened s (arb_get_mag (acb_realref
                         (acb_mul_ui L (acb_exp L (acb_neg (acb_set_ui N)) prec)
                            (N + 1) prec)))), h)))) \<and>
   acb_is_finite (acb_mul_2exp_si acb_one (- N)) \<and> acb_is_finite acb_one \<and>
   acb_is_finite acb_zero \<and> acb_is_finite (acb_set_ui N)"
  by (simp add: widened_def integral_2_def integral_14_def integral_17_def integral_18_def
      integral_19_def integral_20_def add_error_widened[unfolded widened_def] Let_def
      set_d_finite one_zero_finite mul_2exp_finite acb_set_ui_def)


text \<open>The theorem at the goal 2, with the engine that delivers \<open>1 \<plusminus> 1/4\<close>: case 2 adds
  \<open>2^(-2)\<close> to the radius and doubles, case 19 sets \<open>N = 4\<close> and adds \<open>5/16\<close>.\<close>

theorem tail_bound_added_witness:
  "arf_is_finite (trunc_14 doubles_goal_2 2) \<and> arf_is_finite (trunc_17 doubles_goal_2 2) \<and>
   arf_is_finite (trunc_18 doubles_goal_2 2) \<and> \<not> sint (2::slong) < 0 \<and>
   integral_2 exact_lib one_probe_engine 2 (Mag 0) acb_calc_integrate_opt_init 64 empty_heap
     = (Inr (acb_box 2 1 0 0), empty_heap) \<and>
   integral_19 exact_lib one_probe_engine 0 2 (Mag 0) acb_calc_integrate_opt_init 64 empty_heap
     = (Inr (acb_box 1 (9/16) 0 0), empty_heap(0 \<mapsto> 4))"
proof -
  have d: "arf_is_finite (trunc_14 doubles_goal_2 2)" "arf_is_finite (trunc_17 doubles_goal_2 2)"
    "arf_is_finite (trunc_18 doubles_goal_2 2)"
    by (simp_all add: doubles_goal_2_def)
  have g: "\<not> sint (2::slong) < 0" by simp
  have b: "FLINT_BIT_COUNT 2 = 2"
    by (simp add: FLINT_BIT_COUNT_def bit_length.simps)
  note t = tail_bound_added[of "acb_box 1 (1/4) 0 0" "Mag (1/4)" exact_lib one_probe_engine 2
      "Mag 0" acb_calc_integrate_opt_init 64 empty_heap doubles_goal_2 0 4]
  have i2: "integral_2 exact_lib one_probe_engine 2 (Mag 0) acb_calc_integrate_opt_init 64
      empty_heap = (Inr (acb_box 2 1 0 0), empty_heap)"
    unfolding t[THEN conjunct2, THEN conjunct2, THEN conjunct2, THEN conjunct1]
    by (simp add: acb_calc_integrate_def one_probe_engine_def then_do_def f_atanderiv_def
        widened_def acb_box_def arb_ball_def acb_mul_2exp_si_def arb_mul_2exp_si_def
        pow2_def Let_def)
  have i19: "integral_19 exact_lib one_probe_engine 0 2 (Mag 0) acb_calc_integrate_opt_init 64
      empty_heap = (Inr (acb_box 1 (9/16) 0 0), empty_heap(0 \<mapsto> 4))"
    using t g
    by (simp add: acb_calc_integrate_def one_probe_engine_def then_do_def f_log_div1p_def
        widened_def acb_box_def arb_ball_def acb_mul_2exp_si_def arb_mul_2exp_si_def
        acb_set_ui_def acb_set_d_def arb_set_d_def arb_get_mag_def acb_one_def arb_one_def
        arb_zero_def b pow2_def Let_def)
  show ?thesis using d g i2 i19 by simp
qed

section \<open>Properties of the boolean matrix complement\<close>

lemma set_entry_dims [simp]:
  "mat_r (bool_mat_set_entry m i j v) = mat_r m"
  "mat_c (bool_mat_set_entry m i j v) = mat_c m"
  "length (mat_rows (bool_mat_set_entry m i j v)) = length (mat_rows m)"
  by (simp_all add: bool_mat_set_entry_def)

lemma set_entry_row_length [simp]:
  "length (mat_rows (bool_mat_set_entry m i j v) ! k) = length (mat_rows m ! k)"
  by (cases "i < length (mat_rows m)")
     (auto simp: bool_mat_set_entry_def nth_list_update list_update_beyond)

lemma get_set_entry:
  "i < length (mat_rows m) \<Longrightarrow> j < length (mat_rows m ! i) \<Longrightarrow>
   bool_mat_get_entry (bool_mat_set_entry m i j v) i' j' =
     (if i' = i \<and> j' = j then v else bool_mat_get_entry m i' j')"
  by (auto simp: bool_mat_set_entry_def bool_mat_get_entry_def nth_list_update)

lemma cols_dims [simp]:
  "mat_r (complement_cols dest src i j) = mat_r dest"
  "mat_c (complement_cols dest src i j) = mat_c dest"
  "length (mat_rows (complement_cols dest src i j)) = length (mat_rows dest)"
  "length (mat_rows (complement_cols dest src i j) ! k) = length (mat_rows dest ! k)"
  by (induction dest src i j rule: complement_cols.induct;
      subst complement_cols.simps; simp)+

lemma cols_get:
  "i < length (mat_rows dest) \<Longrightarrow> bool_mat_ncols src \<le> length (mat_rows dest ! i) \<Longrightarrow>
   bool_mat_get_entry (complement_cols dest src i j) i' j' =
     (if i' = i \<and> j \<le> j' \<and> j' < bool_mat_ncols src
      then \<not> bool_mat_get_entry src i j' else bool_mat_get_entry dest i' j')"
proof (induction dest src i j rule: complement_cols.induct)
  case (1 dest src i j)
  show ?case
  proof (cases "j < bool_mat_ncols src")
    case True
    then show ?thesis
      using 1 by (subst complement_cols.simps) (auto simp: get_set_entry)
  next
    case False
    then show ?thesis by (subst complement_cols.simps) auto
  qed
qed

lemma rows_dims [simp]:
  "mat_r (complement_rows dest src i) = mat_r dest"
  "mat_c (complement_rows dest src i) = mat_c dest"
  "length (mat_rows (complement_rows dest src i)) = length (mat_rows dest)"
  "length (mat_rows (complement_rows dest src i) ! k) = length (mat_rows dest ! k)"
  by (induction dest src i rule: complement_rows.induct;
      subst complement_rows.simps; simp)+

lemma rows_get:
  "bool_mat_nrows src \<le> length (mat_rows dest) \<Longrightarrow>
   \<forall>k < bool_mat_nrows src. bool_mat_ncols src \<le> length (mat_rows dest ! k) \<Longrightarrow>
   bool_mat_get_entry (complement_rows dest src i) i' j' =
     (if i \<le> i' \<and> i' < bool_mat_nrows src \<and> j' < bool_mat_ncols src
      then \<not> bool_mat_get_entry src i' j' else bool_mat_get_entry dest i' j')"
proof (induction dest src i rule: complement_rows.induct)
  case (1 dest src i)
  show ?case
  proof (cases "i < bool_mat_nrows src")
    case True
    then show ?thesis
      using 1 by (subst complement_rows.simps) (auto simp: cols_get)
  next
    case False
    then show ?thesis by (subst complement_rows.simps) auto
  qed
qed

lemma bool_mat_eqI:
  assumes "bool_mat_wf a" "bool_mat_wf b" "same_shape a b"
    and "\<And>i j. i < mat_r a \<Longrightarrow> j < mat_c a \<Longrightarrow> bool_mat_get_entry a i j = bool_mat_get_entry b i j"
  shows "a = b"
proof -
  have "mat_rows a = mat_rows b"
  proof (rule nth_equalityI)
    show "length (mat_rows a) = length (mat_rows b)"
      using assms(1-3) by (simp add: bool_mat_wf_def same_shape_def)
  next
    fix i assume i: "i < length (mat_rows a)"
    then have ia: "i < mat_r a" and ib: "i < length (mat_rows b)"
      using assms(1-3) by (simp_all add: bool_mat_wf_def same_shape_def)
    have la: "length (mat_rows a ! i) = mat_c a"
      using assms(1) i by (simp add: bool_mat_wf_def list_all_length)
    have lb: "length (mat_rows b ! i) = mat_c a"
      using assms(2,3) ib by (simp add: bool_mat_wf_def same_shape_def list_all_length)
    show "mat_rows a ! i = mat_rows b ! i"
    proof (rule nth_equalityI)
      show "length (mat_rows a ! i) = length (mat_rows b ! i)" using la lb by simp
    next
      fix j assume "j < length (mat_rows a ! i)"
      then have "j < mat_c a" using la by simp
      from assms(4)[OF ia this] show "mat_rows a ! i ! j = mat_rows b ! i ! j"
        by (simp add: bool_mat_get_entry_def)
    qed
  qed
  then show ?thesis
    using assms(3) by (simp add: same_shape_def)
qed

lemma complement_wf:
  "bool_mat_wf dest \<Longrightarrow> bool_mat_wf (bool_mat_complement dest src)"
  by (simp add: bool_mat_wf_def bool_mat_complement_def list_all_length)

lemma complement_shape:
  "same_shape (bool_mat_complement dest src) dest"
  by (simp add: same_shape_def bool_mat_complement_def)

lemma complement_get:
  assumes "bool_mat_wf dest" "same_shape dest src" "i < mat_r src" "j < mat_c src"
  shows "bool_mat_get_entry (bool_mat_complement dest src) i j = (\<not> bool_mat_get_entry src i j)"
proof -
  have ne: "\<not> bool_mat_is_empty src"
    using assms(3,4) by (auto simp: bool_mat_is_empty_def)
  have "bool_mat_nrows src \<le> length (mat_rows dest)"
    using assms(1,2) by (simp add: bool_mat_wf_def same_shape_def bool_mat_nrows_def)
  moreover have "\<forall>k < bool_mat_nrows src. bool_mat_ncols src \<le> length (mat_rows dest ! k)"
    using assms(1,2)
    by (simp add: bool_mat_wf_def same_shape_def bool_mat_nrows_def bool_mat_ncols_def
          list_all_length)
  ultimately show ?thesis
    using ne assms(3,4)
    by (simp add: bool_mat_complement_def rows_get bool_mat_nrows_def bool_mat_ncols_def)
qed

text \<open>
  Claim C10. When \<open>src\<close> is empty, \<open>bool_mat_complement\<close> returns at once and \<open>dest\<close> is
  untouched. Otherwise, for initialised matrices of the same shape, every entry of \<open>dest\<close>
  becomes the negation of the entry of \<open>src\<close> at the same place; and complementing twice,
  through any initialised intermediate \<open>tmp\<close> of the same shape, gives back \<open>src\<close>.
\<close>

theorem bool_mat_complement_spec:
  "(bool_mat_is_empty src \<longrightarrow> bool_mat_complement dest src = dest) \<and>
   (bool_mat_wf src \<and> bool_mat_wf dest \<and> same_shape dest src \<longrightarrow>
      (\<forall>i < bool_mat_nrows src. \<forall>j < bool_mat_ncols src.
          bool_mat_get_entry (bool_mat_complement dest src) i j
            = (\<not> bool_mat_get_entry src i j)) \<and>
      (\<forall>tmp. bool_mat_wf tmp \<and> same_shape tmp src \<longrightarrow>
          bool_mat_complement dest (bool_mat_complement tmp src) = src))"
proof (intro conjI impI allI)
  assume "bool_mat_is_empty src"
  then show "bool_mat_complement dest src = dest"
    by (simp add: bool_mat_complement_def)
next
  fix i j
  assume "bool_mat_wf src \<and> bool_mat_wf dest \<and> same_shape dest src"
    and "i < bool_mat_nrows src" and "j < bool_mat_ncols src"
  then show "bool_mat_get_entry (bool_mat_complement dest src) i j
               = (\<not> bool_mat_get_entry src i j)"
    by (simp add: complement_get bool_mat_nrows_def bool_mat_ncols_def)
next
  fix tmp
  assume a: "bool_mat_wf src \<and> bool_mat_wf dest \<and> same_shape dest src"
    and t: "bool_mat_wf tmp \<and> same_shape tmp src"
  let ?mid = "bool_mat_complement tmp src"
  have mid_wf: "bool_mat_wf ?mid" using t by (simp add: complement_wf)
  have mid_shape: "same_shape ?mid src"
    using t complement_shape[of tmp src] by (simp add: same_shape_def)
  have dm: "same_shape dest ?mid" using a mid_shape by (simp add: same_shape_def)
  show "bool_mat_complement dest ?mid = src"
  proof (rule bool_mat_eqI)
    show "bool_mat_wf (bool_mat_complement dest ?mid)" using a by (simp add: complement_wf)
    show "bool_mat_wf src" using a by simp
    show "same_shape (bool_mat_complement dest ?mid) src"
      using a complement_shape[of dest ?mid] by (simp add: same_shape_def)
  next
    fix i j
    assume "i < mat_r (bool_mat_complement dest ?mid)" "j < mat_c (bool_mat_complement dest ?mid)"
    then have ij: "i < mat_r src" "j < mat_c src"
      using a complement_shape[of dest ?mid] by (simp_all add: same_shape_def)
    then have ij': "i < mat_r ?mid" "j < mat_c ?mid"
      using mid_shape by (simp_all add: same_shape_def)
    have "bool_mat_get_entry (bool_mat_complement dest ?mid) i j
            = (\<not> bool_mat_get_entry ?mid i j)"
      using a dm ij' by (simp add: complement_get)
    also have "bool_mat_get_entry ?mid i j = (\<not> bool_mat_get_entry src i j)"
      using t ij by (simp add: complement_get)
    finally show "bool_mat_get_entry (bool_mat_complement dest ?mid) i j
                    = bool_mat_get_entry src i j" by simp
  qed
qed

text \<open>The theorem at an empty \<open>0 \<times> 2\<close> matrix and at the \<open>1 \<times> 2\<close> matrix \<open>[[1, 0]]\<close>.\<close>

theorem bool_mat_complement_spec_witness:
  "bool_mat_is_empty mat_empty \<and> bool_mat_complement mat_fresh mat_empty = mat_fresh \<and>
   bool_mat_wf mat_ex \<and> bool_mat_wf mat_fresh \<and> same_shape mat_fresh mat_ex \<and>
   (0::nat) < bool_mat_nrows mat_ex \<and> (1::nat) < bool_mat_ncols mat_ex \<and>
   bool_mat_get_entry (bool_mat_complement mat_fresh mat_ex) 0 1 = (\<not> bool_mat_get_entry mat_ex 0 1) \<and>
   bool_mat_complement mat_fresh (bool_mat_complement mat_fresh mat_ex) = mat_ex"
proof -
  have e: "bool_mat_is_empty mat_empty" by (simp add: bool_mat_is_empty_def mat_empty_def)
  have w: "bool_mat_wf mat_ex \<and> bool_mat_wf mat_fresh \<and> same_shape mat_fresh mat_ex"
    by (simp add: bool_mat_wf_def same_shape_def mat_ex_def mat_fresh_def)
  have d: "(0::nat) < bool_mat_nrows mat_ex \<and> (1::nat) < bool_mat_ncols mat_ex"
    by (simp add: bool_mat_nrows_def bool_mat_ncols_def mat_ex_def)
  show ?thesis
    using e w d bool_mat_complement_spec[of mat_empty mat_fresh]
      bool_mat_complement_spec[of mat_ex mat_fresh]
    by blast
qed

end
